theory Spec2Isabelle
  imports Complex_Main
begin

section \<open>Floating-point values\<close>

text \<open>
  The arrays of \<^verbatim>\<open>contaminante/utils.py\<close> hold IEEE doubles.  A value is a finite
  number, one of the two infinities, or NaN.  The sign of a zero is not tracked: a zero
  denominator is read as \<open>+0\<close>.  What numpy does with NaN, with the infinities and with a
  division by zero (a value, never an exception) is written out.

  The arithmetic of the machine is a parameter \<open>F\<close> of every function that computes.
  \<open>rnd F x\<close> is what the exact result \<open>x\<close> of one operation on finite operands becomes:
  the nearest double, or an infinity when it overflows.  \<open>reduce_order F\<close> is the order in
  which numpy's \<^verbatim>\<open>add.reduce\<close> adds up the entries of an array, given the addition (numpy
  sums in blocks and pairwise, not from left to right).  Negation, absolute value and the
  comparisons do not round.  The properties proved below hold whatever \<open>F\<close> is.
\<close>

datatype fl = Fin real | PInf | NInf | NaN

datatype error =
  IndexError | ValueError | TypeError | OverflowError | ZeroDivisionError | LinAlgError

type_synonym vec = "fl list"
type_synonym mat = "fl list list"

record arith =
  rnd :: "real \<Rightarrow> fl"
  reduce_order :: "(fl \<Rightarrow> fl \<Rightarrow> fl) \<Rightarrow> fl list \<Rightarrow> fl"

definition ebind :: "error + 'a \<Rightarrow> ('a \<Rightarrow> error + 'b) \<Rightarrow> error + 'b" where
  "ebind m f = (case m of Inl e \<Rightarrow> Inl e | Inr x \<Rightarrow> f x)"

fun isfinite :: "fl \<Rightarrow> bool" where
  "isfinite (Fin x) = True"
| "isfinite PInf = False"
| "isfinite NInf = False"
| "isfinite NaN = False"

fun fl_neg :: "fl \<Rightarrow> fl" where
  "fl_neg (Fin x) = Fin (- x)"
| "fl_neg PInf = NInf"
| "fl_neg NInf = PInf"
| "fl_neg NaN = NaN"

fun fl_abs :: "fl \<Rightarrow> fl" where
  "fl_abs (Fin x) = Fin \<bar>x\<bar>"
| "fl_abs PInf = PInf"
| "fl_abs NInf = PInf"
| "fl_abs NaN = NaN"

fun fl_add :: "arith \<Rightarrow> fl \<Rightarrow> fl \<Rightarrow> fl" where
  "fl_add F (Fin x) (Fin y) = rnd F (x + y)"
| "fl_add F (Fin x) PInf = PInf"
| "fl_add F (Fin x) NInf = NInf"
| "fl_add F PInf (Fin y) = PInf"
| "fl_add F PInf PInf = PInf"
| "fl_add F PInf NInf = NaN"
| "fl_add F NInf (Fin y) = NInf"
| "fl_add F NInf NInf = NInf"
| "fl_add F NInf PInf = NaN"
| "fl_add F NaN y = NaN"
| "fl_add F x NaN = NaN"

definition fl_sub :: "arith \<Rightarrow> fl \<Rightarrow> fl \<Rightarrow> fl" where
  "fl_sub F x y = fl_add F x (fl_neg y)"

text \<open>An infinity times a finite factor: NaN at zero, else the sign of the product.\<close>

definition inf_times :: "bool \<Rightarrow> real \<Rightarrow> fl" where
  "inf_times pos y = (if y = 0 then NaN else if (0 < y) = pos then PInf else NInf)"

fun fl_mul :: "arith \<Rightarrow> fl \<Rightarrow> fl \<Rightarrow> fl" where
  "fl_mul F (Fin x) (Fin y) = rnd F (x * y)"
| "fl_mul F (Fin x) PInf = inf_times True x"
| "fl_mul F (Fin x) NInf = inf_times False x"
| "fl_mul F PInf (Fin y) = inf_times True y"
| "fl_mul F NInf (Fin y) = inf_times False y"
| "fl_mul F PInf PInf = PInf"
| "fl_mul F PInf NInf = NInf"
| "fl_mul F NInf PInf = NInf"
| "fl_mul F NInf NInf = PInf"
| "fl_mul F NaN y = NaN"
| "fl_mul F x NaN = NaN"

fun fl_div :: "arith \<Rightarrow> fl \<Rightarrow> fl \<Rightarrow> fl" where
  "fl_div F (Fin x) (Fin y) =
     (if y = 0 then (if x = 0 then NaN else if 0 < x then PInf else NInf) else rnd F (x / y))"
| "fl_div F (Fin x) PInf = Fin 0"
| "fl_div F (Fin x) NInf = Fin 0"
| "fl_div F PInf (Fin y) = (if 0 \<le> y then PInf else NInf)"
| "fl_div F NInf (Fin y) = (if 0 \<le> y then NInf else PInf)"
| "fl_div F PInf PInf = NaN"
| "fl_div F PInf NInf = NaN"
| "fl_div F NInf PInf = NaN"
| "fl_div F NInf NInf = NaN"
| "fl_div F NaN y = NaN"
| "fl_div F x NaN = NaN"

text \<open>Comparisons: every comparison with NaN is false, except \<open>!=\<close>.\<close>

fun fl_gt :: "fl \<Rightarrow> fl \<Rightarrow> bool" where
  "fl_gt (Fin x) (Fin y) = (y < x)"
| "fl_gt (Fin x) NInf = True"
| "fl_gt PInf (Fin y) = True"
| "fl_gt PInf NInf = True"
| "fl_gt (Fin x) PInf = False"
| "fl_gt NInf y = False"
| "fl_gt PInf PInf = False"
| "fl_gt NaN y = False"
| "fl_gt x NaN = False"

fun fl_eq :: "fl \<Rightarrow> fl \<Rightarrow> bool" where
  "fl_eq (Fin x) (Fin y) = (x = y)"
| "fl_eq PInf PInf = True"
| "fl_eq NInf NInf = True"
| "fl_eq NaN y = False"
| "fl_eq x NaN = False"
| "fl_eq (Fin x) PInf = False"
| "fl_eq (Fin x) NInf = False"
| "fl_eq PInf (Fin y) = False"
| "fl_eq PInf NInf = False"
| "fl_eq NInf (Fin y) = False"
| "fl_eq NInf PInf = False"

fun fl_sqrt :: "arith \<Rightarrow> fl \<Rightarrow> fl" where
  "fl_sqrt F (Fin x) = (if x < 0 then NaN else rnd F (sqrt x))"
| "fl_sqrt F PInf = PInf"
| "fl_sqrt F NInf = NaN"
| "fl_sqrt F NaN = NaN"

text \<open>
  \<^verbatim>\<open>a ** n\<close> for a whole exponent (2 and 3 in the source): one rounding of the exact
  power.
\<close>

fun fl_pow :: "arith \<Rightarrow> fl \<Rightarrow> nat \<Rightarrow> fl" where
  "fl_pow F (Fin x) n = rnd F (x ^ n)"
| "fl_pow F PInf n = (if n = 0 then Fin 1 else PInf)"
| "fl_pow F NInf n = (if n = 0 then Fin 1 else if even n then PInf else NInf)"
| "fl_pow F NaN n = (if n = 0 then Fin 1 else NaN)"

definition b2f :: "bool \<Rightarrow> fl" where
  "b2f b = (if b then Fin 1 else Fin 0)"

text \<open>
  \<^verbatim>\<open>a.sum()\<close> is numpy's reduction, zero on an empty array, and \<^verbatim>\<open>a.mean()\<close> the sum
  divided by the number of entries; the mean of an empty array is \<open>0/0\<close>, NaN.  A loop that
  accumulates from zero adds from left to right.
\<close>

definition np_sum :: "arith \<Rightarrow> vec \<Rightarrow> fl" where
  "np_sum F xs = (if xs = [] then Fin 0 else reduce_order F (fl_add F) xs)"

definition fl_mean :: "arith \<Rightarrow> vec \<Rightarrow> fl" where
  "fl_mean F xs = fl_div F (np_sum F xs) (Fin (real (length xs)))"

definition seq_sum :: "arith \<Rightarrow> vec \<Rightarrow> fl" where
  "seq_sum F xs = foldl (fl_add F) (Fin 0) xs"

section \<open>numpy helpers\<close>

text \<open>The largest finite double, which \<^verbatim>\<open>np.nan_to_num\<close> puts in place of an infinity.\<close>

definition DBL_MAX :: real where
  "DBL_MAX = (2 - 1 / 2 ^ 52) * 2 ^ 1023"

fun nan_to_num :: "fl \<Rightarrow> fl" where
  "nan_to_num NaN = Fin 0"
| "nan_to_num PInf = Fin DBL_MAX"
| "nan_to_num NInf = Fin (- DBL_MAX)"
| "nan_to_num (Fin x) = Fin x"

text \<open>\<^verbatim>\<open>a[mask] = 0\<close>: a boolean mask of another length raises IndexError.\<close>

definition mask_zero :: "bool list \<Rightarrow> vec \<Rightarrow> error + vec" where
  "mask_zero m a =
     (if length m \<noteq> length a then Inl IndexError
      else Inr (map2 (\<lambda>b x. if b then Fin 0 else x) m a))"

text \<open>\<^verbatim>\<open>a[mask]\<close> for a mask of the right length.\<close>

definition select :: "bool list \<Rightarrow> 'a list \<Rightarrow> 'a list" where
  "select m a = map snd (filter fst (zip m a))"

text \<open>\<^verbatim>\<open>np.diff\<close> of an array of doubles: each difference is one floating-point subtraction.\<close>

definition np_diff :: "arith \<Rightarrow> real list \<Rightarrow> vec" where
  "np_diff F t = map2 (\<lambda>a b. fl_sub F (Fin b) (Fin a)) t (tl t)"

definition np_where :: "bool list \<Rightarrow> nat list" where
  "np_where bs = filter (\<lambda>i. bs ! i) [0..<length bs]"

text \<open>
  \<^verbatim>\<open>np.array_split(a, indices)\<close>: the slices \<^verbatim>\<open>a[0:i1], a[i1:i2], ..., a[ik:]\<close>.
  The indices that reach it here are positive.
\<close>

definition slice :: "nat \<Rightarrow> nat \<Rightarrow> 'a list \<Rightarrow> 'a list" where
  "slice a b xs = take (b - a) (drop a xs)"

fun split_from :: "nat \<Rightarrow> nat list \<Rightarrow> 'a list \<Rightarrow> 'a list list" where
  "split_from st [] xs = [drop st xs]"
| "split_from st (b # bs) xs = slice st b xs # split_from b bs xs"

definition array_split :: "'a list \<Rightarrow> nat list \<Rightarrow> 'a list list" where
  "array_split xs bs = split_from 0 bs xs"

definition in1d :: "real list \<Rightarrow> real list \<Rightarrow> bool list" where
  "in1d a t = map (\<lambda>x. x \<in> set t) a"

text \<open>
  \<^verbatim>\<open>np.vstack(rows).T\<close> for rows of length \<open>n\<close>: row \<open>i\<close> of the result lists entry \<open>i\<close>
  of every stacked row.
\<close>

definition stack_T :: "nat \<Rightarrow> mat \<Rightarrow> mat" where
  "stack_T n rows = map (\<lambda>i. map (\<lambda>r. r ! i) rows) [0..<n]"

text \<open>\<^verbatim>\<open>np.hstack([A, B])\<close>: the blocks must have the same number of rows.\<close>

definition hstack :: "mat \<Rightarrow> mat \<Rightarrow> error + mat" where
  "hstack A B = (if length A \<noteq> length B then Inl ValueError else Inr (map2 (@) A B))"

definition mmul :: "arith \<Rightarrow> mat \<Rightarrow> mat \<Rightarrow> mat" where
  "mmul F A B = map2 (map2 (fl_mul F)) A B"

definition mpow :: "arith \<Rightarrow> mat \<Rightarrow> nat \<Rightarrow> mat" where
  "mpow F A n = map (map (\<lambda>x. fl_pow F x n)) A"

section \<open>The pixel stamp\<close>

text \<open>
  A target pixel file: the time axis, flux and flux error indexed (cadence, row, column),
  the two pointing corrections per cadence, the pipeline aperture, and the sky coordinates
  that \<^verbatim>\<open>get_coordinates\<close> returns, indexed like the flux.  The time axis holds finite
  doubles; each is given by its value, a real.
\<close>

record stamp =
  time :: "real list"
  flux :: "fl list list list"
  flux_err :: "fl list list list"
  pos_corr1 :: "fl list"
  pos_corr2 :: "fl list"
  pipeline_mask :: "bool list list"
  coord_ra :: "fl list list list"
  coord_dec :: "fl list list list"

section \<open>build_X\<close>

text \<open>Lines 31 to 33: the two pointing corrections after cleaning.\<close>

definition clean_pos_corr :: "vec \<Rightarrow> vec \<Rightarrow> error + (vec \<times> vec)" where
  "clean_pos_corr pc1 pc2 =
     (let r0 = map nan_to_num pc1;
          c0 = map nan_to_num pc2
      in ebind (mask_zero (map (\<lambda>x. fl_gt (fl_abs x) (Fin 10)) r0) r0) (\<lambda>r.
         ebind (mask_zero (map (\<lambda>x. fl_gt (fl_abs x) (Fin 10)) r) c0) (\<lambda>c.
         Inr (r, c))))"

text \<open>
  Lines 35 and 36: the segment boundaries, and the segments they cut the time axis into.
  The literal \<^verbatim>\<open>0.0202\<close> is the double nearest to it, and its product with 10 is rounded.
\<close>

definition breaks :: "arith \<Rightarrow> real list \<Rightarrow> nat list" where
  "breaks F t =
     map nat (filter (\<lambda>b. 0 < b)
       (map (\<lambda>i. int i - 1)
          (np_where (map (\<lambda>d. fl_gt d (fl_mul F (rnd F 0.0202) (Fin 10))) (np_diff F t)))))"

definition segments :: "arith \<Rightarrow> real list \<Rightarrow> real list list" where
  "segments F t = array_split t (breaks F t)"

text \<open>Lines 39 and 44 (\<open>ts0\<close>, \<open>rs0\<close>): one indicator row per segment.\<close>

definition seg_indicators :: "arith \<Rightarrow> real list \<Rightarrow> bool list list" where
  "seg_indicators F t = map (in1d t) (segments F t)"

fun emap :: "('a \<Rightarrow> error + 'b) \<Rightarrow> 'a list \<Rightarrow> error + 'b list" where
  "emap f [] = Inr []"
| "emap f (x # xs) = ebind (f x) (\<lambda>y. ebind (emap f xs) (\<lambda>ys. Inr (y # ys)))"

text \<open>Line 40 (\<open>ts1\<close>): \<^verbatim>\<open>t[-1]\<close> raises on an empty segment.\<close>

definition ts1_row :: "arith \<Rightarrow> real list \<Rightarrow> real list \<Rightarrow> error + vec" where
  "ts1_row F t s =
     (if s = [] then Inl IndexError
      else Inr (map (\<lambda>x. fl_div F
                           (fl_mul F (b2f (x \<in> set s)) (fl_sub F (Fin x) (fl_mean F (map Fin s))))
                           (fl_sub F (Fin (last s)) (Fin (hd s)))) t))"

definition time_trend_block :: "arith \<Rightarrow> real list \<Rightarrow> error + mat" where
  "time_trend_block F t =
     ebind (emap (ts1_row F t) (segments F t)) (\<lambda>ts1.
       Inr (stack_T (length t) (map (map b2f) (seg_indicators F t) @ ts1 @ mpow F ts1 2)))"

text \<open>Lines 45 and 46 (\<open>rs1\<close>, \<open>cs1\<close>): an offset centred on its mean within the segment.\<close>

definition centred_row :: "arith \<Rightarrow> real list \<Rightarrow> vec \<Rightarrow> real list \<Rightarrow> vec" where
  "centred_row F t r s =
     (let m = in1d t s; mu = fl_mean F (select m r)
      in map2 (\<lambda>b x. fl_mul F (b2f b) (fl_sub F x mu)) m r)"

definition centroid_motion_block :: "arith \<Rightarrow> real list \<Rightarrow> vec \<Rightarrow> vec \<Rightarrow> error + mat" where
  "centroid_motion_block F t r c =
     (if length r \<noteq> length t then Inl IndexError
      else
        let rs0 = map (map b2f) (seg_indicators F t);
            rs1 = map (centred_row F t r) (segments F t);
            cs1 = map (centred_row F t c) (segments F t)
        in Inr (stack_T (length t)
             (rs0 @ rs1 @ cs1 @ mmul F rs1 cs1 @
              mpow F rs1 2 @ mpow F cs1 2 @ mmul F (mpow F rs1 2) cs1 @
              mmul F rs1 (mpow F cs1 2) @
              mmul F (mpow F rs1 2) (mpow F cs1 2) @
              mmul F (mpow F rs1 3) (mpow F cs1 3) @ mmul F (mpow F rs1 3) (mpow F cs1 2) @
              mmul F (mpow F rs1 3) cs1 @ mpow F rs1 3 @ mpow F cs1 3 @
              mmul F (mpow F cs1 3) rs1 @
              mmul F (mpow F cs1 3) (mpow F rs1 2))))"

text \<open>Line 38: the test that chooses between the two bases, \<^verbatim>\<open>r.sum() == 0\<close>.\<close>

definition pointing_unmeasured :: "arith \<Rightarrow> vec \<Rightarrow> bool" where
  "pointing_unmeasured F r = fl_eq (np_sum F r) (Fin 0)"

definition centroid_block :: "arith \<Rightarrow> real list \<Rightarrow> vec \<Rightarrow> vec \<Rightarrow> error + mat" where
  "centroid_block F t r c =
     (if pointing_unmeasured F r then time_trend_block F t else centroid_motion_block F t r c)"

text \<open>
  What the code calls and this repository does not define: lightkurve's spline and
  principal-component design matrices, its threshold mask, aperture photometry and
  box-least-squares transit model, and numpy's linear solver, matrix inverse, NaN-ignoring
  median and random draws (a draw takes the generator's state and returns the next one).
  The solver and the inverse can raise (a singular matrix); the others are taken to return.
  The arithmetic of the machine, \<open>fp\<close>, is one more thing the code is run with.
\<close>

record lightcurve =
  lc_time :: "real list"
  lc_flux :: vec
  lc_flux_err :: vec

record 'g ext =
  fp :: arith
  create_spline_matrix :: "real list \<Rightarrow> int \<Rightarrow> mat"
  background_pca :: "stamp \<Rightarrow> mat"
  create_threshold_mask :: "stamp \<Rightarrow> bool list list"
  to_lightcurve :: "stamp \<Rightarrow> bool list list \<Rightarrow> lightcurve"
  linalg_solve :: "mat \<Rightarrow> vec \<Rightarrow> error + vec"
  linalg_inv :: "mat \<Rightarrow> error + mat"
  multivariate_normal :: "'g \<Rightarrow> vec \<Rightarrow> mat \<Rightarrow> vec \<times> 'g"
  np_nanmedian :: "vec \<Rightarrow> fl"
  bls_transit_model :: "lightcurve \<Rightarrow> vec"
  bls_depth :: "lightcurve \<Rightarrow> fl"
  bls_transit_mask :: "lightcurve \<Rightarrow> bool list"

text \<open>
  Line 60: the knot count.  \<^verbatim>\<open>time[-1]\<close> raises on an empty axis; with a zero period the
  floor division gives NaN or an infinity, and with a difference that overflowed NaN, all of
  which \<^verbatim>\<open>int\<close> refuses.
\<close>

definition n_knots :: "arith \<Rightarrow> real list \<Rightarrow> real \<Rightarrow> error + int" where
  "n_knots F t p =
     (if t = [] then Inl IndexError
      else case fl_sub F (Fin (last t)) (Fin (hd t)) of
             Fin d \<Rightarrow>
               if p = 0 then (if d = 0 then Inl ValueError else Inl OverflowError)
               else Inr (max 4 (\<lfloor>d / p\<rfloor>))
           | NaN \<Rightarrow> Inl ValueError
           | _ \<Rightarrow> if p = 0 then Inl OverflowError else Inl ValueError)"

text \<open>Line 63: row \<open>i\<close> of the regressors times \<open>flux[i]\<close>.\<close>

definition weight_rows :: "arith \<Rightarrow> vec \<Rightarrow> mat \<Rightarrow> error + mat" where
  "weight_rows F w A =
     (if length w \<noteq> length A then Inl ValueError
      else Inr (map2 (\<lambda>f row. map (fl_mul F f) row) w A))"

definition column :: "vec \<Rightarrow> mat" where
  "column v = map (\<lambda>x. [x]) v"

text \<open>Lines 53 to 61: the regressor block \<open>A\<close>, before the flux weighting.\<close>

definition regressors ::
  "'g ext \<Rightarrow> stamp \<Rightarrow> bool \<Rightarrow> mat option \<Rightarrow> bool \<Rightarrow> real \<Rightarrow> error + mat" where
  "regressors E tpf background cbvs spline spline_period =
     ebind (clean_pos_corr (pos_corr1 tpf) (pos_corr2 tpf)) (\<lambda>(r, c).
     ebind (centroid_block (fp E) (time tpf) r c) (\<lambda>centroids.
     ebind (case cbvs of None \<Rightarrow> Inr centroids
            | Some cb \<Rightarrow> hstack centroids (map (map nan_to_num) cb)) (\<lambda>A1.
     ebind (if background then hstack A1 (background_pca E tpf) else Inr A1) (\<lambda>A2.
       if spline
       then ebind (n_knots (fp E) (time tpf) spline_period) (\<lambda>k.
              hstack A2 (create_spline_matrix E (time tpf) k))
       else Inr A2))))"

text \<open>
  \<^verbatim>\<open>build_X(tpf, flux, t_model, background, cbvs, spline, spline_period)\<close>.  The result is
  the list of the matrix's rows, one per cadence; a shape that numpy refuses is an error
  (its broadcasting of a length-one array is not modelled).
\<close>

definition build_X ::
  "'g ext \<Rightarrow> stamp \<Rightarrow> vec \<Rightarrow> vec option \<Rightarrow> bool \<Rightarrow> mat option \<Rightarrow> bool \<Rightarrow> real \<Rightarrow> error + mat" where
  "build_X E tpf fluxw t_model background cbvs spline spline_period =
     ebind (regressors E tpf background cbvs spline spline_period) (\<lambda>A.
     ebind (weight_rows (fp E) fluxw A) (\<lambda>SA.
     ebind (hstack SA (column (replicate (length (time tpf)) (Fin 1)))) (\<lambda>SA1.
       case t_model of None \<Rightarrow> Inr SA1 | Some tm \<Rightarrow> hstack SA1 (column tm))))"

section \<open>The weighted least-squares fit\<close>

text \<open>
  \<^verbatim>\<open>build_X\<close> returns a scipy sparse matrix: it stores the entries of the dense matrix
  that differ from zero, and a product runs over the stored entries only, accumulating from
  zero in the order of the rows (a dense \<open>0 * NaN\<close> would be NaN).
\<close>

definition ncols :: "mat \<Rightarrow> nat" where
  "ncols M = (case M of [] \<Rightarrow> 0 | r # _ \<Rightarrow> length r)"

definition sp_row_dot :: "arith \<Rightarrow> vec \<Rightarrow> vec \<Rightarrow> fl" where
  "sp_row_dot F row w =
     seq_sum F (map (\<lambda>(a, x). fl_mul F a x) (filter (\<lambda>(a, x). a \<noteq> Fin 0) (zip row w)))"

text \<open>\<^verbatim>\<open>SA.dot(w)\<close>: one entry per row of \<open>SA\<close>; the lengths must agree.\<close>

definition sp_dot :: "arith \<Rightarrow> mat \<Rightarrow> vec \<Rightarrow> error + vec" where
  "sp_dot F M w =
     (if length w \<noteq> ncols M then Inl ValueError
      else Inr (map (\<lambda>row. sp_row_dot F row w) M))"

text \<open>
  Lines 97 and 98: \<^verbatim>\<open>SA[mask].T.dot(SA[mask].multiply(1/fe[mask, None]**2))\<close>, for the
  selected rows \<open>M\<close> of a matrix of \<open>k\<close> columns and the selected errors \<open>e\<close>.
\<close>

definition information_matrix :: "arith \<Rightarrow> nat \<Rightarrow> mat \<Rightarrow> vec \<Rightarrow> mat" where
  "information_matrix F k M e =
     map (\<lambda>a. map (\<lambda>b.
            seq_sum F
              (map (\<lambda>(row, x).
                      fl_mul F (row ! a) (fl_mul F (row ! b) (fl_div F (Fin 1) (fl_pow F x 2))))
                 (filter (\<lambda>(row, x). row ! a \<noteq> Fin 0 \<and> row ! b \<noteq> Fin 0) (zip M e))))
          [0..<k]) [0..<k]"

text \<open>Line 99: \<^verbatim>\<open>SA[mask].T.dot((f/fe**2)[mask])\<close>, for the selected rows and quotients.\<close>

definition projection :: "arith \<Rightarrow> nat \<Rightarrow> mat \<Rightarrow> vec \<Rightarrow> vec" where
  "projection F k M y = map (\<lambda>a. sp_row_dot F (map (\<lambda>row. row ! a) M) y) [0..<k]"

text \<open>
  Lines 97 to 99 (and 139 to 141): the normal equations.  A boolean mask of the wrong length
  raises IndexError, flux and error of different lengths ValueError.
\<close>

definition normal_equations ::
  "arith \<Rightarrow> mat \<Rightarrow> bool list \<Rightarrow> vec \<Rightarrow> vec \<Rightarrow> error + (mat \<times> vec)" where
  "normal_equations F SA cadence_mask f fe =
     (if length cadence_mask \<noteq> length SA \<or> length cadence_mask \<noteq> length fe then Inl IndexError
      else if length f \<noteq> length fe then Inl ValueError
      else Inr (information_matrix F (ncols SA) (select cadence_mask SA) (select cadence_mask fe),
                projection F (ncols SA) (select cadence_mask SA)
                  (select cadence_mask (map2 (\<lambda>x e. fl_div F x (fl_pow F e 2)) f fe))))"

text \<open>Lines 97 to 100: the information matrix and the weights \<open>w\<close> that solve the equations.\<close>

definition fit_weights :: "'g ext \<Rightarrow> mat \<Rightarrow> bool list \<Rightarrow> vec \<Rightarrow> vec \<Rightarrow> error + (mat \<times> vec)" where
  "fit_weights E SA cadence_mask f fe =
     ebind (normal_equations (fp E) SA cadence_mask f fe) (\<lambda>(sigma_w_inv, B).
     ebind (linalg_solve E sigma_w_inv B) (\<lambda>w. Inr (sigma_w_inv, w)))"

section \<open>build_model\<close>

text \<open>
  \<^verbatim>\<open>a[:, idx, jdx]\<close> and the assignments to \<^verbatim>\<open>a[idx, jdx]\<close> and to
  \<^verbatim>\<open>a[:, idx, jdx]\<close> (a series of another length is refused).
\<close>

definition series :: "fl list list list \<Rightarrow> nat \<Rightarrow> nat \<Rightarrow> vec" where
  "series a idx jdx = map (\<lambda>frame. frame ! idx ! jdx) a"

definition set_pixel :: "mat \<Rightarrow> nat \<Rightarrow> nat \<Rightarrow> fl \<Rightarrow> mat" where
  "set_pixel a idx jdx v = a[idx := (a ! idx)[jdx := v]]"

definition set_series ::
  "fl list list list \<Rightarrow> nat \<Rightarrow> nat \<Rightarrow> vec \<Rightarrow> error + fl list list list" where
  "set_series a idx jdx v =
     (if length v \<noteq> length a then Inl ValueError
      else Inr (map2 (\<lambda>frame x. set_pixel frame idx jdx x) a v))"

definition shape1 :: "fl list list list \<Rightarrow> nat" where
  "shape1 a = (case a of [] \<Rightarrow> 0 | frame # _ \<Rightarrow> length frame)"

definition shape2 :: "fl list list list \<Rightarrow> nat" where
  "shape2 a = (case a of (row # _) # _ \<Rightarrow> length row | _ \<Rightarrow> 0)"

definition zeros2 :: "nat \<Rightarrow> nat \<Rightarrow> mat" where
  "zeros2 m n = replicate m (replicate n (Fin 0))"

text \<open>\<^verbatim>\<open>v[-1]\<close>.\<close>

definition last_entry :: "vec \<Rightarrow> error + fl" where
  "last_entry v = (if v = [] then Inl IndexError else Inr (last v))"

text \<open>
  \<^verbatim>\<open>np.std\<close> with its default \<^verbatim>\<open>ddof=0\<close>: the mean is the sum over the number \<open>N\<close>
  of entries, each deviation from it is multiplied by itself, the products are summed and
  divided by \<open>N\<close>, and the root is taken.
\<close>

definition np_std :: "arith \<Rightarrow> vec \<Rightarrow> fl" where
  "np_std F xs =
     (let mu = fl_div F (np_sum F xs) (Fin (real (length xs)))
      in fl_sqrt F
           (fl_div F (np_sum F (map (\<lambda>x. fl_mul F (fl_sub F x mu) (fl_sub F x mu)) xs))
              (Fin (real (length xs)))))"

text \<open>
  Line 107: \<^verbatim>\<open>[np.random.multivariate_normal(w, sigma_w)[-1] for count in np.arange(n)]\<close>,
  threading the generator's state.
\<close>

primrec draw_last :: "'g ext \<Rightarrow> nat \<Rightarrow> vec \<Rightarrow> mat \<Rightarrow> 'g \<Rightarrow> error + (vec \<times> 'g)" where
  "draw_last E 0 w sigma_w g = Inr ([], g)"
| "draw_last E (Suc n) w sigma_w g =
     (case multivariate_normal E g w sigma_w of (s, g') \<Rightarrow>
        ebind (last_entry s) (\<lambda>x.
        ebind (draw_last E n w sigma_w g') (\<lambda>(xs, g''). Inr (x # xs, g''))))"

record 'g bm_state =
  model :: "fl list list list"
  transit_pixels :: mat
  transit_pixels_err :: mat
  rng :: 'g

text \<open>Lines 92 to 107: the body of the loop, for the pixel \<open>(idx, jdx)\<close>.\<close>

definition pixel_step ::
  "'g ext \<Rightarrow> stamp \<Rightarrow> mat \<Rightarrow> bool list \<Rightarrow> bool \<Rightarrow> nat \<times> nat \<Rightarrow> 'g bm_state \<Rightarrow> error + 'g bm_state" where
  "pixel_step E tpf SA cadence_mask with_t_model p st =
     (case p of (idx, jdx) \<Rightarrow>
        let f = series (flux tpf) idx jdx;
            fe = series (flux_err tpf) idx jdx
        in if \<not> list_ex isfinite f then Inr st
           else
             ebind (fit_weights E SA cadence_mask f fe) (\<lambda>(sigma_w_inv, w).
             ebind (sp_dot (fp E) SA w) (\<lambda>m.
             ebind (set_series (model st) idx jdx m) (\<lambda>model'.
             ebind (linalg_inv E sigma_w_inv) (\<lambda>sigma_w.
               let st1 = st\<lparr>model := model'\<rparr>
               in if with_t_model
                  then ebind (last_entry w) (\<lambda>depth.
                       ebind (draw_last E 50 w sigma_w (rng st1)) (\<lambda>(xs, g').
                         Inr (st1\<lparr>transit_pixels := set_pixel (transit_pixels st1) idx jdx depth,
                                  transit_pixels_err :=
                                    set_pixel (transit_pixels_err st1) idx jdx (np_std (fp E) xs),
                                  rng := g'\<rparr>)))
                  else Inr st1)))))"

fun pixel_loop ::
  "'g ext \<Rightarrow> stamp \<Rightarrow> mat \<Rightarrow> bool list \<Rightarrow> bool \<Rightarrow> (nat \<times> nat) list \<Rightarrow> 'g bm_state \<Rightarrow> error + 'g bm_state" where
  "pixel_loop E tpf SA cadence_mask tm [] st = Inr st"
| "pixel_loop E tpf SA cadence_mask tm (p # ps) st =
     ebind (pixel_step E tpf SA cadence_mask tm p st) (pixel_loop E tpf SA cadence_mask tm ps)"

text \<open>Lines 89 and 90: the pixels in the order the two loops visit them.\<close>

definition pixels :: "nat \<Rightarrow> nat \<Rightarrow> (nat \<times> nat) list" where
  "pixels m n = concat (map (\<lambda>idx. map (\<lambda>jdx. (idx, jdx)) [0..<n]) [0..<m])"

text \<open>
  \<^verbatim>\<open>build_model(tpf, lc, cbvs, t_model, errors=False, cadence_mask, background, spline)\<close>:
  the model with \<^verbatim>\<open>errors\<close> left at its default, as every call in the file has it.  The
  state returned holds the model and, when a transit template is given, the transit depths
  and their errors (without a template these two arrays are not part of the result).
\<close>

definition build_model ::
  "'g ext \<Rightarrow> 'g \<Rightarrow> stamp \<Rightarrow> lightcurve \<Rightarrow> mat option \<Rightarrow> vec option \<Rightarrow> bool list option \<Rightarrow> bool \<Rightarrow> bool
     \<Rightarrow> error + 'g bm_state" where
  "build_model E g tpf lc cbvs t_model cadence_mask background spline =
     (let cm = (case cadence_mask of None \<Rightarrow> replicate (length (time tpf)) True | Some m \<Rightarrow> m)
      in ebind (build_X E tpf (lc_flux lc) t_model background cbvs spline 2) (\<lambda>SA.
           let n = length (flux tpf); r = shape1 (flux tpf); c = shape2 (flux tpf)
           in pixel_loop E tpf SA cm (t_model \<noteq> None) (pixels r c)
                \<lparr>model = replicate n (zeros2 r c),
                 transit_pixels = zeros2 r c,
                 transit_pixels_err = zeros2 r c,
                 rng = g\<rparr>))"

section \<open>build_lc\<close>

text \<open>
  Line 145, \<^verbatim>\<open>raw_lc.copy()/model\<close>: lightkurve divides a light curve by an array by
  multiplying flux with \<^verbatim>\<open>1./model\<close> and flux error with its absolute value.
\<close>

definition lc_truediv :: "arith \<Rightarrow> lightcurve \<Rightarrow> vec \<Rightarrow> error + lightcurve" where
  "lc_truediv F lc m =
     (if length m \<noteq> length (lc_flux lc) \<or> length m \<noteq> length (lc_flux_err lc) then Inl ValueError
      else Inr (lc\<lparr>lc_flux := map2 (\<lambda>y x. fl_mul F (fl_div F (Fin 1) y) x) m (lc_flux lc),
                  lc_flux_err :=
                    map2 (\<lambda>y x. fl_mul F (fl_abs (fl_div F (Fin 1) y)) x) m (lc_flux_err lc)\<rparr>))"

text \<open>Lines 131 and 132: the design matrix of \<^verbatim>\<open>build_lc\<close>, its last column dropped.\<close>

definition build_lc_design ::
  "'g ext \<Rightarrow> stamp \<Rightarrow> mat option \<Rightarrow> bool \<Rightarrow> bool \<Rightarrow> real \<Rightarrow> error + mat" where
  "build_lc_design E tpf cbvs background spline spline_period =
     ebind (build_X E tpf (replicate (length (time tpf)) (Fin 1)) None background cbvs spline
              spline_period)
       (\<lambda>SA. Inr (map butlast SA))"

text \<open>Lines 139 to 143: the systematics model of the aggregate light curve.\<close>

definition build_lc_model :: "'g ext \<Rightarrow> mat \<Rightarrow> bool list \<Rightarrow> lightcurve \<Rightarrow> error + vec" where
  "build_lc_model E SA cadence_mask raw_lc =
     ebind (fit_weights E SA cadence_mask (lc_flux raw_lc) (lc_flux_err raw_lc)) (\<lambda>(sigma_w_inv, w).
       sp_dot (fp E) SA w)"

definition build_lc ::
  "'g ext \<Rightarrow> stamp \<Rightarrow> bool list list \<Rightarrow> mat option \<Rightarrow> bool list option \<Rightarrow> bool \<Rightarrow> bool \<Rightarrow> real
     \<Rightarrow> error + lightcurve" where
  "build_lc E tpf aperture_mask cbvs cadence_mask background spline spline_period =
     (let cm = (case cadence_mask of None \<Rightarrow> replicate (length (time tpf)) True | Some m \<Rightarrow> m)
      in ebind (build_lc_design E tpf cbvs background spline spline_period) (\<lambda>SA.
         let raw_lc = to_lightcurve E tpf aperture_mask
         in ebind (build_lc_model E SA cm raw_lc) (\<lambda>m. lc_truediv (fp E) raw_lc m)))"

section \<open>get_centroid_plot\<close>

text \<open>
  Line 167: \<^verbatim>\<open>tpf[np.nansum(tpf.flux, axis=(1, 2)) != 0]\<close>.  Indexing a stamp with a cadence
  mask selects in each of its per-cadence arrays.
\<close>

definition nansum :: "arith \<Rightarrow> vec \<Rightarrow> fl" where
  "nansum F xs = np_sum F (map (\<lambda>x. if x = NaN then Fin 0 else x) xs)"

definition frame_kept :: "arith \<Rightarrow> mat \<Rightarrow> bool" where
  "frame_kept F frame = (\<not> fl_eq (nansum F (concat frame)) (Fin 0))"

definition tpf_index :: "stamp \<Rightarrow> bool list \<Rightarrow> stamp" where
  "tpf_index tpf m =
     tpf\<lparr>time := select m (time tpf),
         flux := select m (flux tpf),
         flux_err := select m (flux_err tpf),
         pos_corr1 := select m (pos_corr1 tpf),
         pos_corr2 := select m (pos_corr2 tpf),
         coord_ra := select m (coord_ra tpf),
         coord_dec := select m (coord_dec tpf)\<rparr>"

definition drop_zero_frames :: "arith \<Rightarrow> stamp \<Rightarrow> stamp" where
  "drop_zero_frames F tpf = tpf_index tpf (map (frame_kept F) (flux tpf))"

text \<open>Lines 168 to 170: the pipeline aperture, or the threshold mask when it is empty.\<close>

definition mask_any :: "bool list list \<Rightarrow> bool" where
  "mask_any m = list_ex (list_ex (\<lambda>b. b)) m"

definition baseline_aperture :: "'g ext \<Rightarrow> stamp \<Rightarrow> bool list list" where
  "baseline_aperture E tpf =
     (let aper = pipeline_mask tpf
      in if \<not> mask_any aper then create_threshold_mask E tpf else aper)"

text \<open>Lines 176 and 177: the template, shifted by its median and divided by the depth.\<close>

definition normalise_template :: "'g ext \<Rightarrow> lightcurve \<Rightarrow> vec \<Rightarrow> vec" where
  "normalise_template E lc tm =
     map (\<lambda>x. fl_div (fp E) (fl_sub (fp E) x (np_nanmedian E tm)) (bls_depth E lc)) tm"

text \<open>Line 200: the significance map and the contaminant aperture.\<close>

definition significance :: "arith \<Rightarrow> mat \<Rightarrow> mat \<Rightarrow> mat" where
  "significance F tp tpe = map2 (map2 (fl_div F)) tp tpe"

definition contaminant_aper :: "arith \<Rightarrow> mat \<Rightarrow> mat \<Rightarrow> bool list list" where
  "contaminant_aper F tp tpe = map (map (\<lambda>s. fl_gt s (Fin 5))) (significance F tp tpe)"

text \<open>
  \<^verbatim>\<open>a[:, mask]\<close> on a (cadence, row, column) array: per cadence, the pixels of the mask in
  row-major order; and the mean over the cadences of each of the \<open>n\<close> selected pixels.
\<close>

definition select_pixels :: "bool list list \<Rightarrow> 'a list list \<Rightarrow> 'a list" where
  "select_pixels m frame = select (concat m) (concat frame)"

definition count_true :: "bool list list \<Rightarrow> nat" where
  "count_true m = length (filter (\<lambda>b. b) (concat m))"

definition cadence_mean :: "arith \<Rightarrow> bool list list \<Rightarrow> fl list list list \<Rightarrow> vec" where
  "cadence_mean F m a =
     map (\<lambda>k. fl_mean F (map (\<lambda>frame. select_pixels m frame ! k) a)) [0..<count_true m]"

text \<open>
  \<^verbatim>\<open>np.average(a, weights=w)\<close>: it refuses weights of another shape and weights that sum
  to zero.
\<close>

definition np_average :: "arith \<Rightarrow> vec \<Rightarrow> vec \<Rightarrow> error + fl" where
  "np_average F a w =
     (if length a \<noteq> length w then Inl TypeError
      else if fl_eq (np_sum F w) (Fin 0) then Inl ZeroDivisionError
      else Inr (fl_div F (np_sum F (map2 (fl_mul F) a w)) (np_sum F w)))"

text \<open>Lines 214 and 215: the flux-weighted position of the baseline aperture.\<close>

definition target_position :: "'g ext \<Rightarrow> stamp \<Rightarrow> bool list list \<Rightarrow> fl list list list \<Rightarrow> error + fl" where
  "target_position E tpf aper coord =
     np_average (fp E) (cadence_mean (fp E) aper coord)
       (map (fl_sqrt (fp E))
          (select_pixels aper
             (map (\<lambda>idx. map (\<lambda>jdx. np_nanmedian E (series (flux tpf) idx jdx))
                     [0..<shape2 (flux tpf)]) [0..<shape1 (flux tpf)])))"

definition lc_append :: "lightcurve \<Rightarrow> lightcurve \<Rightarrow> lightcurve" where
  "lc_append a b =
     \<lparr>lc_time = lc_time a @ lc_time b, lc_flux = lc_flux a @ lc_flux b,
      lc_flux_err = lc_flux_err a @ lc_flux_err b\<rparr>"

definition append_opt :: "lightcurve option \<Rightarrow> lightcurve \<Rightarrow> lightcurve option" where
  "append_opt acc l = (case acc of None \<Rightarrow> Some l | Some a \<Rightarrow> Some (lc_append a l))"

record 'g gcp_state =
  contaminator :: "lightcurve option"
  target :: "lightcurve option"
  coords_weights :: "vec list"
  coords_ra :: "vec list"
  coords_dec :: "vec list"
  ra_target :: vec
  dec_target :: vec
  gen :: 'g

text \<open>
  Lines 167 to 215: the body of the loop over the stamps.  The period is a finite double,
  given by its value; \<^verbatim>\<open>period * 4\<close> is exact in binary floating point, and where
  it would overflow the knot count of line 60 is 4 either way.
\<close>

definition segment_step ::
  "'g ext \<Rightarrow> bool \<Rightarrow> real \<Rightarrow> stamp \<Rightarrow> 'g gcp_state \<Rightarrow> error + 'g gcp_state" where
  "segment_step E background period tpf0 st =
     (let tpf = drop_zero_frames (fp E) tpf0;
          aper = baseline_aperture E tpf;
          lc = to_lightcurve E tpf aper;
          t_model0 = bls_transit_model E lc
      in if fl_eq (np_sum (fp E) t_model0) (Fin 0) then Inr st
         else
           let t_model = normalise_template E lc t_model0;
               t_mask = bls_transit_mask E lc
           in ebind (build_lc E tpf aper None (Some t_mask) background True (period * 4)) (\<lambda>tlc.
              ebind (build_model E (gen st) tpf lc None (Some t_model) None background True) (\<lambda>bm.
                let cont = contaminant_aper (fp E) (transit_pixels bm) (transit_pixels_err bm);
                    st1 = st\<lparr>target := append_opt (target st) tlc,
                             coords_ra := coords_ra st @ [cadence_mean (fp E) cont (coord_ra tpf)],
                             coords_dec := coords_dec st @ [cadence_mean (fp E) cont (coord_dec tpf)],
                             coords_weights := coords_weights st @
                               [select_pixels cont
                                  (significance (fp E) (transit_pixels bm) (transit_pixels_err bm))],
                             gen := rng bm\<rparr>
                in ebind (if mask_any cont
                          then ebind (build_lc E tpf cont None (Some t_mask) background True
                                        (period * 4))
                                 (\<lambda>clc. Inr (st1\<lparr>contaminator := append_opt (contaminator st1) clc\<rparr>))
                          else Inr st1) (\<lambda>st2.
                   ebind (target_position E tpf aper (coord_ra tpf)) (\<lambda>ra.
                   ebind (target_position E tpf aper (coord_dec tpf)) (\<lambda>dec.
                     Inr (st2\<lparr>ra_target := ra_target st2 @ [ra],
                              dec_target := dec_target st2 @ [dec]\<rparr>)))))))"

fun segment_loop ::
  "'g ext \<Rightarrow> bool \<Rightarrow> real \<Rightarrow> stamp list \<Rightarrow> 'g gcp_state \<Rightarrow> error + 'g gcp_state" where
  "segment_loop E background period [] st = Inr st"
| "segment_loop E background period (tpf # tpfs) st =
     ebind (segment_step E background period tpf st) (segment_loop E background period tpfs)"

record centroid_result =
  res_ra_target :: fl
  res_dec_target :: fl
  res_ra :: fl
  res_dec :: fl
  res_target :: "lightcurve option"
  res_contaminator :: "lightcurve option"

text \<open>
  Lines 217 to 223: the final positions.  \<^verbatim>\<open>np.hstack\<close> of an empty list raises
  ValueError.
\<close>

definition finalise :: "arith \<Rightarrow> 'g gcp_state \<Rightarrow> error + centroid_result" where
  "finalise F st =
     (let rt = fl_mean F (ra_target st); dt = fl_mean F (dec_target st)
      in if coords_ra st = [] then Inl ValueError
         else
           ebind (if concat (coords_ra st) \<noteq> []
                  then ebind (np_average F (concat (coords_ra st)) (concat (coords_weights st))) (\<lambda>ra.
                       ebind (np_average F (concat (coords_dec st)) (concat (coords_weights st))) (\<lambda>dec.
                         Inr (ra, dec)))
                  else Inr (NaN, NaN)) (\<lambda>(ra, dec).
             Inr \<lparr>res_ra_target = rt, res_dec_target = dt, res_ra = ra, res_dec = dec,
                  res_target = target st, res_contaminator = contaminator st\<rparr>))"

text \<open>
  \<^verbatim>\<open>get_centroid_plot\<close>, up to the values the figure is drawn from (the drawing itself,
  lines 226 to 248, is matplotlib's and lightkurve's).  \<open>sr\<close> are the stamps the search
  finds and \<open>tesscut\<close> the cut-outs used for TESS when it finds none; the ephemeris is part
  of the box-least-squares functions of \<open>E\<close>.
\<close>

definition get_centroid_plot ::
  "'g ext \<Rightarrow> 'g \<Rightarrow> bool \<Rightarrow> stamp list \<Rightarrow> stamp list \<Rightarrow> real \<Rightarrow> error + centroid_result" where
  "get_centroid_plot E g tess sr tesscut period =
     ebind (if tess \<and> sr = [] then Inr tesscut
            else if sr = [] then Inl ValueError
            else Inr sr) (\<lambda>tpfs.
     ebind (segment_loop E tess period tpfs
              \<lparr>contaminator = None, target = None, coords_weights = [], coords_ra = [],
               coords_dec = [], ra_target = [], dec_target = [], gen = g\<rparr>) (finalise (fp E)))"

section \<open>Notions of the specification and example inputs\<close>

text \<open>
  The arithmetic without rounding error that adds up from left to right (without rounding,
  the order makes no difference to a sum of finite numbers).  The examples are evaluated in
  it.  The time axes, pointing corrections and fluxes of the examples are dyadic
  numbers of few digits; on the inputs of the counterexamples every operation that the code
  performs has an exact result that is a double, apart from the threshold of line 35, which
  is compared with differences far from it.
\<close>

definition exact :: arith where
  "exact = \<lparr>rnd = Fin, reduce_order = (\<lambda>add. foldl add (Fin 0))\<rparr>"

text \<open>
  The specification's nominal cadence spacing of a time series: the median of its
  consecutive differences.
\<close>

definition median_cadence_spacing :: "real list \<Rightarrow> real" where
  "median_cadence_spacing t =
     (let d = sort (map2 (\<lambda>a b. b - a) t (tl t)); n = length d
      in if even n then (d ! (n div 2 - 1) + d ! (n div 2)) / 2 else d ! (n div 2))"

text \<open>
  The test of line 35 on one difference: \<^verbatim>\<open>time[i+1] - time[i] > 0.0202 * 10\<close>, in the
  arithmetic of the machine.
\<close>

definition gap_at :: "arith \<Rightarrow> real list \<Rightarrow> nat \<Rightarrow> bool" where
  "gap_at F t i =
     fl_gt (fl_sub F (Fin (t ! Suc i)) (Fin (t ! i))) (fl_mul F (rnd F 0.0202) (Fin 10))"

text \<open>
  A pointing correction as the design matrix sees it: zero for NaN, for an infinity and for
  a magnitude above 10.
\<close>

definition offset_value :: "fl \<Rightarrow> real" where
  "offset_value x = (case x of Fin y \<Rightarrow> if 10 < \<bar>y\<bar> then 0 else y | _ \<Rightarrow> 0)"

text \<open>
  A time axis of spacing \<open>1/1024\<close> days with one gap of \<open>1/8\<close> days, more than a hundred
  times its median spacing, after four cadences; and one of spacing \<open>1/8\<close> days with a gap
  of a day after five cadences.
\<close>

definition t_short :: "real list" where
  "t_short = [0, 1/1024, 2/1024, 3/1024, 131/1024, 132/1024, 133/1024]"

definition t_gap :: "real list" where
  "t_gap = [0, 1/8, 2/8, 3/8, 4/8, 12/8, 13/8, 14/8]"

text \<open>An array of \<open>r\<close> rows and \<open>c\<close> columns; the shapes and one pixel of a loop state.\<close>

definition shaped :: "nat \<Rightarrow> nat \<Rightarrow> 'a list list \<Rightarrow> bool" where
  "shaped r c a \<longleftrightarrow> length a = r \<and> (\<forall>row \<in> set a. length row = c)"

definition state_shape :: "nat \<Rightarrow> nat \<Rightarrow> nat \<Rightarrow> 'g bm_state \<Rightarrow> bool" where
  "state_shape n r c st \<longleftrightarrow>
     length (model st) = n \<and> (\<forall>frame \<in> set (model st). shaped r c frame) \<and>
     shaped r c (transit_pixels st) \<and> shaped r c (transit_pixels_err st)"

definition pixel_view :: "'g bm_state \<Rightarrow> nat \<Rightarrow> nat \<Rightarrow> vec \<times> fl \<times> fl" where
  "pixel_view st i j =
     (series (model st) i j, transit_pixels st ! i ! j, transit_pixels_err st ! i ! j)"

text \<open>
  Stand-ins for the external functions, to evaluate examples: aperture photometry that sums
  the flux and takes the root of the summed squared errors; a solver and an inverse that
  return the first of the proposed solutions that passes the check; draws that lie two above
  and two below the mean in turn (the generator's state counts them); the median of the
  finite entries; and a box-least-squares model, of depth one half, given with its mask.
\<close>

definition mat_vec :: "mat \<Rightarrow> vec \<Rightarrow> vec" where
  "mat_vec M v = map (\<lambda>row. seq_sum exact (map2 (fl_mul exact) row v)) M"

definition check_solve :: "vec list \<Rightarrow> mat \<Rightarrow> vec \<Rightarrow> error + vec" where
  "check_solve ws M b =
     (case filter (\<lambda>w. length w = length b \<and> mat_vec M w = b) ws of
        [] \<Rightarrow> Inl LinAlgError
      | w # _ \<Rightarrow> Inr w)"

definition identity :: "nat \<Rightarrow> mat" where
  "identity n = map (\<lambda>i. map (\<lambda>j. b2f (i = j)) [0..<n]) [0..<n]"

definition mat_mat :: "mat \<Rightarrow> mat \<Rightarrow> mat" where
  "mat_mat M S =
     map (\<lambda>row. map (\<lambda>j. seq_sum exact (map2 (fl_mul exact) row (map (\<lambda>r. r ! j) S)))
                    [0..<length M]) M"

definition check_inv :: "mat list \<Rightarrow> mat \<Rightarrow> error + mat" where
  "check_inv Ss M =
     (case filter (\<lambda>S. length S = length M \<and> mat_mat M S = identity (length M)) Ss of
        [] \<Rightarrow> Inl LinAlgError
      | S # _ \<Rightarrow> Inr S)"

definition aperture_photometry :: "stamp \<Rightarrow> bool list list \<Rightarrow> lightcurve" where
  "aperture_photometry tpf m =
     \<lparr>lc_time = time tpf,
      lc_flux = map (\<lambda>frame. seq_sum exact (select_pixels m frame)) (flux tpf),
      lc_flux_err =
        map (\<lambda>frame. fl_sqrt exact (seq_sum exact (map (\<lambda>e. fl_pow exact e 2)
                                                     (select_pixels m frame))))
          (flux_err tpf)\<rparr>"

definition finite_median :: "vec \<Rightarrow> fl" where
  "finite_median v =
     (let d = sort (concat (map (\<lambda>x. case x of Fin y \<Rightarrow> [y] | _ \<Rightarrow> []) v)); n = length d
      in if n = 0 then NaN
         else Fin (if even n then (d ! (n div 2 - 1) + d ! (n div 2)) / 2 else d ! (n div 2)))"

definition demo_ext :: "vec list \<Rightarrow> mat list \<Rightarrow> vec \<Rightarrow> bool list \<Rightarrow> nat ext" where
  "demo_ext ws Ss tm tmask =
     \<lparr>fp = exact,
      create_spline_matrix = (\<lambda>t k. map (\<lambda>x. []) t),
      background_pca = (\<lambda>tpf. map (\<lambda>x. []) (time tpf)),
      create_threshold_mask = (\<lambda>tpf. map (map (\<lambda>b. True)) (pipeline_mask tpf)),
      to_lightcurve = aperture_photometry,
      linalg_solve = check_solve ws,
      linalg_inv = check_inv Ss,
      multivariate_normal =
        (\<lambda>g mu cov. (map (\<lambda>x. fl_add exact x (Fin (if even g then 2 else - 2))) mu, Suc g)),
      np_nanmedian = finite_median,
      bls_transit_model = (\<lambda>lc. tm),
      bls_depth = (\<lambda>lc. Fin (1 / 2)),
      bls_transit_mask = (\<lambda>lc. tmask)\<rparr>"

text \<open>A column that is one constant other than zero on every cadence.\<close>

definition has_offset_column :: "mat \<Rightarrow> bool" where
  "has_offset_column D =
     list_ex (\<lambda>j. hd D ! j \<noteq> Fin 0 \<and> list_all (\<lambda>row. row ! j = hd D ! j) D) [0..<ncols D]"

text \<open>A stamp of one pixel with constant flux \<open>v\<close>, unit errors and no pointing motion.\<close>

definition flat_stamp :: "real list \<Rightarrow> real \<Rightarrow> stamp" where
  "flat_stamp t v =
     \<lparr>time = t, flux = map (\<lambda>x. [[Fin v]]) t, flux_err = map (\<lambda>x. [[Fin 1]]) t,
      pos_corr1 = map (\<lambda>x. Fin 0) t, pos_corr2 = map (\<lambda>x. Fin 0) t,
      pipeline_mask = [[True]],
      coord_ra = map (\<lambda>x. [[Fin 10]]) t, coord_dec = map (\<lambda>x. [[Fin 20]]) t\<rparr>"

text \<open>A time axis of three cadences, and the regressors of \<^verbatim>\<open>build_lc\<close> on it.\<close>

definition t_flat :: "real list" where
  "t_flat = [0, 1/8, 2/8]"

definition flat_D :: mat where
  "flat_D = [[Fin 1, Fin (- (1 / 2)), Fin (1 / 4)], [Fin 1, Fin 0, Fin 0],
             [Fin 1, Fin (1 / 2), Fin (1 / 4)]]"

text \<open>
  An observation of five cadences and three pixels, to run the fit on.  Pixel A, the
  pipeline aperture, brightens steadily; pixel B carries a dip of 20 at the third cadence;
  pixel C is NaN throughout.  The template is zero but for \<open>-1\<close> at the third cadence.  With
  the aperture flux as weights the design matrix is \<open>ex_SA\<close>, the information matrix under
  unit errors \<open>ex_G\<close> and its inverse \<open>ex_inv\<close>; \<open>ex_ws\<close> are the exact solutions of the
  fits, and \<open>ex_st\<close> what \<^verbatim>\<open>build_model\<close> returns.
\<close>

definition t5 :: "real list" where
  "t5 = [0, 1/8, 2/8, 3/8, 4/8]"

definition ex_tpf :: stamp where
  "ex_tpf =
     \<lparr>time = t5,
      flux = [[[Fin 2, Fin 50, NaN]], [[Fin 3, Fin 50, NaN]], [[Fin 4, Fin 30, NaN]],
              [[Fin 5, Fin 50, NaN]], [[Fin 6, Fin 50, NaN]]],
      flux_err = map (\<lambda>x. [[Fin 1, Fin 1, Fin 1]]) t5,
      pos_corr1 = map (\<lambda>x. Fin 0) t5, pos_corr2 = map (\<lambda>x. Fin 0) t5,
      pipeline_mask = [[True, False, False]],
      coord_ra = map (\<lambda>x. [[Fin 10, Fin 11, Fin 12]]) t5,
      coord_dec = map (\<lambda>x. [[Fin 20, Fin 21, Fin 22]]) t5\<rparr>"

definition ex_lc :: lightcurve where
  "ex_lc = \<lparr>lc_time = t5, lc_flux = [Fin 2, Fin 3, Fin 4, Fin 5, Fin 6],
            lc_flux_err = [Fin 1, Fin 1, Fin 1, Fin 1, Fin 1]\<rparr>"

definition ex_tm :: vec where
  "ex_tm = [Fin 0, Fin 0, Fin (- 1), Fin 0, Fin 0]"

definition ex_SA :: mat where
  "ex_SA = [[Fin 2, Fin (-1), Fin (1 / 2), Fin 1, Fin 0],
 [Fin 3, Fin (- (3 / 4)), Fin (3 / 16), Fin 1, Fin 0],
 [Fin 4, Fin 0, Fin 0, Fin 1, Fin (-1)],
 [Fin 5, Fin (5 / 4), Fin (5 / 16), Fin 1, Fin 0],
 [Fin 6, Fin 3, Fin (3 / 2), Fin 1, Fin 0]]"

definition ex_G :: mat where
  "ex_G = [[Fin 90, Fin 20, Fin (97 / 8), Fin 20, Fin (-4)],
 [Fin 20, Fin (97 / 8), Fin (17 / 4), Fin (5 / 2), Fin 0],
 [Fin (97 / 8), Fin (17 / 4), Fin (337 / 128), Fin (5 / 2), Fin 0],
 [Fin 20, Fin (5 / 2), Fin (5 / 2), Fin 5, Fin (-1)],
 [Fin (-4), Fin 0, Fin 0, Fin (-1), Fin 1]]"

definition ex_inv :: mat where
  "ex_inv = [[Fin (929 / 72), Fin (- (142 / 9)), Fin 14, Fin (- (101 / 2)), Fin (10 / 9)],
 [Fin (- (142 / 9)), Fin (176 / 9), Fin (- (160 / 9)), Fin 62, Fin (- (10 / 9))],
 [Fin 14, Fin (- (160 / 9)), Fin (160 / 9), Fin (-56), Fin 0],
 [Fin (- (101 / 2)), Fin 62, Fin (-56), Fin (397 / 2), Fin (- (7 / 2))],
 [Fin (10 / 9), Fin (- (10 / 9)), Fin 0, Fin (- (7 / 2)), Fin (35 / 18)]]"

text \<open>
  The same observation fitted without a template and without its third cadence: the design
  matrix \<open>ex_SA4\<close>, the information matrix \<open>ex_G4\<close> of the four cadences of \<open>ex_mask\<close>, its
  inverse \<open>ex_inv4\<close>, and the state \<open>ex_st4\<close> that \<^verbatim>\<open>build_model\<close> returns.
\<close>

definition ex_mask :: "bool list" where
  "ex_mask = [True, True, False, True, True]"

definition ex_SA4 :: mat where
  "ex_SA4 = [[Fin 2, Fin (-1), Fin (1 / 2), Fin 1],
 [Fin 3, Fin (- (3 / 4)), Fin (3 / 16), Fin 1],
 [Fin 4, Fin 0, Fin 0, Fin 1],
 [Fin 5, Fin (5 / 4), Fin (5 / 16), Fin 1],
 [Fin 6, Fin 3, Fin (3 / 2), Fin 1]]"

definition ex_G4 :: mat where
  "ex_G4 = [[Fin 74, Fin 20, Fin (97 / 8), Fin 16],
 [Fin 20, Fin (97 / 8), Fin (17 / 4), Fin (5 / 2)],
 [Fin (97 / 8), Fin (17 / 4), Fin (337 / 128), Fin (5 / 2)],
 [Fin 16, Fin (5 / 2), Fin (5 / 2), Fin 4]]"

definition ex_inv4 :: mat where
  "ex_inv4 = [[Fin (929 / 72), Fin (- (142 / 9)), Fin 14, Fin (- (101 / 2))],
 [Fin (- (142 / 9)), Fin (176 / 9), Fin (- (160 / 9)), Fin 62],
 [Fin 14, Fin (- (160 / 9)), Fin (160 / 9), Fin (-56)],
 [Fin (- (101 / 2)), Fin 62, Fin (-56), Fin (397 / 2)]]"

definition ex_ws :: "vec list" where
  "ex_ws = [[Fin 1, Fin 0, Fin 0, Fin 0, Fin 0], [Fin 0, Fin 0, Fin 0, Fin 50, Fin 20],
            [Fin 4, Fin 4, Fin 0], [Fin 50, Fin 0, Fin 0],
            [Fin 1, Fin 0, Fin 0, Fin 0], [Fin 0, Fin 0, Fin 0, Fin 50]]"

definition ex_E :: "nat ext" where
  "ex_E = demo_ext ex_ws [ex_inv, ex_inv4] [Fin 1, Fin 1, Fin (1/2), Fin 1, Fin 1] ex_mask"

definition ex_fe :: vec where
  "ex_fe = [Fin 1, Fin 1, Fin 1, Fin 1, Fin 1]"

definition ex_fA :: vec where
  "ex_fA = [Fin 2, Fin 3, Fin 4, Fin 5, Fin 6]"

definition ex_fB :: vec where
  "ex_fB = [Fin 50, Fin 50, Fin 30, Fin 50, Fin 50]"

definition ex_all :: "bool list" where
  "ex_all = [True, True, True, True, True]"

definition ex_st :: "nat bm_state" where
  "ex_st = \<lparr>model = [[[Fin 2, Fin 50, Fin 0]], [[Fin 3, Fin 50, Fin 0]], [[Fin 4, Fin 30, Fin 0]],
                      [[Fin 5, Fin 50, Fin 0]], [[Fin 6, Fin 50, Fin 0]]],
            transit_pixels = [[Fin 0, Fin 20, Fin 0]],
            transit_pixels_err = [[Fin 2, Fin 2, Fin 0]],
            rng = 100\<rparr>"

definition ex_st4 :: "nat bm_state" where
  "ex_st4 = \<lparr>model = [[[Fin 2, Fin 50, Fin 0]], [[Fin 3, Fin 50, Fin 0]], [[Fin 4, Fin 50, Fin 0]],
                       [[Fin 5, Fin 50, Fin 0]], [[Fin 6, Fin 50, Fin 0]]],
             transit_pixels = [[Fin 0, Fin 0, Fin 0]],
             transit_pixels_err = [[Fin 0, Fin 0, Fin 0]],
             rng = 0\<rparr>"

text \<open>
  The aperture light curve of a stamp in \<^verbatim>\<open>get_centroid_plot\<close> (line 171), the test of
  line 174 on its transit model, and the normalised template (lines 176 and 177).
\<close>

definition segment_lc :: "'g ext \<Rightarrow> stamp \<Rightarrow> lightcurve" where
  "segment_lc E tpf0 =
     to_lightcurve E (drop_zero_frames (fp E) tpf0)
       (baseline_aperture E (drop_zero_frames (fp E) tpf0))"

definition template_degenerate :: "'g ext \<Rightarrow> stamp \<Rightarrow> bool" where
  "template_degenerate E tpf0 =
     fl_eq (np_sum (fp E) (bls_transit_model E (segment_lc E tpf0))) (Fin 0)"

definition segment_template :: "'g ext \<Rightarrow> stamp \<Rightarrow> vec" where
  "segment_template E tpf0 =
     normalise_template E (segment_lc E tpf0) (bls_transit_model E (segment_lc E tpf0))"

text \<open>
  The rest of the example: the regressors of \<^verbatim>\<open>build_lc\<close>, the two apertures, the
  corrected light curves, and what \<^verbatim>\<open>get_centroid_plot\<close> returns.
\<close>

definition ex_D :: mat where
  "ex_D = [[Fin 1, Fin (- (1/2)), Fin (1/4)], [Fin 1, Fin (- (1/4)), Fin (1/16)], [Fin 1, Fin 0, Fin 0],
        [Fin 1, Fin (1/4), Fin (1/16)], [Fin 1, Fin (1/2), Fin (1/4)]]"

definition ex_aper :: "bool list list" where
  "ex_aper = [[True, False, False]]"

definition ex_cont :: "bool list list" where
  "ex_cont = [[False, True, False]]"

definition ex_target :: lightcurve where
  "ex_target = \<lparr>lc_time = t5, lc_flux = [Fin 1, Fin 1, Fin 1, Fin 1, Fin 1],
      lc_flux_err = [Fin (1/2), Fin (1/3), Fin (1/4), Fin (1/5), Fin (1/6)]\<rparr>"

definition ex_contaminator :: lightcurve where
  "ex_contaminator = \<lparr>lc_time = t5, lc_flux = [Fin 1, Fin 1, Fin (3/5), Fin 1, Fin 1],
      lc_flux_err = [Fin (1/50), Fin (1/50), Fin (1/50), Fin (1/50), Fin (1/50)]\<rparr>"

definition ex_result :: centroid_result where
  "ex_result = \<lparr>res_ra_target = Fin 10, res_dec_target = Fin 20, res_ra = Fin 11, res_dec = Fin 21,
                  res_target = Some ex_target, res_contaminator = Some ex_contaminator\<rparr>"

definition gcp_init :: "nat gcp_state" where
  "gcp_init = \<lparr>contaminator = None, target = None, coords_weights = [], coords_ra = [],
               coords_dec = [], ra_target = [], dec_target = [], gen = 0\<rparr>"

text \<open>
  The state after the example's one stamp, and the same externals with a transit model that
  is zero throughout, so that the stamp is skipped.
\<close>

definition ex_gcp :: "nat gcp_state" where
  "ex_gcp = \<lparr>contaminator = Some ex_contaminator, target = Some ex_target,
          coords_weights = [[Fin 10]], coords_ra = [[Fin 11]], coords_dec = [[Fin 21]],
          ra_target = [Fin 10], dec_target = [Fin 20], gen = 100\<rparr>"

definition ex_E0 :: "nat ext" where
  "ex_E0 = demo_ext ex_ws [ex_inv, ex_inv4] [Fin 0, Fin 0, Fin 0, Fin 0, Fin 0] ex_mask"

section \<open>Properties\<close>

text \<open>
  C1, evaluated where the code departs from it: with row offsets \<open>[0]\<close> and column offsets
  \<open>[50]\<close> the column entry, of magnitude above 10, is kept; an infinite column offset
  becomes the largest double and is kept too.  Line 33 masks the column array with the
  (already cleaned) row array.
\<close>

theorem clean_pos_corr_keeps_column_outlier:
  "clean_pos_corr [Fin 0] [Fin 50] = Inr ([Fin 0], [Fin 50]) \<and>
   clean_pos_corr [Fin 0] [PInf] = Inr ([Fin 0], [Fin DBL_MAX])"
  by (simp add: clean_pos_corr_def mask_zero_def ebind_def)


subsection \<open>Helper facts\<close>

lemma ebind_Inr: "ebind m f = Inr y \<longleftrightarrow> (\<exists>x. m = Inr x \<and> f x = Inr y)"
  by (cases m) (auto simp: ebind_def)

lemma ebind_InrE:
  assumes "ebind m f = Inr y"
  obtains x where "m = Inr x" "f x = Inr y"
  using assms by (auto simp: ebind_Inr)

lemma hstack_Inr: "hstack A B = Inr C \<longleftrightarrow> length A = length B \<and> C = map2 (@) A B"
  by (auto simp: hstack_def)

lemma weight_rows_Inr:
  "weight_rows F w A = Inr C \<longleftrightarrow>
     length w = length A \<and> C = map2 (\<lambda>f row. map (fl_mul F f) row) w A"
  by (auto simp: weight_rows_def)

text \<open>The arithmetic without rounding error.\<close>

lemma rnd_exact [simp]: "rnd exact x = Fin x"
  by (simp add: exact_def)

lemma np_sum_exact: "np_sum exact xs = foldl (fl_add exact) (Fin 0) xs"
  by (simp add: np_sum_def exact_def)

lemma foldl_fl_add_Fin:
  "foldl (fl_add exact) (Fin a) (map Fin xs) = Fin (a + sum_list xs)"
  by (induction xs arbitrary: a) (auto simp: algebra_simps)

lemma np_sum_exact_Fin: "np_sum exact (map (\<lambda>x. Fin (g x)) xs) = Fin (sum_list (map g xs))"
  using foldl_fl_add_Fin[of 0 "map g xs"] by (simp add: np_sum_exact o_def)

text \<open>
  The rows of the design matrix: the regressors of the cadence times its flux weight, then
  the constant one, then the template's value when a template is given.
\<close>

lemma build_X_rows:
  assumes "build_X E tpf fluxw t_model bg cbvs sp p = Inr SA"
  shows "\<exists>A. regressors E tpf bg cbvs sp p = Inr A \<and> length A = length (time tpf) \<and>
           length fluxw = length (time tpf) \<and> length SA = length (time tpf) \<and>
           (case t_model of
              None \<Rightarrow> \<forall>i < length (time tpf).
                        SA ! i = map (fl_mul (fp E) (fluxw ! i)) (A ! i) @ [Fin 1]
            | Some tm \<Rightarrow> length tm = length (time tpf) \<and>
                (\<forall>i < length (time tpf).
                   SA ! i = map (fl_mul (fp E) (fluxw ! i)) (A ! i) @ [Fin 1, tm ! i]))"
proof -
  from assms obtain A W S1 where
    A: "regressors E tpf bg cbvs sp p = Inr A" and
    W: "weight_rows (fp E) fluxw A = Inr W" and
    S1: "hstack W (column (replicate (length (time tpf)) (Fin 1))) = Inr S1" and
    fin: "(case t_model of None \<Rightarrow> Inr S1 | Some tm \<Rightarrow> hstack S1 (column tm)) = Inr SA"
    unfolding build_X_def ebind_Inr by blast
  from W have lw: "length fluxw = length A"
    and Wd: "W = map2 (\<lambda>f row. map (fl_mul (fp E) f) row) fluxw A"
    by (simp_all add: weight_rows_Inr)
  from S1 have lW: "length W = length (time tpf)"
    and S1d: "S1 = map2 (@) W (column (replicate (length (time tpf)) (Fin 1)))"
    by (simp_all add: hstack_Inr column_def)
  have lA: "length A = length (time tpf)" using lW Wd lw by simp
  have S1n: "S1 ! i = map (fl_mul (fp E) (fluxw ! i)) (A ! i) @ [Fin 1]"
    if "i < length (time tpf)" for i
    using that lA lw by (simp add: S1d Wd column_def)
  have lS1: "length S1 = length (time tpf)" using lW by (simp add: S1d column_def)
  show ?thesis
  proof (cases t_model)
    case None
    then show ?thesis using fin A lA lw S1n lS1 by auto
  next
    case (Some tm)
    with fin have ltm: "length S1 = length tm" and SAd: "SA = map2 (@) S1 (column tm)"
      by (simp_all add: hstack_Inr column_def)
    have "SA ! i = map (fl_mul (fp E) (fluxw ! i)) (A ! i) @ [Fin 1, tm ! i]"
      if "i < length (time tpf)" for i
      using that ltm lS1 S1n by (simp add: SAd column_def)
    then show ?thesis using Some A lA lw ltm lS1 SAd by (auto simp: column_def)
  qed
qed

subsection \<open>Segmentation\<close>

lemma length_split_from: "length (split_from st bs xs) = length bs + 1"
  by (induction bs arbitrary: st) auto

lemma length_np_diff: "length (np_diff F t) = length t - 1"
  by (simp add: np_diff_def)

lemma nth_np_diff:
  "i < length t - 1 \<Longrightarrow> np_diff F t ! i = fl_sub F (Fin (t ! Suc i)) (Fin (t ! i))"
  by (simp add: np_diff_def nth_tl)

text \<open>The differences that pass the test of line 35.\<close>

lemma np_where_gap:
  "np_where (map (\<lambda>d. fl_gt d (fl_mul F (rnd F 0.0202) (Fin 10))) (np_diff F t))
     = filter (gap_at F t) [0..<length t - 1]"
  unfolding np_where_def length_map length_np_diff
  by (rule filter_cong) (auto simp: length_np_diff nth_np_diff gap_at_def)

lemma shift_positive:
  "map nat (filter (\<lambda>b. 0 < b) (map (\<lambda>i. int i - 1) xs)) = map (\<lambda>i. i - 1) (filter (\<lambda>i. 2 \<le> i) xs)"
  by (induction xs) auto

text \<open>
  Where the boundaries fall: each difference that passes the test, from the third on, gives
  the boundary one below its own index, which is two cadences before the later cadence of
  the pair.
\<close>

lemma breaks_eq:
  "breaks F t = map (\<lambda>i. i - 1) (filter (\<lambda>i. 2 \<le> i \<and> gap_at F t i) [0..<length t - 1])"
proof -
  have "breaks F t = map (\<lambda>i. i - 1) (filter (\<lambda>i. 2 \<le> i) (filter (gap_at F t) [0..<length t - 1]))"
    unfolding breaks_def np_where_gap by (rule shift_positive)
  then show ?thesis by (simp add: conj_commute)
qed

lemma sorted_pred_filter: "sorted (map (\<lambda>i. i - (1::nat)) (filter P [0..<n]))"
proof -
  have "sorted (map (\<lambda>i. i - (1::nat)) [0..<n])"
    by (auto simp: sorted_iff_nth_mono diff_le_mono simp del: upt_Suc)
  then show ?thesis by (rule sorted_filter)
qed

lemma sorted_breaks: "sorted (breaks F t)"
  unfolding breaks_eq by (rule sorted_pred_filter)

lemma concat_split_from:
  "sorted (st # bs) \<Longrightarrow> concat (split_from st bs xs) = drop st xs"
proof (induction bs arbitrary: st)
  case Nil
  then show ?case by simp
next
  case (Cons b bs)
  from Cons.prems have le: "st \<le> b" and s: "sorted (b # bs)" by auto
  have "take (b - st) (drop st xs) @ drop b xs = drop st xs"
    using le by (metis add_diff_inverse_nat append_take_drop_id drop_drop not_less add.commute)
  then show ?case using Cons.IH[OF s] by (simp add: slice_def)
qed

text \<open>The segments, one after the other, make up the time axis.\<close>

lemma concat_segments: "concat (segments F t) = t"
  using concat_split_from[of 0 "breaks F t" t] sorted_breaks[of F t]
  by (simp add: segments_def array_split_def)

lemma length_segments: "length (segments F t) = length (breaks F t) + 1"
  by (simp add: segments_def array_split_def length_split_from)

text \<open>
  C2, as far as the code has it by design.  The test of line 35 compares each difference
  with the fixed \<^verbatim>\<open>0.0202 * 10\<close> days, whatever the spacing of the input.  When exactly
  one difference passes it, and at least three cadences come before that gap, there are
  exactly 2 segments, neither of them empty, which together make up the time axis, and 2
  segment-indicator rows.
\<close>

theorem one_gap_two_segments:
  assumes "filter (gap_at F t) [0..<length t - 1] = [g]" and "2 \<le> g"
  shows "length (segments F t) = 2 \<and> length (seg_indicators F t) = 2 \<and>
         concat (segments F t) = t \<and> [] \<notin> set (segments F t)"
proof -
  have "filter (\<lambda>i. 2 \<le> i \<and> gap_at F t i) [0..<length t - 1]
        = filter (\<lambda>i. 2 \<le> i) (filter (gap_at F t) [0..<length t - 1])"
    by (simp add: conj_commute)
  also have "\<dots> = [g]" using assms by simp
  finally have b: "breaks F t = [g - 1]" by (simp add: breaks_eq)
  then have l: "length (segments F t) = 2" by (simp add: length_segments)
  have "g \<in> set (filter (gap_at F t) [0..<length t - 1])" unfolding assms(1) by simp
  then have g: "g < length t - 1" by simp
  have "segments F t = [take (g - 1) t, drop (g - 1) t]"
    by (simp add: segments_def array_split_def b slice_def)
  with g assms(2) have ne: "[] \<notin> set (segments F t)" by auto
  from l ne show ?thesis by (simp add: seg_indicators_def concat_segments)
qed

theorem one_gap_two_segments_witness:
  "filter (gap_at exact t_gap) [0..<length t_gap - 1] = [4] \<and> (2::nat) \<le> 4 \<and>
   length (segments exact t_gap) = 2 \<and> length (seg_indicators exact t_gap) = 2 \<and>
   concat (segments exact t_gap) = t_gap \<and> [] \<notin> set (segments exact t_gap)"
proof -
  have h: "filter (gap_at exact t_gap) [0..<length t_gap - 1] = [4]"
    by (simp add: t_gap_def gap_at_def fl_sub_def upt_rec)
  from one_gap_two_segments [OF h] h show ?thesis by simp
qed

text \<open>
  C2 as stated fails: \<open>t_short\<close> has one gap above ten times its median spacing, after four
  cadences, and still a single segment and a single indicator column.
\<close>

theorem segments_relative_gap_counterexample:
  "10 * median_cadence_spacing t_short < t_short ! 4 - t_short ! 3 \<and>
   breaks exact t_short = [] \<and> length (segments exact t_short) = 1 \<and>
   length (seg_indicators exact t_short) = 1"
  by (simp add: t_short_def median_cadence_spacing_def np_diff_def breaks_def np_where_def
      segments_def seg_indicators_def array_split_def fl_sub_def upt_rec)

subsection \<open>The choice of the centroid basis\<close>

lemma DBL_MAX_big: "10 < DBL_MAX"
proof -
  have "(2::real) ^ 4 \<le> 2 ^ 1023" by (rule power_increasing) auto
  moreover have "(1::real) \<le> 2 - 1 / 2 ^ 52" by simp
  ultimately have "1 * (2::real) ^ 4 \<le> (2 - 1 / 2 ^ 52) * 2 ^ 1023"
    by (intro mult_mono) auto
  then show ?thesis unfolding DBL_MAX_def by simp
qed

text \<open>The row offsets are cleaned as claimed: each entry becomes its \<open>offset_value\<close>.\<close>

lemma clean_row:
  assumes "clean_pos_corr pc1 pc2 = Inr (r, c)"
  shows "r = map (\<lambda>x. Fin (offset_value x)) pc1"
proof -
  have *: "(if fl_gt (fl_abs (nan_to_num x)) (Fin 10) then Fin 0 else nan_to_num x)
           = Fin (offset_value x)" for x
    using DBL_MAX_big by (cases x) (auto simp: offset_value_def)
  from assms have "r = map2 (\<lambda>b x. if b then Fin 0 else x)
      (map (\<lambda>x. fl_gt (fl_abs x) (Fin 10)) (map nan_to_num pc1)) (map nan_to_num pc1)"
    by (auto simp: clean_pos_corr_def ebind_Inr mask_zero_def)
  also have "\<dots> = map (\<lambda>x. if fl_gt (fl_abs (nan_to_num x)) (Fin 10) then Fin 0
                             else nan_to_num x) pc1"
    by (induction pc1) auto
  finally show ?thesis by (simp add: *)
qed

text \<open>
  C4, as the code has it.  The row offsets are cleaned entry by entry, and the time-trend
  basis is taken exactly when their sum, as \<^verbatim>\<open>r.sum()\<close> computes it in floating point,
  equals zero, whatever the column offsets are; otherwise the centroid-motion basis is built.
  Row offsets that are all zero after cleaning are one such case, a sum of zeros being zero.
\<close>

theorem fallback_iff_float_sum_zero:
  assumes "clean_pos_corr pc1 pc2 = Inr (r, c)"
  shows "r = map (\<lambda>x. Fin (offset_value x)) pc1 \<and>
         centroid_block F t r c =
           (if fl_eq (np_sum F (map (\<lambda>x. Fin (offset_value x)) pc1)) (Fin 0)
            then time_trend_block F t
            else centroid_motion_block F t r c) \<and>
         ((\<forall>x \<in> set pc1. offset_value x = 0) \<and>
          np_sum F (replicate (length pc1) (Fin 0)) = Fin 0
            \<longrightarrow> centroid_block F t r c = time_trend_block F t)"
proof -
  have r: "r = map (\<lambda>x. Fin (offset_value x)) pc1" by (rule clean_row[OF assms])
  have 2: "centroid_block F t r c =
           (if fl_eq (np_sum F (map (\<lambda>x. Fin (offset_value x)) pc1)) (Fin 0)
            then time_trend_block F t
            else centroid_motion_block F t r c)"
    by (simp add: centroid_block_def pointing_unmeasured_def r)
  have 3: "centroid_block F t r c = time_trend_block F t"
    if z: "\<forall>x \<in> set pc1. offset_value x = 0"
      and s: "np_sum F (replicate (length pc1) (Fin 0)) = Fin 0"
  proof -
    from z have "map (\<lambda>x. Fin (offset_value x)) pc1 = replicate (length pc1) (Fin 0)"
      by (induction pc1) auto
    with s show ?thesis unfolding 2 by simp
  qed
  from r 2 3 show ?thesis by blast
qed

text \<open>
  Both cases on two cadences: row offsets that are zero once cleaned give the time-trend
  basis, row offsets \<open>[1, 1]\<close>, of sum 2, the centroid-motion basis.
\<close>

theorem fallback_iff_float_sum_zero_witness:
  "clean_pos_corr [Fin 0, NaN] [Fin 3, NaN] = Inr ([Fin 0, Fin 0], [Fin 3, Fin 0]) \<and>
   list_all (\<lambda>x. offset_value x = 0) [Fin 0, NaN] \<and>
   np_sum exact (replicate (length [Fin 0, NaN]) (Fin 0)) = Fin 0 \<and>
   centroid_block exact [0, 1] [Fin 0, Fin 0] [Fin 3, Fin 0] = time_trend_block exact [0, 1] \<and>
   clean_pos_corr [Fin 1, Fin 1] [Fin 3, NaN] = Inr ([Fin 1, Fin 1], [Fin 3, Fin 0]) \<and>
   np_sum exact [Fin 1, Fin 1] = Fin 2 \<and>
   centroid_block exact [0, 1] [Fin 1, Fin 1] [Fin 3, Fin 0]
     = centroid_motion_block exact [0, 1] [Fin 1, Fin 1] [Fin 3, Fin 0]"
proof -
  have c: "clean_pos_corr [Fin 0, NaN] [Fin 3, NaN] = Inr ([Fin 0, Fin 0], [Fin 3, Fin 0])"
    by (simp add: clean_pos_corr_def mask_zero_def ebind_def)
  have z: "list_all (\<lambda>x. offset_value x = 0) [Fin 0, NaN]"
    by (simp add: offset_value_def)
  then have z': "\<forall>x \<in> set [Fin 0, NaN]. offset_value x = 0"
    by (simp add: list_all_iff)
  have s: "np_sum exact (replicate (length [Fin 0, NaN]) (Fin 0)) = Fin 0"
    by (simp add: np_sum_exact numeral_2_eq_2)
  from fallback_iff_float_sum_zero [OF c, of exact "[0, 1]"] z' s
  have 1: "centroid_block exact [0, 1] [Fin 0, Fin 0] [Fin 3, Fin 0]
             = time_trend_block exact [0, 1]"
    by blast
  have c2: "clean_pos_corr [Fin 1, Fin 1] [Fin 3, NaN] = Inr ([Fin 1, Fin 1], [Fin 3, Fin 0])"
    by (simp add: clean_pos_corr_def mask_zero_def ebind_def)
  have s2: "np_sum exact [Fin 1, Fin 1] = Fin 2"
    by (simp add: np_sum_exact)
  have o: "map (\<lambda>x. Fin (offset_value x)) [Fin 1, Fin 1] = [Fin 1, Fin 1]"
    by (simp add: offset_value_def)
  from fallback_iff_float_sum_zero [OF c2, of exact "[0, 1]"]
  have 2: "centroid_block exact [0, 1] [Fin 1, Fin 1] [Fin 3, Fin 0]
             = centroid_motion_block exact [0, 1] [Fin 1, Fin 1] [Fin 3, Fin 0]"
    unfolding o s2 by simp
  from c z s 1 c2 s2 2 show ?thesis by blast
qed

text \<open>
  C4 as stated fails: with row offsets \<open>[1, -1]\<close>, which are not uniformly zero, the sum
  is zero and the design matrix is the time-trend basis (constant, linear, quadratic).
\<close>

theorem fallback_nonzero_offsets_counterexample:
  "clean_pos_corr [Fin 1, Fin (-1)] [Fin 0, Fin 0] = Inr ([Fin 1, Fin (-1)], [Fin 0, Fin 0]) \<and>
   pointing_unmeasured exact [Fin 1, Fin (-1)] \<and>
   centroid_block exact [0, 1] [Fin 1, Fin (-1)] [Fin 0, Fin 0] =
     Inr [[Fin 1, Fin (-1/2), Fin (1/4)], [Fin 1, Fin (1/2), Fin (1/4)]]"
  by (simp add: clean_pos_corr_def mask_zero_def ebind_def pointing_unmeasured_def np_sum_exact
      centroid_block_def time_trend_block_def segments_def breaks_def np_diff_def np_where_def
      array_split_def seg_indicators_def in1d_def ts1_row_def fl_mean_def fl_sub_def b2f_def
      stack_T_def mpow_def power2_eq_square upt_rec)

subsection \<open>build_lc\<close>

lemma hd_hstack:
  assumes "hstack A B = Inr C" "\<forall>row \<in> set A. row \<noteq> [] \<and> hd row = v"
  shows "\<forall>row \<in> set C. row \<noteq> [] \<and> hd row = v"
  using assms by (auto simp: hstack_Inr dest!: set_zip_leftD)

lemma nth_hstack:
  assumes "hstack A B = Inr C" "length A = n"
    and "\<forall>i < n. \<forall>k < m. k < length (A ! i) \<and> A ! i ! k = f i k"
  shows "length C = n \<and> (\<forall>i < n. \<forall>k < m. k < length (C ! i) \<and> C ! i ! k = f i k)"
  using assms by (auto simp: hstack_Inr nth_append intro: trans_less_add1)

lemma stack_T_first:
  assumes "\<forall>i < n. r0 ! i = v"
  shows "\<forall>row \<in> set (stack_T n (r0 # rows)). row \<noteq> [] \<and> hd row = v"
  using assms by (auto simp: stack_T_def)

text \<open>With a single segment the first regressor, the segment indicator, is constant one.\<close>

lemma centroid_first:
  assumes "centroid_block F t r c = Inr C" "breaks F t = []"
  shows "\<forall>row \<in> set C. row \<noteq> [] \<and> hd row = Fin 1"
proof -
  have seg: "segments F t = [t]" using assms(2) by (simp add: segments_def array_split_def)
  have ind: "map (map b2f) (seg_indicators F t) = [map b2f (in1d t t)]"
    by (simp add: seg_indicators_def seg)
  have one: "\<forall>i < length t. map b2f (in1d t t) ! i = Fin 1"
    by (simp add: in1d_def b2f_def)
  show ?thesis
  proof (cases "pointing_unmeasured F r")
    case True
    with assms(1) obtain ts1 where
      "C = stack_T (length t) (map b2f (in1d t t) # ts1 @ mpow F ts1 2)"
      by (auto simp: centroid_block_def time_trend_block_def ebind_Inr ind)
    then show ?thesis using stack_T_first[OF one] by simp
  next
    case False
    with assms(1) obtain rest where "C = stack_T (length t) (map b2f (in1d t t) # rest)"
      by (auto simp: centroid_block_def centroid_motion_block_def Let_def ind split: if_splits)
    then show ?thesis using stack_T_first[OF one] by simp
  qed
qed

text \<open>
  The first columns of the regressors are the segment indicators: column \<open>k\<close> is one on
  the cadences whose time is in segment \<open>k\<close> and zero on the others.
\<close>

lemma stack_T_indicators:
  assumes "i < length t" "k < length (segments F t)"
  shows "k < length (stack_T (length t) (map (map b2f) (seg_indicators F t) @ rest) ! i) \<and>
         stack_T (length t) (map (map b2f) (seg_indicators F t) @ rest) ! i ! k
           = b2f (t ! i \<in> set (segments F t ! k))"
  using assms by (simp add: stack_T_def seg_indicators_def nth_append in1d_def)

lemma centroid_indicators:
  assumes "centroid_block F t r c = Inr C"
  shows "length C = length t \<and>
         (\<forall>i < length t. \<forall>k < length (segments F t).
            k < length (C ! i) \<and> C ! i ! k = b2f (t ! i \<in> set (segments F t ! k)))"
proof -
  from assms obtain rest where
    C: "C = stack_T (length t) (map (map b2f) (seg_indicators F t) @ rest)"
    by (cases "pointing_unmeasured F r")
       (auto simp: centroid_block_def time_trend_block_def centroid_motion_block_def Let_def
          ebind_Inr split: if_splits)
  have "length C = length t" by (simp add: C stack_T_def)
  with stack_T_indicators show ?thesis unfolding C by blast
qed

lemma regressors_Inr:
  assumes "regressors E tpf bg cbvs sp p = Inr A"
  obtains r c C A1 A2 where
    "centroid_block (fp E) (time tpf) r c = Inr C"
    "(case cbvs of None \<Rightarrow> Inr C | Some cb \<Rightarrow> hstack C (map (map nan_to_num) cb)) = Inr A1"
    "(if bg then hstack A1 (background_pca E tpf) else Inr A1) = Inr A2"
    "(if sp then ebind (n_knots (fp E) (time tpf) p)
                  (\<lambda>k. hstack A2 (create_spline_matrix E (time tpf) k))
      else Inr A2) = Inr A"
  using assms by (auto simp: regressors_def ebind_Inr split: prod.splits)

lemma regressors_first:
  assumes "regressors E tpf bg cbvs sp p = Inr A" "breaks (fp E) (time tpf) = []"
  shows "\<forall>row \<in> set A. row \<noteq> [] \<and> hd row = Fin 1"
proof -
  from assms(1) obtain r c C A1 A2 where
    C: "centroid_block (fp E) (time tpf) r c = Inr C" and
    A1: "(case cbvs of None \<Rightarrow> Inr C | Some cb \<Rightarrow> hstack C (map (map nan_to_num) cb)) = Inr A1" and
    A2: "(if bg then hstack A1 (background_pca E tpf) else Inr A1) = Inr A2" and
    A: "(if sp then ebind (n_knots (fp E) (time tpf) p)
                      (\<lambda>k. hstack A2 (create_spline_matrix E (time tpf) k))
         else Inr A2) = Inr A"
    by (rule regressors_Inr)
  have 0: "\<forall>row \<in> set C. row \<noteq> [] \<and> hd row = Fin 1" by (rule centroid_first[OF C assms(2)])
  have 1: "\<forall>row \<in> set A1. row \<noteq> [] \<and> hd row = Fin 1"
  proof (cases cbvs)
    case None
    with A1 0 show ?thesis by simp
  next
    case (Some cb)
    with A1 have "hstack C (map (map nan_to_num) cb) = Inr A1" by simp
    from hd_hstack[OF this 0] show ?thesis .
  qed
  have 2: "\<forall>row \<in> set A2. row \<noteq> [] \<and> hd row = Fin 1"
  proof (cases bg)
    case False
    with A2 1 show ?thesis by simp
  next
    case True
    with A2 have "hstack A1 (background_pca E tpf) = Inr A2" by simp
    from hd_hstack[OF this 1] show ?thesis .
  qed
  show ?thesis
  proof (cases sp)
    case False
    with A 2 show ?thesis by simp
  next
    case True
    with A obtain k where "hstack A2 (create_spline_matrix E (time tpf) k) = Inr A"
      by (auto simp: ebind_Inr)
    from hd_hstack[OF this 2] show ?thesis .
  qed
qed

lemma regressors_indicators:
  assumes "regressors E tpf bg cbvs sp p = Inr A"
  shows "\<forall>i < length (time tpf). \<forall>k < length (segments (fp E) (time tpf)).
           k < length (A ! i) \<and>
           A ! i ! k = b2f (time tpf ! i \<in> set (segments (fp E) (time tpf) ! k))"
proof -
  let ?t = "time tpf" and ?m = "length (segments (fp E) (time tpf))"
  let ?f = "\<lambda>i k. b2f (time tpf ! i \<in> set (segments (fp E) (time tpf) ! k))"
  let ?P = "\<lambda>M. length M = length ?t \<and>
                (\<forall>i < length ?t. \<forall>k < ?m. k < length (M ! i) \<and> M ! i ! k = ?f i k)"
  from assms obtain r c C A1 A2 where
    C: "centroid_block (fp E) ?t r c = Inr C" and
    A1: "(case cbvs of None \<Rightarrow> Inr C | Some cb \<Rightarrow> hstack C (map (map nan_to_num) cb)) = Inr A1" and
    A2: "(if bg then hstack A1 (background_pca E tpf) else Inr A1) = Inr A2" and
    A: "(if sp then ebind (n_knots (fp E) ?t p)
                      (\<lambda>k. hstack A2 (create_spline_matrix E ?t k))
         else Inr A2) = Inr A"
    by (rule regressors_Inr)
  have 0: "?P C" by (rule centroid_indicators[OF C])
  have 1: "?P A1"
  proof (cases cbvs)
    case None
    with A1 0 show ?thesis by simp
  next
    case (Some cb)
    with A1 have "hstack C (map (map nan_to_num) cb) = Inr A1" by simp
    from nth_hstack[OF this conjunct1[OF 0] conjunct2[OF 0]] show ?thesis .
  qed
  have 2: "?P A2"
  proof (cases bg)
    case False
    with A2 1 show ?thesis by simp
  next
    case True
    with A2 have "hstack A1 (background_pca E tpf) = Inr A2" by simp
    from nth_hstack[OF this conjunct1[OF 1] conjunct2[OF 1]] show ?thesis .
  qed
  have "?P A"
  proof (cases sp)
    case False
    with A 2 show ?thesis by simp
  next
    case True
    with A obtain k where "hstack A2 (create_spline_matrix E ?t k) = Inr A"
      by (auto simp: ebind_Inr)
    from nth_hstack[OF this conjunct1[OF 2] conjunct2[OF 2]] show ?thesis .
  qed
  then show ?thesis by (rule conjunct2)
qed

text \<open>An entry of a concatenation of distinct entries lies in exactly one of the parts.\<close>

lemma distinct_concat_unique:
  "distinct (concat xss) \<Longrightarrow> x \<in> set (concat xss) \<Longrightarrow>
   \<exists>k < length xss. \<forall>k' < length xss. (x \<in> set (xss ! k')) = (k' = k)"
proof (induction xss)
  case Nil
  then show ?case by simp
next
  case (Cons xs xss)
  from Cons.prems(1) have d: "distinct (concat xss)"
    and disj: "set xs \<inter> set (concat xss) = {}" by auto
  show ?case
  proof (cases "x \<in> set xs")
    case True
    with disj have out: "x \<notin> set (concat xss)" by auto
    have "\<forall>k' < length (xs # xss). (x \<in> set ((xs # xss) ! k')) = (k' = 0)"
    proof (intro allI impI)
      fix k' assume k': "k' < length (xs # xss)"
      show "(x \<in> set ((xs # xss) ! k')) = (k' = 0)"
      proof (cases k')
        case 0
        with True show ?thesis by simp
      next
        case (Suc m)
        with k' have "m < length xss" by simp
        then have "xss ! m \<in> set xss" by simp
        then have "set (xss ! m) \<subseteq> set (concat xss)" by auto
        with out Suc show ?thesis by auto
      qed
    qed
    then show ?thesis by (intro exI[of _ 0]) simp
  next
    case False
    with Cons.prems(2) have "x \<in> set (concat xss)" by simp
    from Cons.IH[OF d this] obtain k where k: "k < length xss"
      and u: "\<forall>k' < length xss. (x \<in> set (xss ! k')) = (k' = k)" by blast
    have "\<forall>k' < length (xs # xss). (x \<in> set ((xs # xss) ! k')) = (k' = Suc k)"
    proof (intro allI impI)
      fix k' assume k': "k' < length (xs # xss)"
      show "(x \<in> set ((xs # xss) ! k')) = (k' = Suc k)"
        using False u k' by (cases k') auto
    qed
    with k show ?thesis by (intro exI[of _ "Suc k"]) simp
  qed
qed

text \<open>When no time repeats, every cadence is in exactly one segment.\<close>

lemma one_segment_each:
  assumes "distinct t" "i < length t"
  shows "\<exists>k < length (segments F t). \<forall>k' < length (segments F t).
           (t ! i \<in> set (segments F t ! k')) = (k' = k)"
  using distinct_concat_unique[of "segments F t" "t ! i"] assms
  by (simp add: concat_segments)

text \<open>
  The column that \<^verbatim>\<open>build_lc\<close> drops is the constant one that \<^verbatim>\<open>build_X\<close> appended:
  what is left are the regressors, each multiplied by the unit weight.
\<close>

lemma build_lc_design_Inr:
  assumes "build_lc_design E tpf cbvs bg sp p = Inr D"
  shows "\<exists>A SA. regressors E tpf bg cbvs sp p = Inr A \<and>
           build_X E tpf (replicate (length (time tpf)) (Fin 1)) None bg cbvs sp p = Inr SA \<and>
           length A = length (time tpf) \<and> length SA = length (time tpf) \<and>
           length D = length (time tpf) \<and>
           (\<forall>i < length (time tpf).
              SA ! i = map (fl_mul (fp E) (Fin 1)) (A ! i) @ [Fin 1] \<and>
              D ! i = map (fl_mul (fp E) (Fin 1)) (A ! i))"
proof -
  from assms obtain SA where
    SA: "build_X E tpf (replicate (length (time tpf)) (Fin 1)) None bg cbvs sp p = Inr SA"
    and D: "D = map butlast SA"
    by (auto simp: build_lc_design_def ebind_Inr)
  from build_X_rows[OF SA] obtain A where
    A: "regressors E tpf bg cbvs sp p = Inr A" and lA: "length A = length (time tpf)"
    and lSA: "length SA = length (time tpf)"
    and rows: "\<forall>i < length (time tpf).
        SA ! i = map (fl_mul (fp E) (replicate (length (time tpf)) (Fin 1) ! i)) (A ! i) @ [Fin 1]"
    by auto
  have rows': "SA ! i = map (fl_mul (fp E) (Fin 1)) (A ! i) @ [Fin 1]"
    if "i < length (time tpf)" for i
    using rows that by simp
  have lD: "length D = length (time tpf)" using lSA D by simp
  have Dn: "D ! i = map (fl_mul (fp E) (Fin 1)) (A ! i)" if "i < length (time tpf)" for i
    using that lSA rows'[OF that] by (simp add: D)
  show ?thesis
    by (intro exI[of _ A] exI[of _ SA] conjI allI impI) (fact A SA lA lSA lD rows' Dn)+
qed

lemma lc_truediv_Inr:
  assumes "lc_truediv F lc m = Inr out"
  shows "length m = length (lc_flux lc) \<and>
         lc_flux out = map2 (\<lambda>y x. fl_mul F (fl_div F (Fin 1) y) x) m (lc_flux lc) \<and>
         lc_flux_err out = map2 (\<lambda>y x. fl_mul F (fl_abs (fl_div F (Fin 1) y)) x) m (lc_flux_err lc)"
  using assms by (auto simp: lc_truediv_def split: if_splits)

text \<open>
  C3, as the code has it.  \<^verbatim>\<open>build_lc\<close> builds the design matrix with unit flux weights
  and no template, and drops its last column, which is the constant-ones column: the matrix
  of the solve holds the regressors, each times the weight one.  Among the regressors the
  segment indicators remain: with a single segment the first column is constant one, and
  when no time repeats every cadence has the value one in exactly one indicator column and
  zero in the others.  The flux returned is the raw aggregate flux times the reciprocal of
  the model fitted with that matrix, cadence by cadence, and the flux error the raw error
  times the magnitude of that reciprocal.  Nothing is said of the size of the model.
\<close>

theorem build_lc_divides_by_regressor_model:
  assumes "build_lc E tpf aper cbvs cadence_mask bg sp p = Inr out"
  shows "\<exists>A SA D m.
           regressors E tpf bg cbvs sp p = Inr A \<and>
           build_X E tpf (replicate (length (time tpf)) (Fin 1)) None bg cbvs sp p = Inr SA \<and>
           build_lc_design E tpf cbvs bg sp p = Inr D \<and>
           length A = length (time tpf) \<and> length SA = length (time tpf) \<and>
           length D = length (time tpf) \<and>
           (\<forall>i < length (time tpf).
              SA ! i = map (fl_mul (fp E) (Fin 1)) (A ! i) @ [Fin 1] \<and>
              D ! i = map (fl_mul (fp E) (Fin 1)) (A ! i)) \<and>
           (breaks (fp E) (time tpf) = [] \<longrightarrow> (\<forall>row \<in> set A. row \<noteq> [] \<and> hd row = Fin 1)) \<and>
           (distinct (time tpf) \<longrightarrow>
              (\<forall>i < length (time tpf). \<exists>k < length (segments (fp E) (time tpf)).
                 \<forall>k' < length (segments (fp E) (time tpf)).
                   k' < length (A ! i) \<and> A ! i ! k' = (if k' = k then Fin 1 else Fin 0))) \<and>
           build_lc_model E D
             (case cadence_mask of None \<Rightarrow> replicate (length (time tpf)) True | Some cm \<Rightarrow> cm)
             (to_lightcurve E tpf aper) = Inr m \<and>
           length m = length (lc_flux (to_lightcurve E tpf aper)) \<and>
           lc_flux out = map2 (\<lambda>y x. fl_mul (fp E) (fl_div (fp E) (Fin 1) y) x) m
                           (lc_flux (to_lightcurve E tpf aper)) \<and>
           lc_flux_err out = map2 (\<lambda>y x. fl_mul (fp E) (fl_abs (fl_div (fp E) (Fin 1) y)) x) m
                               (lc_flux_err (to_lightcurve E tpf aper))"
proof -
  let ?t = "time tpf" and ?segs = "segments (fp E) (time tpf)"
  let ?cm = "case cadence_mask of None \<Rightarrow> replicate (length (time tpf)) True | Some cm \<Rightarrow> cm"
  from assms obtain D m where
    D: "build_lc_design E tpf cbvs bg sp p = Inr D" and
    m: "build_lc_model E D ?cm (to_lightcurve E tpf aper) = Inr m" and
    out: "lc_truediv (fp E) (to_lightcurve E tpf aper) m = Inr out"
    by (auto simp: build_lc_def ebind_Inr Let_def)
  from build_lc_design_Inr[OF D] obtain A SA where
    A: "regressors E tpf bg cbvs sp p = Inr A" and
    SA: "build_X E tpf (replicate (length ?t) (Fin 1)) None bg cbvs sp p = Inr SA" and
    lA: "length A = length ?t" and lSA: "length SA = length ?t" and lD: "length D = length ?t" and
    rows: "\<forall>i < length ?t.
              SA ! i = map (fl_mul (fp E) (Fin 1)) (A ! i) @ [Fin 1] \<and>
              D ! i = map (fl_mul (fp E) (Fin 1)) (A ! i)"
    by blast
  have first: "breaks (fp E) ?t = [] \<longrightarrow> (\<forall>row \<in> set A. row \<noteq> [] \<and> hd row = Fin 1)"
    using regressors_first[OF A] by blast
  note ind = regressors_indicators[OF A]
  have part: "distinct ?t \<longrightarrow>
              (\<forall>i < length ?t. \<exists>k < length ?segs.
                 \<forall>k' < length ?segs.
                   k' < length (A ! i) \<and> A ! i ! k' = (if k' = k then Fin 1 else Fin 0))"
  proof (intro impI allI)
    fix i assume d: "distinct ?t" and i: "i < length ?t"
    from one_segment_each[OF d i, of "fp E"] obtain k where k: "k < length ?segs"
      and u: "\<forall>k' < length ?segs. (?t ! i \<in> set (?segs ! k')) = (k' = k)" by blast
    have "\<forall>k' < length ?segs.
            k' < length (A ! i) \<and> A ! i ! k' = (if k' = k then Fin 1 else Fin 0)"
    proof (intro allI impI)
      fix k' assume k': "k' < length ?segs"
      from ind i k' have "k' < length (A ! i)"
        and "A ! i ! k' = b2f (?t ! i \<in> set (?segs ! k'))" by blast+
      with u k' show "k' < length (A ! i) \<and> A ! i ! k' = (if k' = k then Fin 1 else Fin 0)"
        by (simp add: b2f_def)
    qed
    with k show "\<exists>k < length ?segs. \<forall>k' < length ?segs.
                   k' < length (A ! i) \<and> A ! i ! k' = (if k' = k then Fin 1 else Fin 0)"
      by blast
  qed
  note o = lc_truediv_Inr[OF out]
  show ?thesis
    by (intro exI[of _ A] exI[of _ SA] exI[of _ D] exI[of _ m] conjI)
       (fact A SA D lA lSA lD rows first part m o[THEN conjunct1]
          o[THEN conjunct2, THEN conjunct1] o[THEN conjunct2, THEN conjunct2])+
qed

subsection \<open>Examples of build_lc\<close>

lemma map2_if_map:
  "map2 (\<lambda>b x. if b then v else x) (map f t) (map g t) = map (\<lambda>x. if f x then v else g x) t"
  by (induction t) auto

lemma clean_zero: "clean_pos_corr (map (\<lambda>x. Fin 0) t) (map (\<lambda>x. Fin 0) t)
   = Inr (map (\<lambda>x. Fin 0) t, map (\<lambda>x. Fin 0) t)"
proof -
  have a: "map nan_to_num (map (\<lambda>x. Fin 0) t) = map (\<lambda>x. Fin 0) t"
    by (simp add: o_def)
  have b: "map (\<lambda>x. fl_gt (fl_abs x) (Fin 10)) (map (\<lambda>x. Fin 0) t) = map (\<lambda>x. False) t"
    by (simp add: o_def)
  have c: "mask_zero (map (\<lambda>x. False) t) (map (\<lambda>x. Fin 0) t) = Inr (map (\<lambda>x. Fin 0) t)"
    unfolding mask_zero_def map2_if_map by simp
  show ?thesis
    by (simp only: clean_pos_corr_def Let_def a b c ebind_def sum.case)
qed

lemma unmeasured_zero: "pointing_unmeasured exact (map (\<lambda>x. Fin 0) t)"
  using np_sum_exact_Fin[of "\<lambda>x. 0" t] by (simp add: pointing_unmeasured_def)

lemma fp_demo [simp]: "fp (demo_ext ws Ss tm tmask) = exact"
  by (simp add: demo_ext_def)

lemma regressors_flat:
  "regressors (demo_ext ws Ss tm tmask) (flat_stamp t v) False None False p
     = time_trend_block exact t"
  by (simp add: regressors_def flat_stamp_def clean_zero centroid_block_def unmeasured_zero
      ebind_def split: sum.splits)

lemma tt_flat: "time_trend_block exact t_flat = Inr flat_D"
  unfolding time_trend_block_def seg_indicators_def
  by (simp add: segments_def breaks_def np_diff_def np_where_def array_split_def
       ebind_def ts1_row_def t_flat_def in1d_def fl_mean_def np_sum_exact fl_sub_def b2f_def
       mpow_def power2_eq_square stack_T_def flat_D_def)

lemma design_flat:
  "build_lc_design (demo_ext ws Ss tm tmask) (flat_stamp t_flat v) None False False 8
     = Inr flat_D"
proof -
  have "build_X (demo_ext ws Ss tm tmask) (flat_stamp t_flat v)
          (replicate (length t_flat) (Fin 1)) None False None False 8
     = Inr (map (\<lambda>row. row @ [Fin 1]) flat_D)"
    unfolding build_X_def regressors_flat tt_flat
    by (simp add: ebind_def weight_rows_def hstack_def column_def t_flat_def flat_stamp_def
          flat_D_def)
  then show ?thesis
    unfolding build_lc_design_def by (simp add: flat_stamp_def ebind_def o_def)
qed

lemma raw_flat:
  "to_lightcurve (demo_ext ws Ss tm tmask) (flat_stamp t_flat v) [[True]] =
     \<lparr>lc_time = t_flat, lc_flux = [Fin v, Fin v, Fin v], lc_flux_err = [Fin 1, Fin 1, Fin 1]\<rparr>"
  by (simp add: demo_ext_def aperture_photometry_def flat_stamp_def t_flat_def select_pixels_def
      select_def seq_sum_def)

lemma flat_equations:
  "normal_equations exact flat_D [True, True, True] [Fin v, Fin v, Fin v] [Fin 1, Fin 1, Fin 1]
     = Inr ([[Fin 3, Fin 0, Fin (1 / 2)], [Fin 0, Fin (1 / 2), Fin 0],
             [Fin (1 / 2), Fin 0, Fin (1 / 8)]],
            [Fin (3 * v), Fin 0, Fin (v / 2)])"
  by (simp add: normal_equations_def information_matrix_def projection_def sp_row_dot_def
       select_def ncols_def flat_D_def seq_sum_def upt_rec algebra_simps)

lemma flat_model:
  "build_lc_model (demo_ext [[Fin v, Fin 0, Fin 0]] Ss tm tmask) flat_D [True, True, True]
     \<lparr>lc_time = t_flat, lc_flux = [Fin v, Fin v, Fin v], lc_flux_err = [Fin 1, Fin 1, Fin 1]\<rparr>
     = Inr [Fin v, Fin v, Fin v]"
proof -
  have so: "linalg_solve (demo_ext [[Fin v, Fin 0, Fin 0]] Ss tm tmask)
              [[Fin 3, Fin 0, Fin (1 / 2)], [Fin 0, Fin (1 / 2), Fin 0],
               [Fin (1 / 2), Fin 0, Fin (1 / 8)]]
              [Fin (3 * v), Fin 0, Fin (v / 2)] = Inr [Fin v, Fin 0, Fin 0]"
    by (simp add: demo_ext_def check_solve_def mat_vec_def seq_sum_def)
  have dot: "sp_dot exact flat_D [Fin v, Fin 0, Fin 0] = Inr [Fin v, Fin v, Fin v]"
    by (simp add: sp_dot_def sp_row_dot_def ncols_def flat_D_def seq_sum_def)
  show ?thesis
    unfolding build_lc_model_def fit_weights_def
    by (simp add: flat_equations so dot ebind_def)
qed

lemma build_lc_flat:
  "build_lc (demo_ext [[Fin 2, Fin 0, Fin 0]] Ss tm tmask) (flat_stamp t_flat 2) [[True]]
       None None False False 8
     = Inr \<lparr>lc_time = t_flat, lc_flux = [Fin 1, Fin 1, Fin 1],
            lc_flux_err = [Fin (1/2), Fin (1/2), Fin (1/2)]\<rparr>"
proof -
  have l: "replicate (length (time (flat_stamp t_flat 2))) True = [True, True, True]"
    by (simp add: flat_stamp_def t_flat_def)
  show ?thesis
    unfolding build_lc_def design_flat Let_def raw_flat option.case l
    by (simp add: ebind_def flat_model lc_truediv_def)
qed

theorem build_lc_divides_by_regressor_model_witness:
  "build_lc (demo_ext [[Fin 2, Fin 0, Fin 0]] [] [] []) (flat_stamp t_flat 2) [[True]] None None
       False False 8
     = Inr \<lparr>lc_time = t_flat, lc_flux = [Fin 1, Fin 1, Fin 1],
            lc_flux_err = [Fin (1/2), Fin (1/2), Fin (1/2)]\<rparr> \<and>
   breaks exact (time (flat_stamp t_flat 2)) = [] \<and>
   distinct (time (flat_stamp t_flat 2)) \<and>
   (\<exists>A m. regressors (demo_ext [[Fin 2, Fin 0, Fin 0]] [] [] []) (flat_stamp t_flat 2)
              False None False 8 = Inr A \<and>
          list_all (\<lambda>row. row \<noteq> [] \<and> hd row = Fin 1) A \<and>
          [Fin 1, Fin 1, Fin 1] =
            map2 (\<lambda>y x. fl_mul exact (fl_div exact (Fin 1) y) x) m
              (lc_flux (to_lightcurve (demo_ext [[Fin 2, Fin 0, Fin 0]] [] [] [])
                          (flat_stamp t_flat 2) [[True]])))"
proof -
  let ?E = "demo_ext [[Fin 2, Fin 0, Fin 0]] [] [] []"
  let ?out = "\<lparr>lc_time = t_flat, lc_flux = [Fin 1, Fin 1, Fin 1],
                lc_flux_err = [Fin (1/2), Fin (1/2), Fin (1/2)]\<rparr>"
  have h: "build_lc ?E (flat_stamp t_flat 2) [[True]] None None False False 8 = Inr ?out"
    by (rule build_lc_flat)
  have b: "breaks exact (time (flat_stamp t_flat 2)) = []"
    by (simp add: flat_stamp_def t_flat_def breaks_def np_diff_def np_where_def fl_sub_def)
  have d: "distinct (time (flat_stamp t_flat 2))"
    by (simp add: flat_stamp_def t_flat_def)
  from build_lc_divides_by_regressor_model [OF h] obtain A m where
    A: "regressors ?E (flat_stamp t_flat 2) False None False 8 = Inr A" and
    imp: "breaks (fp ?E) (time (flat_stamp t_flat 2)) = []
            \<longrightarrow> (\<forall>row \<in> set A. row \<noteq> [] \<and> hd row = Fin 1)" and
    fl: "lc_flux ?out = map2 (\<lambda>y x. fl_mul (fp ?E) (fl_div (fp ?E) (Fin 1) y) x) m
                          (lc_flux (to_lightcurve ?E (flat_stamp t_flat 2) [[True]]))"
    by blast
  from imp b have first: "list_all (\<lambda>row. row \<noteq> [] \<and> hd row = Fin 1) A"
    by (simp add: list_all_iff)
  from fl have eq: "[Fin 1, Fin 1, Fin 1] =
      map2 (\<lambda>y x. fl_mul exact (fl_div exact (Fin 1) y) x) m
        (lc_flux (to_lightcurve ?E (flat_stamp t_flat 2) [[True]]))" by simp
  show ?thesis
  proof (intro conjI exI)
    show "build_lc ?E (flat_stamp t_flat 2) [[True]] None None False False 8 = Inr ?out"
      by (rule h)
    show "breaks exact (time (flat_stamp t_flat 2)) = []" by (rule b)
    show "distinct (time (flat_stamp t_flat 2))" by (rule d)
    show "regressors ?E (flat_stamp t_flat 2) False None False 8 = Inr A" by (rule A)
    show "list_all (\<lambda>row. row \<noteq> [] \<and> hd row = Fin 1) A" by (rule first)
    show "[Fin 1, Fin 1, Fin 1] =
      map2 (\<lambda>y x. fl_mul exact (fl_div exact (Fin 1) y) x) m
        (lc_flux (to_lightcurve ?E (flat_stamp t_flat 2) [[True]]))" by (rule eq)
  qed
qed

text \<open>
  C3 as stated fails: a constant column does not keep the model away from zero.  On a stamp
  of three cadences whose aperture flux is zero, the matrix of the solve has a constant
  column, the fitted model is zero on every cadence, and the light curve returned is NaN
  with infinite error.
\<close>

theorem build_lc_zero_model_counterexample:
  "build_lc_design (demo_ext [[Fin 0, Fin 0, Fin 0]] [] [] []) (flat_stamp t_flat 0)
       None False False 8 = Inr flat_D \<and>
   has_offset_column flat_D \<and>
   build_lc_model (demo_ext [[Fin 0, Fin 0, Fin 0]] [] [] []) flat_D [True, True, True]
       (to_lightcurve (demo_ext [[Fin 0, Fin 0, Fin 0]] [] [] []) (flat_stamp t_flat 0) [[True]])
     = Inr [Fin 0, Fin 0, Fin 0] \<and>
   build_lc (demo_ext [[Fin 0, Fin 0, Fin 0]] [] [] []) (flat_stamp t_flat 0) [[True]] None None
       False False 8
     = Inr \<lparr>lc_time = t_flat, lc_flux = [NaN, NaN, NaN], lc_flux_err = [PInf, PInf, PInf]\<rparr>"
proof -
  have l: "replicate (length (time (flat_stamp t_flat 0))) True = [True, True, True]"
    by (simp add: flat_stamp_def t_flat_def)
  have 1: "has_offset_column flat_D"
    by (simp add: has_offset_column_def ncols_def flat_D_def)
  have 2: "build_lc_model (demo_ext [[Fin 0, Fin 0, Fin 0]] [] [] []) flat_D [True, True, True]
       (to_lightcurve (demo_ext [[Fin 0, Fin 0, Fin 0]] [] [] []) (flat_stamp t_flat 0) [[True]])
     = Inr [Fin 0, Fin 0, Fin 0]"
    unfolding raw_flat by (rule flat_model)
  have 3: "build_lc (demo_ext [[Fin 0, Fin 0, Fin 0]] [] [] []) (flat_stamp t_flat 0) [[True]]
       None None False False 8
     = Inr \<lparr>lc_time = t_flat, lc_flux = [NaN, NaN, NaN], lc_flux_err = [PInf, PInf, PInf]\<rparr>"
    unfolding build_lc_def design_flat Let_def raw_flat option.case l
    by (simp add: ebind_def flat_model lc_truediv_def inf_times_def)
  from design_flat 1 2 3 show ?thesis by blast
qed

subsection \<open>The pixel loop of build_model\<close>

lemma shaped_zeros2: "shaped r c (zeros2 r c)"
  by (simp add: shaped_def zeros2_def)

lemma shaped_set_pixel: "shaped r c a \<Longrightarrow> shaped r c (set_pixel a i j v)"
proof (cases "i < length a")
  case True
  assume "shaped r c a"
  with True show ?thesis
    unfolding shaped_def set_pixel_def
    by (auto dest!: set_update_subset_insert[THEN subsetD])
next
  case False
  assume "shaped r c a"
  with False show ?thesis by (simp add: set_pixel_def list_update_beyond)
qed

lemma nth_set_pixel_same:
  "shaped r c a \<Longrightarrow> i < r \<Longrightarrow> j < c \<Longrightarrow> set_pixel a i j v ! i ! j = v"
  by (simp add: shaped_def set_pixel_def)

lemma nth_set_pixel_other:
  "(idx, jdx) \<noteq> (i, j) \<Longrightarrow> set_pixel a idx jdx v ! i ! j = a ! i ! j"
proof (cases "idx = i")
  case False
  then show ?thesis by (simp add: set_pixel_def)
next
  case True
  assume "(idx, jdx) \<noteq> (i, j)"
  with True have "jdx \<noteq> j" by simp
  then show ?thesis using True
    by (cases "i < length a") (simp_all add: set_pixel_def list_update_beyond)
qed

lemma set_series_Inr:
  "set_series a i j m = Inr a' \<longleftrightarrow>
     length m = length a \<and> a' = map2 (\<lambda>frame x. set_pixel frame i j x) a m"
  by (auto simp: set_series_def)

lemma series_set_other:
  assumes "length m = length a" "(idx, jdx) \<noteq> (i, j)"
  shows "series (map2 (\<lambda>frame x. set_pixel frame idx jdx x) a m) i j = series a i j"
  using assms(1)
  by (induction m a rule: list_induct2) (auto simp: series_def nth_set_pixel_other[OF assms(2)])

lemma series_set_same:
  assumes "length m = length a" "\<forall>frame \<in> set a. shaped r c frame" "i < r" "j < c"
  shows "series (map2 (\<lambda>frame x. set_pixel frame i j x) a m) i j = m"
  using assms(1,2)
  by (induction m a rule: list_induct2) (auto simp: series_def nth_set_pixel_same[OF _ assms(3,4)])

lemma pixel_step_cases:
  assumes "pixel_step E tpf SA cm tm (idx, jdx) st = Inr st'"
  shows "(\<not> list_ex isfinite (series (flux tpf) idx jdx) \<and> st' = st) \<or>
         (list_ex isfinite (series (flux tpf) idx jdx) \<and>
          (\<exists>S w m Sw.
             fit_weights E SA cm (series (flux tpf) idx jdx) (series (flux_err tpf) idx jdx)
               = Inr (S, w) \<and>
             sp_dot (fp E) SA w = Inr m \<and> length m = length (model st) \<and>
             linalg_inv E S = Inr Sw \<and>
             model st' = map2 (\<lambda>frame x. set_pixel frame idx jdx x) (model st) m \<and>
             (if tm then
                (\<exists>d xs g'. last_entry w = Inr d \<and> draw_last E 50 w Sw (rng st) = Inr (xs, g') \<and>
                   transit_pixels st' = set_pixel (transit_pixels st) idx jdx d \<and>
                   transit_pixels_err st' =
                     set_pixel (transit_pixels_err st) idx jdx (np_std (fp E) xs))
              else transit_pixels st' = transit_pixels st \<and>
                   transit_pixels_err st' = transit_pixels_err st)))"
proof (cases "list_ex isfinite (series (flux tpf) idx jdx)")
  case False
  with assms show ?thesis by (simp add: pixel_step_def)
next
  case True
  with assms obtain S w m M' Sw where
    fw: "fit_weights E SA cm (series (flux tpf) idx jdx) (series (flux_err tpf) idx jdx)
           = Inr (S, w)" and
    m: "sp_dot (fp E) SA w = Inr m" and M': "set_series (model st) idx jdx m = Inr M'" and
    Sw: "linalg_inv E S = Inr Sw" and
    rest: "(if tm
            then ebind (last_entry w) (\<lambda>depth.
                 ebind (draw_last E 50 w Sw (rng (st\<lparr>model := M'\<rparr>))) (\<lambda>(xs, g').
                   Inr (st\<lparr>model := M'\<rparr>\<lparr>transit_pixels :=
                              set_pixel (transit_pixels (st\<lparr>model := M'\<rparr>)) idx jdx depth,
                            transit_pixels_err :=
                              set_pixel (transit_pixels_err (st\<lparr>model := M'\<rparr>)) idx jdx
                                (np_std (fp E) xs),
                            rng := g'\<rparr>)))
            else Inr (st\<lparr>model := M'\<rparr>)) = Inr st'"
    by (auto simp: pixel_step_def Let_def ebind_Inr split: prod.splits)
  from M' have lm: "length m = length (model st)"
    and M'd: "M' = map2 (\<lambda>frame x. set_pixel frame idx jdx x) (model st) m"
    by (simp_all add: set_series_Inr)
  show ?thesis
  proof (cases tm)
    case False
    with rest have "st' = st\<lparr>model := M'\<rparr>" by simp
    with True fw m lm Sw M'd False show ?thesis by auto
  next
    case tmT: True
    with rest obtain d xs g' where
      d: "last_entry w = Inr d" and dr: "draw_last E 50 w Sw (rng st) = Inr (xs, g')" and
      st': "st' = st\<lparr>model := M', transit_pixels := set_pixel (transit_pixels st) idx jdx d,
                  transit_pixels_err :=
                    set_pixel (transit_pixels_err st) idx jdx (np_std (fp E) xs),
                  rng := g'\<rparr>"
      by (auto simp: ebind_Inr split: prod.splits)
    have "\<exists>d xs g'. last_entry w = Inr d \<and> draw_last E 50 w Sw (rng st) = Inr (xs, g') \<and>
                   transit_pixels st' = set_pixel (transit_pixels st) idx jdx d \<and>
                   transit_pixels_err st' =
                     set_pixel (transit_pixels_err st) idx jdx (np_std (fp E) xs)"
      using d dr st' by auto
    moreover have "model st' = map2 (\<lambda>frame x. set_pixel frame idx jdx x) (model st) m"
      using st' M'd by simp
    ultimately show ?thesis using True fw m lm Sw tmT
      by (intro disjI2 conjI exI[of _ S] exI[of _ w] exI[of _ m] exI[of _ Sw]) simp_all
  qed
qed

lemma pixel_step_shape:
  assumes "pixel_step E tpf SA cm tm p st = Inr st'" "state_shape n r c st"
  shows "state_shape n r c st'"
proof -
  obtain idx jdx where p: "p = (idx, jdx)" by (cases p)
  from pixel_step_cases[OF assms(1)[unfolded p]] show ?thesis
  proof (elim disjE conjE exE)
    assume "st' = st" with assms(2) show ?thesis by simp
  next
    fix S w m Sw
    assume lm: "length m = length (model st)"
      and M: "model st' = map2 (\<lambda>frame x. set_pixel frame idx jdx x) (model st) m"
      and T: "if tm then
                (\<exists>d xs g'. last_entry w = Inr d \<and> draw_last E 50 w Sw (rng st) = Inr (xs, g') \<and>
                   transit_pixels st' = set_pixel (transit_pixels st) idx jdx d \<and>
                   transit_pixels_err st' =
                     set_pixel (transit_pixels_err st) idx jdx (np_std (fp E) xs))
              else transit_pixels st' = transit_pixels st \<and>
                   transit_pixels_err st' = transit_pixels_err st"
    have 1: "length (model st') = n" using M lm assms(2) by (simp add: state_shape_def)
    have 2: "\<forall>frame \<in> set (model st'). shaped r c frame"
      using assms(2) unfolding M state_shape_def
      by (auto dest!: set_zip_leftD intro: shaped_set_pixel)
    have 3: "shaped r c (transit_pixels st') \<and> shaped r c (transit_pixels_err st')"
      using T assms(2) by (cases tm) (auto simp: state_shape_def intro: shaped_set_pixel)
    from 1 2 3 show ?thesis by (simp add: state_shape_def)
  qed
qed

lemma pixel_step_other:
  assumes "pixel_step E tpf SA cm tm p st = Inr st'" "p \<noteq> (i, j)"
  shows "pixel_view st' i j = pixel_view st i j"
proof -
  obtain idx jdx where p: "p = (idx, jdx)" by (cases p)
  with assms(2) have ne: "(idx, jdx) \<noteq> (i, j)" by simp
  from pixel_step_cases[OF assms(1)[unfolded p]] show ?thesis
  proof (elim disjE conjE exE)
    assume "st' = st" then show ?thesis by simp
  next
    fix S w m Sw
    assume lm: "length m = length (model st)"
      and M: "model st' = map2 (\<lambda>frame x. set_pixel frame idx jdx x) (model st) m"
      and T: "if tm then
                (\<exists>d xs g'. last_entry w = Inr d \<and> draw_last E 50 w Sw (rng st) = Inr (xs, g') \<and>
                   transit_pixels st' = set_pixel (transit_pixels st) idx jdx d \<and>
                   transit_pixels_err st' =
                     set_pixel (transit_pixels_err st) idx jdx (np_std (fp E) xs))
              else transit_pixels st' = transit_pixels st \<and>
                   transit_pixels_err st' = transit_pixels_err st"
    have 1: "series (model st') i j = series (model st) i j"
      unfolding M by (rule series_set_other[OF lm ne])
    have 2: "transit_pixels st' ! i ! j = transit_pixels st ! i ! j \<and>
             transit_pixels_err st' ! i ! j = transit_pixels_err st ! i ! j"
      using T by (cases tm) (auto simp: nth_set_pixel_other[OF ne])
    from 1 2 show ?thesis by (simp add: pixel_view_def)
  qed
qed

lemma pixel_loop_shape:
  "pixel_loop E tpf SA cm tm ps st = Inr st' \<Longrightarrow> state_shape n r c st \<Longrightarrow> state_shape n r c st'"
proof (induction ps arbitrary: st)
  case Nil
  then show ?case by simp
next
  case (Cons p ps)
  from Cons.prems(1) obtain sta where
    a: "pixel_step E tpf SA cm tm p st = Inr sta" and b: "pixel_loop E tpf SA cm tm ps sta = Inr st'"
    by (auto simp: ebind_Inr)
  from Cons.IH[OF b pixel_step_shape[OF a Cons.prems(2)]] show ?case .
qed

lemma pixel_loop_other:
  "pixel_loop E tpf SA cm tm ps st = Inr st' \<Longrightarrow> (i, j) \<notin> set ps \<Longrightarrow>
   pixel_view st' i j = pixel_view st i j"
proof (induction ps arbitrary: st)
  case Nil
  then show ?case by simp
next
  case (Cons p ps)
  from Cons.prems(1) obtain sta where
    a: "pixel_step E tpf SA cm tm p st = Inr sta" and b: "pixel_loop E tpf SA cm tm ps sta = Inr st'"
    by (auto simp: ebind_Inr)
  from Cons.prems(2) have "p \<noteq> (i, j)" "(i, j) \<notin> set ps" by auto
  with Cons.IH[OF b] pixel_step_other[OF a] show ?case by simp
qed

lemma pixel_loop_skipped:
  "pixel_loop E tpf SA cm tm ps st = Inr st' \<Longrightarrow> \<not> list_ex isfinite (series (flux tpf) i j) \<Longrightarrow>
   pixel_view st' i j = pixel_view st i j"
proof (induction ps arbitrary: st)
  case Nil
  then show ?case by simp
next
  case (Cons p ps)
  from Cons.prems(1) obtain sta where
    a: "pixel_step E tpf SA cm tm p st = Inr sta" and b: "pixel_loop E tpf SA cm tm ps sta = Inr st'"
    by (auto simp: ebind_Inr)
  have "pixel_view sta i j = pixel_view st i j"
  proof (cases "p = (i, j)")
    case True
    with a Cons.prems(2) have "sta = st" by (simp add: pixel_step_def)
    then show ?thesis by simp
  next
    case False
    from pixel_step_other[OF a False] show ?thesis .
  qed
  with Cons.IH[OF b Cons.prems(2)] show ?case by simp
qed

lemma pixel_loop_fitted:
  "pixel_loop E tpf SA cm tm ps st = Inr st' \<Longrightarrow> distinct ps \<Longrightarrow> (i, j) \<in> set ps \<Longrightarrow>
   state_shape n r c st \<Longrightarrow>
   \<exists>st0 st1. pixel_step E tpf SA cm tm (i, j) st0 = Inr st1 \<and> state_shape n r c st0 \<and>
     pixel_view st' i j = pixel_view st1 i j"
proof (induction ps arbitrary: st)
  case Nil
  then show ?case by simp
next
  case (Cons p ps)
  from Cons.prems(1) obtain sta where
    a: "pixel_step E tpf SA cm tm p st = Inr sta" and b: "pixel_loop E tpf SA cm tm ps sta = Inr st'"
    by (auto simp: ebind_Inr)
  show ?case
  proof (cases "p = (i, j)")
    case True
    with Cons.prems(2) have "(i, j) \<notin> set ps" by simp
    from pixel_loop_other[OF b this] a True Cons.prems(4) show ?thesis by blast
  next
    case False
    with Cons.prems(2,3) have "distinct ps" "(i, j) \<in> set ps" by auto
    from Cons.IH[OF b this pixel_step_shape[OF a Cons.prems(4)]] show ?thesis .
  qed
qed

lemma distinct_pairs:
  "distinct xs \<Longrightarrow> distinct ys \<Longrightarrow> distinct (concat (map (\<lambda>i. map (Pair i) ys) xs))"
  by (induction xs) (auto simp: distinct_map inj_on_def)

lemma distinct_pixels: "distinct (pixels r c)"
  unfolding pixels_def by (rule distinct_pairs) simp_all

lemma set_pixels: "(i, j) \<in> set (pixels r c) \<longleftrightarrow> i < r \<and> j < c"
  by (force simp: pixels_def)

lemma select_cong:
  "length xs = length ys \<Longrightarrow> \<forall>t < length m. m ! t \<longrightarrow> xs ! t = ys ! t \<Longrightarrow> select m xs = select m ys"
proof (induction m arbitrary: xs ys)
  case Nil
  then show ?case by (simp add: select_def)
next
  case (Cons b m)
  show ?case
  proof (cases xs)
    case Nil
    with Cons.prems show ?thesis by (simp add: select_def)
  next
    case (Cons x xs')
    with Cons.prems(1) obtain y ys' where ys: "ys = y # ys'" by (cases ys) auto
    from Cons.prems(2) have "\<forall>t < length m. m ! t \<longrightarrow> xs' ! t = ys' ! t"
      using Cons ys by (metis Suc_less_eq length_Cons nth_Cons_Suc)
    moreover from Cons.prems(1) Cons ys have "length xs' = length ys'" by simp
    ultimately have "select m xs' = select m ys'" by (rule Cons.IH[rotated])
    moreover have "b \<longrightarrow> x = y" using Cons.prems(2) Cons ys by fastforce
    ultimately show ?thesis using Cons ys by (auto simp: select_def)
  qed
qed

lemma select_all: "length xs = n \<Longrightarrow> select (replicate n True) xs = xs"
  by (induction xs arbitrary: n) (auto simp: select_def)

text \<open>The normal equations see the data of the selected cadences only.\<close>

lemma normal_equations_masked_only:
  assumes "length SA' = length SA" "ncols SA' = ncols SA" "length f' = length f"
    "length fe' = length fe"
    and "\<forall>t < length cm. cm ! t \<longrightarrow> SA' ! t = SA ! t \<and> f' ! t = f ! t \<and> fe' ! t = fe ! t"
  shows "normal_equations F SA' cm f' fe' = normal_equations F SA cm f fe"
proof (cases "length cm \<noteq> length SA \<or> length cm \<noteq> length fe \<or> length f \<noteq> length fe")
  case True
  with assms(1,3,4) show ?thesis by (auto simp: normal_equations_def)
next
  case False
  have 1: "select cm SA' = select cm SA" using assms(1,5) by (intro select_cong) auto
  have 2: "select cm fe' = select cm fe" using assms(4,5) by (intro select_cong) auto
  have 3: "select cm (map2 (\<lambda>x e. fl_div F x (fl_pow F e 2)) f' fe')
         = select cm (map2 (\<lambda>x e. fl_div F x (fl_pow F e 2)) f fe)"
    using assms(3,4,5) False by (intro select_cong) auto
  show ?thesis using assms(1-4) by (simp add: normal_equations_def 1 2 3)
qed

lemma fit_weights_Inr:
  "fit_weights E SA cm f fe = Inr (S, w) \<longleftrightarrow>
     (\<exists>B. normal_equations (fp E) SA cm f fe = Inr (S, B) \<and> linalg_solve E S B = Inr w)"
  by (auto simp: fit_weights_def ebind_Inr)

lemma build_model_Inr:
  assumes "build_model E g tpf lc cbvs t_model cadence_mask bg sp = Inr st"
  shows "\<exists>SA st0. build_X E tpf (lc_flux lc) t_model bg cbvs sp 2 = Inr SA \<and>
           state_shape (length (flux tpf)) (shape1 (flux tpf)) (shape2 (flux tpf)) st0 \<and>
           model st0 = replicate (length (flux tpf)) (zeros2 (shape1 (flux tpf)) (shape2 (flux tpf))) \<and>
           transit_pixels st0 = zeros2 (shape1 (flux tpf)) (shape2 (flux tpf)) \<and>
           transit_pixels_err st0 = zeros2 (shape1 (flux tpf)) (shape2 (flux tpf)) \<and>
           pixel_loop E tpf SA
             (case cadence_mask of None \<Rightarrow> replicate (length (time tpf)) True | Some m \<Rightarrow> m)
             (t_model \<noteq> None) (pixels (shape1 (flux tpf)) (shape2 (flux tpf))) st0 = Inr st"
proof -
  let ?st0 = "\<lparr>model = replicate (length (flux tpf)) (zeros2 (shape1 (flux tpf)) (shape2 (flux tpf))),
                 transit_pixels = zeros2 (shape1 (flux tpf)) (shape2 (flux tpf)),
                 transit_pixels_err = zeros2 (shape1 (flux tpf)) (shape2 (flux tpf)),
                 rng = g\<rparr>"
  from assms obtain SA where SA: "build_X E tpf (lc_flux lc) t_model bg cbvs sp 2 = Inr SA"
    and loop: "pixel_loop E tpf SA
             (case cadence_mask of None \<Rightarrow> replicate (length (time tpf)) True | Some m \<Rightarrow> m)
             (t_model \<noteq> None) (pixels (shape1 (flux tpf)) (shape2 (flux tpf))) ?st0 = Inr st"
    by (auto simp: build_model_def Let_def ebind_Inr)
  have "state_shape (length (flux tpf)) (shape1 (flux tpf)) (shape2 (flux tpf)) ?st0"
    by (simp add: state_shape_def shaped_zeros2)
  with SA loop show ?thesis by (intro exI[of _ SA] exI[of _ ?st0]) simp
qed

lemma zeros2_nth: "i < r \<Longrightarrow> j < c \<Longrightarrow> zeros2 r c ! i ! j = Fin 0"
  by (simp add: zeros2_def)

lemma significance_nth:
  "shaped r c tp \<Longrightarrow> shaped r c tpe \<Longrightarrow> i < r \<Longrightarrow> j < c \<Longrightarrow>
   significance F tp tpe ! i ! j = fl_div F (tp ! i ! j) (tpe ! i ! j)"
  by (simp add: significance_def shaped_def)

lemma contaminant_aper_nth:
  "shaped r c tp \<Longrightarrow> shaped r c tpe \<Longrightarrow> i < r \<Longrightarrow> j < c \<Longrightarrow>
   contaminant_aper F tp tpe ! i ! j = fl_gt (fl_div F (tp ! i ! j) (tpe ! i ! j)) (Fin 5)"
  by (simp add: contaminant_aper_def significance_def shaped_def)

lemma series_nonfinite:
  "(\<not> list_ex isfinite (series a i j)) \<longleftrightarrow> (\<forall>t < length a. \<not> isfinite (a ! t ! i ! j))"
  by (auto simp: list_ex_iff series_def set_conv_nth)

text \<open>
  C10.  A pixel whose flux is non-finite at every cadence is skipped by the loop of
  \<^verbatim>\<open>build_model\<close>: its transit depth and depth error stay at the zero they were created
  with, its significance is \<open>0/0\<close>, NaN, which is not above 5, and the pixel is not in the
  contaminant aperture.
\<close>

theorem nonfinite_pixel_never_contaminant:
  assumes "build_model E g tpf lc cbvs (Some tm) cadence_mask bg sp = Inr st"
    and "i < shape1 (flux tpf)" "j < shape2 (flux tpf)"
    and "\<forall>t < length (flux tpf). \<not> isfinite (flux tpf ! t ! i ! j)"
  shows "transit_pixels st ! i ! j = Fin 0 \<and> transit_pixels_err st ! i ! j = Fin 0 \<and>
         significance (fp E) (transit_pixels st) (transit_pixels_err st) ! i ! j = NaN \<and>
         \<not> contaminant_aper (fp E) (transit_pixels st) (transit_pixels_err st) ! i ! j"
proof -
  from build_model_Inr[OF assms(1)] obtain SA st0 where
    sh0: "state_shape (length (flux tpf)) (shape1 (flux tpf)) (shape2 (flux tpf)) st0" and
    z: "transit_pixels st0 = zeros2 (shape1 (flux tpf)) (shape2 (flux tpf))"
       "transit_pixels_err st0 = zeros2 (shape1 (flux tpf)) (shape2 (flux tpf))" and
    loop: "pixel_loop E tpf SA
             (case cadence_mask of None \<Rightarrow> replicate (length (time tpf)) True | Some m \<Rightarrow> m)
             (Some tm \<noteq> None) (pixels (shape1 (flux tpf)) (shape2 (flux tpf))) st0 = Inr st"
    by blast
  from assms(4) have nf: "\<not> list_ex isfinite (series (flux tpf) i j)"
    by (simp add: series_nonfinite)
  from pixel_loop_skipped[OF loop nf] have "pixel_view st i j = pixel_view st0 i j" .
  then have tp: "transit_pixels st ! i ! j = Fin 0" and tpe: "transit_pixels_err st ! i ! j = Fin 0"
    using z assms(2,3) by (simp_all add: pixel_view_def zeros2_nth)
  from pixel_loop_shape[OF loop sh0]
  have sh: "shaped (shape1 (flux tpf)) (shape2 (flux tpf)) (transit_pixels st)"
           "shaped (shape1 (flux tpf)) (shape2 (flux tpf)) (transit_pixels_err st)"
    by (simp_all add: state_shape_def)
  from significance_nth[OF sh assms(2,3), of "fp E"] contaminant_aper_nth[OF sh assms(2,3), of "fp E"]
    tp tpe
  show ?thesis by simp
qed

lemma sp_dot_Inr:
  "sp_dot F M w = Inr m \<longleftrightarrow>
     length w = ncols M \<and> m = map (\<lambda>row. sp_row_dot F row w) M"
  by (auto simp: sp_dot_def)

lemma draw_last_length: "draw_last E n w S g = Inr (xs, g') \<Longrightarrow> length xs = n"
  by (induction n arbitrary: g xs g') (auto simp: ebind_Inr split: prod.splits)

text \<open>Each entry of the list of line 107 is the last component of one draw from \<open>(w, S)\<close>.\<close>

lemma draw_last_draws:
  "draw_last E n w S g = Inr (xs, g') \<Longrightarrow> k < n \<Longrightarrow>
   \<exists>gk gk' s. multivariate_normal E gk w S = (s, gk') \<and> s \<noteq> [] \<and> xs ! k = last s"
proof (induction n arbitrary: g xs g' k)
  case 0
  then show ?case by simp
next
  case (Suc n)
  obtain s g1 where mn: "multivariate_normal E g w S = (s, g1)"
    by (cases "multivariate_normal E g w S")
  with Suc.prems(1) obtain x xs' where
    x: "last_entry s = Inr x" and rest: "draw_last E n w S g1 = Inr (xs', g')"
    and xs: "xs = x # xs'"
    by (auto simp: ebind_Inr split: prod.splits)
  from x have s: "s \<noteq> []" "x = last s" by (auto simp: last_entry_def split: if_splits)
  show ?case
  proof (cases k)
    case 0
    with mn s xs show ?thesis by auto
  next
    case (Suc k')
    with Suc.prems(2) have "k' < n" by simp
    from Suc.IH[OF rest this] Suc xs show ?thesis by auto
  qed
qed

lemma build_model_fitted:
  assumes "build_model E g tpf lc cbvs t_model cadence_mask bg sp = Inr st"
    and "i < shape1 (flux tpf)" "j < shape2 (flux tpf)"
    and "list_ex isfinite (series (flux tpf) i j)"
  shows "\<exists>SA S w m Sw g0.
           build_X E tpf (lc_flux lc) t_model bg cbvs sp 2 = Inr SA \<and>
           fit_weights E SA
             (case cadence_mask of None \<Rightarrow> replicate (length (time tpf)) True | Some m \<Rightarrow> m)
             (series (flux tpf) i j) (series (flux_err tpf) i j) = Inr (S, w) \<and>
           sp_dot (fp E) SA w = Inr m \<and> linalg_inv E S = Inr Sw \<and>
           length (model st) = length m \<and> series (model st) i j = m \<and>
           (t_model \<noteq> None \<longrightarrow>
              (\<exists>xs g1. last_entry w = Inr (transit_pixels st ! i ! j) \<and>
                 draw_last E 50 w Sw g0 = Inr (xs, g1) \<and>
                 transit_pixels_err st ! i ! j = np_std (fp E) xs))"
proof -
  let ?n = "length (flux tpf)" and ?r = "shape1 (flux tpf)" and ?c = "shape2 (flux tpf)"
  let ?cm = "case cadence_mask of None \<Rightarrow> replicate (length (time tpf)) True | Some m \<Rightarrow> m"
  from build_model_Inr[OF assms(1)] obtain SA sti where
    SA: "build_X E tpf (lc_flux lc) t_model bg cbvs sp 2 = Inr SA" and
    shi: "state_shape ?n ?r ?c sti" and
    loop: "pixel_loop E tpf SA ?cm (t_model \<noteq> None) (pixels ?r ?c) sti = Inr st"
    by blast
  have mem: "(i, j) \<in> set (pixels ?r ?c)" using assms(2,3) by (simp add: set_pixels)
  from pixel_loop_fitted[OF loop distinct_pixels mem shi] obtain st0 st1 where
    step: "pixel_step E tpf SA ?cm (t_model \<noteq> None) (i, j) st0 = Inr st1" and
    sh0: "state_shape ?n ?r ?c st0" and
    view: "pixel_view st i j = pixel_view st1 i j"
    by blast
  from pixel_loop_shape[OF loop shi] have sh: "state_shape ?n ?r ?c st" .
  from pixel_step_cases[OF step] assms(4) obtain S w m Sw where
    fw: "fit_weights E SA ?cm (series (flux tpf) i j) (series (flux_err tpf) i j) = Inr (S, w)" and
    m: "sp_dot (fp E) SA w = Inr m" and lm: "length m = length (model st0)" and
    Sw: "linalg_inv E S = Inr Sw" and
    M: "model st1 = map2 (\<lambda>frame x. set_pixel frame i j x) (model st0) m" and
    T: "if t_model \<noteq> None then
                (\<exists>d xs g'. last_entry w = Inr d \<and> draw_last E 50 w Sw (rng st0) = Inr (xs, g') \<and>
                   transit_pixels st1 = set_pixel (transit_pixels st0) i j d \<and>
                   transit_pixels_err st1 =
                     set_pixel (transit_pixels_err st0) i j (np_std (fp E) xs))
              else transit_pixels st1 = transit_pixels st0 \<and>
                   transit_pixels_err st1 = transit_pixels_err st0"
    by blast
  have frames: "\<forall>frame \<in> set (model st0). shaped ?r ?c frame"
    using sh0 by (simp add: state_shape_def)
  have "series (model st1) i j = m"
    unfolding M by (rule series_set_same[OF lm frames assms(2,3)])
  with view have ser: "series (model st) i j = m" by (simp add: pixel_view_def)
  have len: "length (model st) = length m"
    using sh sh0 lm by (simp add: state_shape_def)
  have tr: "t_model \<noteq> None \<longrightarrow>
              (\<exists>xs g1. last_entry w = Inr (transit_pixels st ! i ! j) \<and>
                 draw_last E 50 w Sw (rng st0) = Inr (xs, g1) \<and>
                 transit_pixels_err st ! i ! j = np_std (fp E) xs)"
  proof
    assume "t_model \<noteq> None"
    with T obtain d xs g' where d: "last_entry w = Inr d" and
      dr: "draw_last E 50 w Sw (rng st0) = Inr (xs, g')" and
      tp: "transit_pixels st1 = set_pixel (transit_pixels st0) i j d" and
      tpe: "transit_pixels_err st1 = set_pixel (transit_pixels_err st0) i j (np_std (fp E) xs)"
      by auto
    have "transit_pixels st1 ! i ! j = d" "transit_pixels_err st1 ! i ! j = np_std (fp E) xs"
      using sh0 assms(2,3) unfolding tp tpe state_shape_def
      by (auto intro: nth_set_pixel_same)
    with view have "transit_pixels st ! i ! j = d"
      "transit_pixels_err st ! i ! j = np_std (fp E) xs"
      by (simp_all add: pixel_view_def)
    with d dr show "\<exists>xs g1. last_entry w = Inr (transit_pixels st ! i ! j) \<and>
                 draw_last E 50 w Sw (rng st0) = Inr (xs, g1) \<and>
                 transit_pixels_err st ! i ! j = np_std (fp E) xs" by auto
  qed
  show ?thesis
    by (intro exI[of _ SA] exI[of _ S] exI[of _ w] exI[of _ m] exI[of _ Sw] exI[of _ "rng st0"] conjI)
       (fact SA fw m Sw len ser tr)+
qed

text \<open>A pixel that the loop skips keeps the zero model it was created with.\<close>

lemma build_model_skipped:
  assumes "build_model E g tpf lc cbvs t_model cadence_mask bg sp = Inr st"
    and "i < shape1 (flux tpf)" "j < shape2 (flux tpf)"
    and "\<not> list_ex isfinite (series (flux tpf) i j)"
  shows "\<forall>t < length (flux tpf). model st ! t ! i ! j = Fin 0"
proof (intro allI impI)
  fix t assume t: "t < length (flux tpf)"
  let ?n = "length (flux tpf)" and ?r = "shape1 (flux tpf)" and ?c = "shape2 (flux tpf)"
  from build_model_Inr[OF assms(1)] obtain SA st0 where
    sh0: "state_shape ?n ?r ?c st0" and
    m0: "model st0 = replicate ?n (zeros2 ?r ?c)" and
    loop: "pixel_loop E tpf SA
             (case cadence_mask of None \<Rightarrow> replicate (length (time tpf)) True | Some m \<Rightarrow> m)
             (t_model \<noteq> None) (pixels ?r ?c) st0 = Inr st"
    by blast
  from pixel_loop_skipped[OF loop assms(4)]
  have "series (model st) i j = series (model st0) i j" by (simp add: pixel_view_def)
  also have "\<dots> = replicate ?n (Fin 0)"
    using assms(2,3) by (simp add: m0 series_def zeros2_nth map_replicate_const)
  finally have s: "series (model st) i j = replicate ?n (Fin 0)" .
  from pixel_loop_shape[OF loop sh0] have "length (model st) = ?n" by (simp add: state_shape_def)
  with t have "series (model st) i j ! t = model st ! t ! i ! j" by (simp add: series_def)
  with s t show "model st ! t ! i ! j = Fin 0" by simp
qed

lemma build_model_length:
  assumes "build_model E g tpf lc cbvs t_model cadence_mask bg sp = Inr st"
  shows "length (model st) = length (flux tpf)"
proof -
  from build_model_Inr[OF assms] obtain SA st0 where
    sh0: "state_shape (length (flux tpf)) (shape1 (flux tpf)) (shape2 (flux tpf)) st0" and
    loop: "pixel_loop E tpf SA
             (case cadence_mask of None \<Rightarrow> replicate (length (time tpf)) True | Some m \<Rightarrow> m)
             (t_model \<noteq> None) (pixels (shape1 (flux tpf)) (shape2 (flux tpf))) st0 = Inr st"
    by blast
  from pixel_loop_shape[OF loop sh0] show ?thesis by (simp add: state_shape_def)
qed

text \<open>
  C5.  For every pixel with some finite flux \<^verbatim>\<open>build_model\<close> solves the normal equations
  formed from the rows, fluxes and errors that \<open>cadence_mask\<close> selects (all of them when no
  mask is given; data at the other cadences do not enter the equations), and the model of the
  pixel has an entry for every cadence of the stamp, selected or not: row \<open>t\<close> of the design
  matrix times the weights, the products of the row's non-zero entries added up from zero.
  A pixel without any finite flux is not fitted, and its model is zero at every cadence.
\<close>

theorem fit_on_masked_model_on_all_cadences:
  assumes "build_model E g tpf lc cbvs t_model cadence_mask bg sp = Inr st"
    and "i < shape1 (flux tpf)" "j < shape2 (flux tpf)"
    and "cm = (case cadence_mask of None \<Rightarrow> replicate (length (time tpf)) True | Some m \<Rightarrow> m)"
    and "f = series (flux tpf) i j" "fe = series (flux_err tpf) i j"
  shows "\<exists>SA. build_X E tpf (lc_flux lc) t_model bg cbvs sp 2 = Inr SA \<and>
           length (model st) = length (flux tpf) \<and>
           (if list_ex isfinite f
            then length (flux tpf) = length (time tpf) \<and>
                 (cadence_mask = None \<longrightarrow> select cm SA = SA \<and> select cm fe = fe) \<and>
                 (\<exists>w. linalg_solve E
                        (information_matrix (fp E) (ncols SA) (select cm SA) (select cm fe))
                        (projection (fp E) (ncols SA) (select cm SA)
                           (select cm (map2 (\<lambda>x e. fl_div (fp E) x (fl_pow (fp E) e 2)) f fe)))
                        = Inr w \<and>
                      (\<forall>t < length (time tpf).
                         model st ! t ! i ! j =
                           foldl (fl_add (fp E)) (Fin 0)
                             (map (\<lambda>(a, x). fl_mul (fp E) a x)
                                (filter (\<lambda>(a, x). a \<noteq> Fin 0) (zip (SA ! t) w)))))
            else \<forall>t < length (flux tpf). model st ! t ! i ! j = Fin 0) \<and>
           (\<forall>SA' f' fe'. length SA' = length SA \<and> ncols SA' = ncols SA \<and>
               length f' = length f \<and> length fe' = length fe \<and>
               (\<forall>t < length cm. cm ! t \<longrightarrow> SA' ! t = SA ! t \<and> f' ! t = f ! t \<and> fe' ! t = fe ! t)
               \<longrightarrow> normal_equations (fp E) SA' cm f' fe' = normal_equations (fp E) SA cm f fe)"
proof -
  from build_model_Inr[OF assms(1)] obtain SA where
    SA: "build_X E tpf (lc_flux lc) t_model bg cbvs sp 2 = Inr SA" by blast
  from build_X_rows[OF SA] have lSA: "length SA = length (time tpf)" by blast
  note len = build_model_length[OF assms(1)]
  have mid: "if list_ex isfinite f
            then length (flux tpf) = length (time tpf) \<and>
                 (cadence_mask = None \<longrightarrow> select cm SA = SA \<and> select cm fe = fe) \<and>
                 (\<exists>w. linalg_solve E
                        (information_matrix (fp E) (ncols SA) (select cm SA) (select cm fe))
                        (projection (fp E) (ncols SA) (select cm SA)
                           (select cm (map2 (\<lambda>x e. fl_div (fp E) x (fl_pow (fp E) e 2)) f fe)))
                        = Inr w \<and>
                      (\<forall>t < length (time tpf).
                         model st ! t ! i ! j =
                           foldl (fl_add (fp E)) (Fin 0)
                             (map (\<lambda>(a, x). fl_mul (fp E) a x)
                                (filter (\<lambda>(a, x). a \<noteq> Fin 0) (zip (SA ! t) w)))))
            else \<forall>t < length (flux tpf). model st ! t ! i ! j = Fin 0"
  proof (cases "list_ex isfinite f")
    case False
    with build_model_skipped[OF assms(1-3)] show ?thesis by (simp add: assms(5))
  next
    case True
    then have fin: "list_ex isfinite (series (flux tpf) i j)" by (simp add: assms(5))
    from build_model_fitted[OF assms(1-3) fin] SA obtain S w m where
      fw: "fit_weights E SA cm f fe = Inr (S, w)" and
      m: "sp_dot (fp E) SA w = Inr m" and
      lenm: "length (model st) = length m" and ser: "series (model st) i j = m"
      unfolding assms(4,5,6) by auto
    from m have md: "m = map (\<lambda>row. sp_row_dot (fp E) row w) SA" by (simp add: sp_dot_Inr)
    then have lm: "length m = length (time tpf)" using lSA by simp
    from fw obtain B where ne: "normal_equations (fp E) SA cm f fe = Inr (S, B)"
      and sol: "linalg_solve E S B = Inr w" by (auto simp: fit_weights_Inr)
    from ne have lens: "length cm = length SA" "length cm = length fe"
      and S: "S = information_matrix (fp E) (ncols SA) (select cm SA) (select cm fe)"
      and B: "B = projection (fp E) (ncols SA) (select cm SA)
                  (select cm (map2 (\<lambda>x e. fl_div (fp E) x (fl_pow (fp E) e 2)) f fe))"
      by (auto simp: normal_equations_def split: if_splits)
    have 0: "length (flux tpf) = length (time tpf)" using len lenm lm by simp
    have 1: "linalg_solve E
               (information_matrix (fp E) (ncols SA) (select cm SA) (select cm fe))
               (projection (fp E) (ncols SA) (select cm SA)
                  (select cm (map2 (\<lambda>x e. fl_div (fp E) x (fl_pow (fp E) e 2)) f fe))) = Inr w"
      using sol S B by simp
    have 2: "cadence_mask = None \<longrightarrow> select cm SA = SA \<and> select cm fe = fe"
    proof
      assume "cadence_mask = None"
      then have cm: "cm = replicate (length (time tpf)) True" using assms(4) by simp
      with lens lSA have "length fe = length (time tpf)" by simp
      with lSA show "select cm SA = SA \<and> select cm fe = fe" unfolding cm by (simp add: select_all)
    qed
    have 5: "\<forall>t < length (time tpf).
               model st ! t ! i ! j =
                 foldl (fl_add (fp E)) (Fin 0)
                   (map (\<lambda>(a, x). fl_mul (fp E) a x)
                      (filter (\<lambda>(a, x). a \<noteq> Fin 0) (zip (SA ! t) w)))"
    proof (intro allI impI)
      fix t assume t: "t < length (time tpf)"
      then have "series (model st) i j ! t = model st ! t ! i ! j"
        using lenm lm by (simp add: series_def)
      moreover have "m ! t = sp_row_dot (fp E) (SA ! t) w"
        using t lSA by (simp add: md)
      ultimately show "model st ! t ! i ! j =
                 foldl (fl_add (fp E)) (Fin 0)
                   (map (\<lambda>(a, x). fl_mul (fp E) a x)
                      (filter (\<lambda>(a, x). a \<noteq> Fin 0) (zip (SA ! t) w)))"
        using ser by (simp add: sp_row_dot_def seq_sum_def)
    qed
    from True 0 1 2 5 show ?thesis by auto
  qed
  have 3: "\<forall>SA' f' fe'. length SA' = length SA \<and> ncols SA' = ncols SA \<and>
               length f' = length f \<and> length fe' = length fe \<and>
               (\<forall>t < length cm. cm ! t \<longrightarrow> SA' ! t = SA ! t \<and> f' ! t = f ! t \<and> fe' ! t = fe ! t)
               \<longrightarrow> normal_equations (fp E) SA' cm f' fe' = normal_equations (fp E) SA cm f fe"
    using normal_equations_masked_only by blast
  show ?thesis
    by (intro exI[of _ SA] conjI) (fact SA len mid 3)+
qed

text \<open>
  C6.  With a transit template, each row of the design matrix is the cadence's regressors
  times its flux weight, then the constant one, then the template's value: the template is the
  last column.  For a fitted pixel \<^verbatim>\<open>build_model\<close> records the last weight as transit
  depth.  Its error is computed from the last components \<open>xs\<close> of 50 draws from
  \<open>(w, sigma_w)\<close>, the inverse of the information matrix: their mean \<open>mu\<close> is their sum over
  50, and the error is the root of the sum of the squared deviations from \<open>mu\<close> over 50
  (the divisor is the number of draws, not one less).
\<close>

theorem template_last_column_depth_last_weight:
  assumes "build_model E g tpf lc cbvs (Some tm) cadence_mask bg sp = Inr st"
    and "i < shape1 (flux tpf)" "j < shape2 (flux tpf)"
    and "list_ex isfinite (series (flux tpf) i j)"
  shows "\<exists>SA A S w Sw xs g0 g1 mu.
           build_X E tpf (lc_flux lc) (Some tm) bg cbvs sp 2 = Inr SA \<and>
           regressors E tpf bg cbvs sp 2 = Inr A \<and>
           (\<forall>t < length (time tpf).
              SA ! t = map (fl_mul (fp E) (lc_flux lc ! t)) (A ! t) @ [Fin 1, tm ! t]) \<and>
           fit_weights E SA
             (case cadence_mask of None \<Rightarrow> replicate (length (time tpf)) True | Some m \<Rightarrow> m)
             (series (flux tpf) i j) (series (flux_err tpf) i j) = Inr (S, w) \<and>
           linalg_inv E S = Inr Sw \<and>
           w \<noteq> [] \<and> transit_pixels st ! i ! j = last w \<and>
           draw_last E 50 w Sw g0 = Inr (xs, g1) \<and> length xs = 50 \<and>
           (\<forall>k < 50. \<exists>gk gk' s. multivariate_normal E gk w Sw = (s, gk') \<and> s \<noteq> [] \<and>
                        xs ! k = last s) \<and>
           mu = fl_div (fp E) (np_sum (fp E) xs) (Fin 50) \<and>
           transit_pixels_err st ! i ! j =
             fl_sqrt (fp E)
               (fl_div (fp E)
                  (np_sum (fp E)
                     (map (\<lambda>x. fl_mul (fp E) (fl_sub (fp E) x mu) (fl_sub (fp E) x mu)) xs))
                  (Fin 50))"
proof -
  let ?cm = "case cadence_mask of None \<Rightarrow> replicate (length (time tpf)) True | Some m \<Rightarrow> m"
  let ?F = "fp E"
  from build_model_fitted[OF assms] obtain SA S w Sw g0 xs g1 where
    SA: "build_X E tpf (lc_flux lc) (Some tm) bg cbvs sp 2 = Inr SA" and
    fw: "fit_weights E SA ?cm (series (flux tpf) i j) (series (flux_err tpf) i j) = Inr (S, w)" and
    Sw: "linalg_inv E S = Inr Sw" and
    d: "last_entry w = Inr (transit_pixels st ! i ! j)" and
    dr: "draw_last E 50 w Sw g0 = Inr (xs, g1)" and
    e: "transit_pixels_err st ! i ! j = np_std ?F xs"
    by blast
  from build_X_rows[OF SA] obtain A where
    A: "regressors E tpf bg cbvs sp 2 = Inr A" and
    rows: "\<forall>t < length (time tpf).
              SA ! t = map (fl_mul ?F (lc_flux lc ! t)) (A ! t) @ [Fin 1, tm ! t]"
    by auto
  from d have w: "w \<noteq> []" and dl: "transit_pixels st ! i ! j = last w"
    by (auto simp: last_entry_def split: if_splits)
  from draw_last_length[OF dr] have lx: "length xs = 50" .
  have draws: "\<forall>k < 50. \<exists>gk gk' s. multivariate_normal E gk w Sw = (s, gk') \<and> s \<noteq> [] \<and>
                        xs ! k = last s"
    using draw_last_draws[OF dr] by blast
  define mu where "mu = fl_div ?F (np_sum ?F xs) (Fin 50)"
  have mu: "mu = fl_div ?F (np_sum ?F xs) (Fin 50)" by (rule mu_def)
  have e': "transit_pixels_err st ! i ! j =
             fl_sqrt ?F
               (fl_div ?F
                  (np_sum ?F (map (\<lambda>x. fl_mul ?F (fl_sub ?F x mu) (fl_sub ?F x mu)) xs))
                  (Fin 50))"
    unfolding e np_std_def Let_def lx mu_def by simp
  show ?thesis
    by (intro exI[of _ SA] exI[of _ A] exI[of _ S] exI[of _ w] exI[of _ Sw] exI[of _ xs]
          exI[of _ g0] exI[of _ g1] exI[of _ mu] conjI)
       (fact SA A rows fw Sw w dl dr lx draws mu e')+
qed

subsection \<open>The fit on the example observation\<close>

lemma fp_ex_E [simp]: "fp ex_E = exact" "fp ex_E0 = exact"
  by (simp_all add: ex_E_def ex_E0_def)

lemma tt5: "time_trend_block exact t5 = Inr ex_D"
  unfolding time_trend_block_def seg_indicators_def
  by (simp add: segments_def breaks_def np_diff_def np_where_def array_split_def
       ebind_def ts1_row_def t5_def in1d_def fl_mean_def np_sum_exact fl_sub_def b2f_def
       mpow_def power2_eq_square stack_T_def ex_D_def)

lemma ex_regressors:
  "p \<noteq> 0 \<Longrightarrow> regressors ex_E ex_tpf False None sp p = Inr ex_D"
  by (simp add: regressors_def ex_tpf_def clean_zero centroid_block_def unmeasured_zero ebind_def
        tt5 n_knots_def fl_sub_def hstack_def ex_E_def demo_ext_def)
     (simp add: t5_def ex_D_def)

lemma ex_build_X:
  "build_X ex_E ex_tpf (lc_flux ex_lc) (Some ex_tm) False None True 2 = Inr ex_SA"
  unfolding build_X_def
  by (simp add: ex_regressors ebind_def weight_rows_def hstack_def column_def ex_lc_def ex_tm_def
       ex_SA_def ex_D_def) (simp add: ex_tpf_def t5_def)

lemma ex_build_X4:
  "build_X ex_E ex_tpf (lc_flux ex_lc) None False None True 2 = Inr ex_SA4"
  unfolding build_X_def
  by (simp add: ex_regressors ebind_def weight_rows_def hstack_def column_def ex_lc_def
       ex_SA4_def ex_D_def) (simp add: ex_tpf_def t5_def)

lemma ex_info: "information_matrix exact 5 ex_SA ex_fe = ex_G"
  by (simp add: information_matrix_def ex_SA_def ex_G_def ex_fe_def seq_sum_def upt_rec)

lemma ex_select4:
  "select ex_mask ex_SA4 =
     [[Fin 2, Fin (-1), Fin (1 / 2), Fin 1], [Fin 3, Fin (- (3 / 4)), Fin (3 / 16), Fin 1],
      [Fin 5, Fin (5 / 4), Fin (5 / 16), Fin 1], [Fin 6, Fin 3, Fin (3 / 2), Fin 1]]"
  "select ex_mask ex_fe = [Fin 1, Fin 1, Fin 1, Fin 1]"
  by (simp_all add: select_def ex_mask_def ex_SA4_def ex_fe_def)

lemma ex_info4:
  "information_matrix exact 4
     [[Fin 2, Fin (-1), Fin (1 / 2), Fin 1], [Fin 3, Fin (- (3 / 4)), Fin (3 / 16), Fin 1],
      [Fin 5, Fin (5 / 4), Fin (5 / 16), Fin 1], [Fin 6, Fin 3, Fin (3 / 2), Fin 1]]
     [Fin 1, Fin 1, Fin 1, Fin 1] = ex_G4"
  by (simp add: information_matrix_def ex_G4_def seq_sum_def upt_rec)

lemma ex_lengths:
  "length ex_G = 5" "length ex_inv = 5" "length ex_G4 = 4" "length ex_inv4 = 4"
  by (simp_all add: ex_G_def ex_inv_def ex_G4_def ex_inv4_def)

lemma ex_inv_ok: "check_inv [ex_inv, ex_inv4] ex_G = Inr ex_inv"
proof -
  have "mat_mat ex_G ex_inv = identity 5"
    by (simp add: mat_mat_def identity_def ex_G_def ex_inv_def seq_sum_def b2f_def upt_rec)
  then show ?thesis
    by (simp add: check_inv_def ex_lengths)
qed

lemma ex_inv4_ok: "check_inv [ex_inv, ex_inv4] ex_G4 = Inr ex_inv4"
proof -
  have "mat_mat ex_G4 ex_inv4 = identity 4"
    by (simp add: mat_mat_def identity_def ex_G4_def ex_inv4_def seq_sum_def b2f_def upt_rec)
  then show ?thesis
    by (simp add: check_inv_def ex_lengths)
qed

lemma demo_draw_last:
  assumes "w \<noteq> []" "last w = Fin d"
  shows "draw_last (demo_ext ws Ss tm tmask) n w S g =
           Inr (map (\<lambda>k. Fin (d + (if even (g + k) then 2 else - 2))) [0..<n], g + n)"
proof (induction n arbitrary: g)
  case 0
  then show ?case by simp
next
  case (Suc n)
  have l: "last_entry (map (\<lambda>x. fl_add exact x (Fin (if even g then 2 else - 2))) w)
           = Inr (Fin (d + (if even g then 2 else - 2)))"
    using assms by (simp add: last_entry_def last_map)
  have m: "multivariate_normal (demo_ext ws Ss tm tmask) g w S
           = (map (\<lambda>x. fl_add exact x (Fin (if even g then 2 else - 2))) w, Suc g)"
    by (simp add: demo_ext_def)
  show ?case
    unfolding draw_last.simps m prod.case l Suc.IH
    by (simp add: ebind_def map_upt_Suc del: upt_Suc)
qed

text \<open>
  The deviation of fifty draws that lie two above and two below \<open>d\<close> in turn is two: with
  the divisor fifty the mean square is four.
\<close>

lemma std_alternating:
  "np_std exact (map (\<lambda>k. Fin (d + (if even (g + k) then 2 else - 2))) [0..<50]) = Fin 2"
proof -
  let ?xs = "map (\<lambda>k. Fin (d + (if even (g + k) then 2 else - 2))) [0..<50]"
  have e: "even g \<or> odd g" by simp
  have s: "(\<Sum>k\<leftarrow>[0..<50]. (if even (g + k) then 2 else - 2 :: real)) = 0"
    using e by (auto simp: upt_rec)
  have l: "real (length ?xs) = 50" by simp
  have a: "fl_div exact (np_sum exact ?xs) (Fin 50) = Fin d"
    unfolding np_sum_exact_Fin
    using s by (simp add: sum_list_addf sum_list_triv field_simps)
  have b: "map (\<lambda>x. fl_mul exact (fl_sub exact x (Fin d)) (fl_sub exact x (Fin d))) ?xs
        = map (\<lambda>k. Fin 4) [0..<50]"
    by (simp add: o_def fl_sub_def)
  have c: "fl_div exact (np_sum exact (map (\<lambda>k. Fin 4) [0..<50])) (Fin 50) = Fin 4"
    unfolding np_sum_exact_Fin by (simp add: sum_list_triv)
  show ?thesis
    by (simp only: np_std_def Let_def l a b c) simp
qed

lemma ex_series:
  "series (flux ex_tpf) 0 0 = ex_fA" "series (flux ex_tpf) 0 1 = ex_fB"
  "series (flux ex_tpf) 0 2 = [NaN, NaN, NaN, NaN, NaN]"
  "series (flux_err ex_tpf) 0 0 = ex_fe" "series (flux_err ex_tpf) 0 1 = ex_fe"
  by (simp_all add: series_def ex_tpf_def ex_fA_def ex_fB_def ex_fe_def t5_def)

lemma ex_select: "select ex_all ex_SA = ex_SA" "select ex_all ex_fe = ex_fe"
  by (simp_all add: select_def ex_all_def ex_SA_def ex_fe_def)

lemma ex_ncols: "ncols ex_SA = 5" "length ex_SA = 5" "ncols ex_SA4 = 4" "length ex_SA4 = 5"
  by (simp_all add: ncols_def ex_SA_def ex_SA4_def)

lemma ex_fit_A:
  "fit_weights ex_E ex_SA ex_all ex_fA ex_fe = Inr (ex_G, [Fin 1, Fin 0, Fin 0, Fin 0, Fin 0])"
proof -
  have q: "select ex_all (map2 (\<lambda>x e. fl_div exact x (fl_pow exact e 2)) ex_fA ex_fe) = ex_fA"
    by (simp add: select_def ex_all_def ex_fA_def ex_fe_def)
  have p: "projection exact 5 ex_SA ex_fA = [Fin 90, Fin 20, Fin (97/8), Fin 20, Fin (-4)]"
    by (simp add: projection_def ex_SA_def ex_fA_def sp_row_dot_def seq_sum_def upt_rec)
  have ne: "normal_equations exact ex_SA ex_all ex_fA ex_fe
              = Inr (ex_G, [Fin 90, Fin 20, Fin (97/8), Fin 20, Fin (-4)])"
    unfolding normal_equations_def ex_select ex_ncols q p
    unfolding ex_info by (simp add: ex_all_def ex_fe_def ex_fA_def ex_SA_def)
  have so: "linalg_solve ex_E ex_G [Fin 90, Fin 20, Fin (97/8), Fin 20, Fin (-4)]
              = Inr [Fin 1, Fin 0, Fin 0, Fin 0, Fin 0]"
    by (simp add: ex_E_def demo_ext_def check_solve_def ex_ws_def mat_vec_def ex_G_def seq_sum_def)
  show ?thesis unfolding fit_weights_def fp_ex_E ne by (simp add: ebind_def so)
qed

lemma ex_fit_B:
  "fit_weights ex_E ex_SA ex_all ex_fB ex_fe = Inr (ex_G, [Fin 0, Fin 0, Fin 0, Fin 50, Fin 20])"
proof -
  have q: "select ex_all (map2 (\<lambda>x e. fl_div exact x (fl_pow exact e 2)) ex_fB ex_fe) = ex_fB"
    by (simp add: select_def ex_all_def ex_fB_def ex_fe_def)
  have p: "projection exact 5 ex_SA ex_fB = [Fin 920, Fin 125, Fin 125, Fin 230, Fin (-30)]"
    by (simp add: projection_def ex_SA_def ex_fB_def sp_row_dot_def seq_sum_def upt_rec)
  have ne: "normal_equations exact ex_SA ex_all ex_fB ex_fe
              = Inr (ex_G, [Fin 920, Fin 125, Fin 125, Fin 230, Fin (-30)])"
    unfolding normal_equations_def ex_select ex_ncols q p
    unfolding ex_info by (simp add: ex_all_def ex_fe_def ex_fB_def ex_SA_def)
  have so: "linalg_solve ex_E ex_G [Fin 920, Fin 125, Fin 125, Fin 230, Fin (-30)]
              = Inr [Fin 0, Fin 0, Fin 0, Fin 50, Fin 20]"
    by (simp add: ex_E_def demo_ext_def check_solve_def ex_ws_def mat_vec_def ex_G_def seq_sum_def)
  show ?thesis unfolding fit_weights_def fp_ex_E ne by (simp add: ebind_def so)
qed

lemma ex_fit4_A:
  "fit_weights ex_E ex_SA4 ex_mask ex_fA ex_fe = Inr (ex_G4, [Fin 1, Fin 0, Fin 0, Fin 0])"
proof -
  have q: "select ex_mask (map2 (\<lambda>x e. fl_div exact x (fl_pow exact e 2)) ex_fA ex_fe)
             = [Fin 2, Fin 3, Fin 5, Fin 6]"
    by (simp add: select_def ex_mask_def ex_fA_def ex_fe_def)
  have p: "projection exact 4
             [[Fin 2, Fin (-1), Fin (1 / 2), Fin 1], [Fin 3, Fin (- (3 / 4)), Fin (3 / 16), Fin 1],
              [Fin 5, Fin (5 / 4), Fin (5 / 16), Fin 1], [Fin 6, Fin 3, Fin (3 / 2), Fin 1]]
             [Fin 2, Fin 3, Fin 5, Fin 6] = [Fin 74, Fin 20, Fin (97/8), Fin 16]"
    by (simp add: projection_def sp_row_dot_def seq_sum_def upt_rec)
  have ne: "normal_equations exact ex_SA4 ex_mask ex_fA ex_fe
              = Inr (ex_G4, [Fin 74, Fin 20, Fin (97/8), Fin 16])"
    unfolding normal_equations_def ex_select4 ex_ncols q p
    unfolding ex_info4 by (simp add: ex_mask_def ex_fe_def ex_fA_def ex_SA4_def)
  have so: "linalg_solve ex_E ex_G4 [Fin 74, Fin 20, Fin (97/8), Fin 16]
              = Inr [Fin 1, Fin 0, Fin 0, Fin 0]"
    by (simp add: ex_E_def demo_ext_def check_solve_def ex_ws_def mat_vec_def ex_G4_def seq_sum_def)
  show ?thesis unfolding fit_weights_def fp_ex_E ne by (simp add: ebind_def so)
qed

lemma ex_fit4_B:
  "fit_weights ex_E ex_SA4 ex_mask ex_fB ex_fe = Inr (ex_G4, [Fin 0, Fin 0, Fin 0, Fin 50])"
proof -
  have q: "select ex_mask (map2 (\<lambda>x e. fl_div exact x (fl_pow exact e 2)) ex_fB ex_fe)
             = [Fin 50, Fin 50, Fin 50, Fin 50]"
    by (simp add: select_def ex_mask_def ex_fB_def ex_fe_def)
  have p: "projection exact 4
             [[Fin 2, Fin (-1), Fin (1 / 2), Fin 1], [Fin 3, Fin (- (3 / 4)), Fin (3 / 16), Fin 1],
              [Fin 5, Fin (5 / 4), Fin (5 / 16), Fin 1], [Fin 6, Fin 3, Fin (3 / 2), Fin 1]]
             [Fin 50, Fin 50, Fin 50, Fin 50] = [Fin 800, Fin 125, Fin 125, Fin 200]"
    by (simp add: projection_def sp_row_dot_def seq_sum_def upt_rec)
  have ne: "normal_equations exact ex_SA4 ex_mask ex_fB ex_fe
              = Inr (ex_G4, [Fin 800, Fin 125, Fin 125, Fin 200])"
    unfolding normal_equations_def ex_select4 ex_ncols q p
    unfolding ex_info4 by (simp add: ex_mask_def ex_fe_def ex_fB_def ex_SA4_def)
  have so: "linalg_solve ex_E ex_G4 [Fin 800, Fin 125, Fin 125, Fin 200]
              = Inr [Fin 0, Fin 0, Fin 0, Fin 50]"
    by (simp add: ex_E_def demo_ext_def check_solve_def ex_ws_def mat_vec_def ex_G4_def seq_sum_def)
  show ?thesis unfolding fit_weights_def fp_ex_E ne by (simp add: ebind_def so)
qed

lemma ex_dot:
  "sp_dot exact ex_SA [Fin 1, Fin 0, Fin 0, Fin 0, Fin 0] = Inr ex_fA"
  "sp_dot exact ex_SA [Fin 0, Fin 0, Fin 0, Fin 50, Fin 20] = Inr ex_fB"
  "sp_dot exact ex_SA4 [Fin 1, Fin 0, Fin 0, Fin 0] = Inr ex_fA"
  "sp_dot exact ex_SA4 [Fin 0, Fin 0, Fin 0, Fin 50]
     = Inr [Fin 50, Fin 50, Fin 50, Fin 50, Fin 50]"
  by (simp_all add: sp_dot_def sp_row_dot_def ncols_def ex_SA_def ex_SA4_def seq_sum_def
        ex_fA_def ex_fB_def)

lemma ex_inv_E: "linalg_inv ex_E ex_G = Inr ex_inv" "linalg_inv ex_E ex_G4 = Inr ex_inv4"
  by (simp_all add: ex_E_def demo_ext_def ex_inv_ok ex_inv4_ok)

lemma ex_draw:
  "w \<noteq> [] \<Longrightarrow> last w = Fin d \<Longrightarrow>
   draw_last ex_E 50 w S g
     = Inr (map (\<lambda>k. Fin (d + (if even (g + k) then 2 else - 2))) [0..<50], g + 50)"
  unfolding ex_E_def by (rule demo_draw_last)

lemma std_alternating_simp [simp]:
  "np_std exact (map (\<lambda>k. Fin (d + (if even (g::nat) = even k then 2 else - 2))) [0..<50]) = Fin 2"
  "np_std exact (map (\<lambda>k. Fin (if even (g::nat) = even k then 2 else - 2)) [0..<50]) = Fin 2"
  using std_alternating[of d g] std_alternating[of 0 g] by simp_all

lemma ex_step_A:
  "length (model st) = 5 \<Longrightarrow>
   pixel_step ex_E ex_tpf ex_SA ex_all True (0, 0) st =
     Inr (st\<lparr>model := map2 (\<lambda>frame x. set_pixel frame 0 0 x) (model st) ex_fA,
             transit_pixels := set_pixel (transit_pixels st) 0 0 (Fin 0),
             transit_pixels_err := set_pixel (transit_pixels_err st) 0 0 (Fin 2),
             rng := rng st + 50\<rparr>)"
  unfolding pixel_step_def prod.case ex_series Let_def ex_fit_A fp_ex_E
  by (simp add: ebind_def ex_dot set_series_def ex_inv_E last_entry_def ex_draw std_alternating)
     (simp add: ex_fA_def)

lemma ex_step_B:
  "length (model st) = 5 \<Longrightarrow>
   pixel_step ex_E ex_tpf ex_SA ex_all True (0, 1) st =
     Inr (st\<lparr>model := map2 (\<lambda>frame x. set_pixel frame 0 1 x) (model st) ex_fB,
             transit_pixels := set_pixel (transit_pixels st) 0 1 (Fin 20),
             transit_pixels_err := set_pixel (transit_pixels_err st) 0 1 (Fin 2),
             rng := rng st + 50\<rparr>)"
  unfolding pixel_step_def prod.case ex_series Let_def ex_fit_B fp_ex_E
  by (simp add: ebind_def ex_dot set_series_def ex_inv_E last_entry_def ex_draw std_alternating)
     (simp add: ex_fB_def)

lemma ex_step_C: "pixel_step ex_E ex_tpf SA cm tm (0, 2) st = Inr st"
  unfolding pixel_step_def prod.case ex_series Let_def by simp

lemma ex_step4_A:
  "length (model st) = 5 \<Longrightarrow>
   pixel_step ex_E ex_tpf ex_SA4 ex_mask False (0, 0) st =
     Inr (st\<lparr>model := map2 (\<lambda>frame x. set_pixel frame 0 0 x) (model st) ex_fA\<rparr>)"
  unfolding pixel_step_def prod.case ex_series Let_def ex_fit4_A fp_ex_E
  by (simp add: ebind_def ex_dot set_series_def ex_inv_E) (simp add: ex_fA_def)

lemma ex_step4_B:
  "length (model st) = 5 \<Longrightarrow>
   pixel_step ex_E ex_tpf ex_SA4 ex_mask False (0, 1) st =
     Inr (st\<lparr>model := map2 (\<lambda>frame x. set_pixel frame 0 1 x) (model st)
                         [Fin 50, Fin 50, Fin 50, Fin 50, Fin 50]\<rparr>)"
  unfolding pixel_step_def prod.case ex_series Let_def ex_fit4_B fp_ex_E
  by (simp add: ebind_def ex_dot set_series_def ex_inv_E) (simp add: ex_fB_def)

lemma ex_shapes:
  "shape1 (flux ex_tpf) = 1" "shape2 (flux ex_tpf) = 3" "length (flux ex_tpf) = 5"
  "replicate (length (time ex_tpf)) True = ex_all"
  by (simp_all add: shape1_def shape2_def ex_tpf_def t5_def ex_all_def)

lemma ex_pixels: "pixels 1 3 = [(0, 0), (0, 1), (0, 2)]"
  by (simp add: pixels_def upt_rec)

lemma ex_init:
  "\<lparr>model = replicate 5 (zeros2 1 3), transit_pixels = zeros2 1 3,
    transit_pixels_err = zeros2 1 3, rng = (0::nat)\<rparr>
     = \<lparr>model = [[[Fin 0, Fin 0, Fin 0]], [[Fin 0, Fin 0, Fin 0]], [[Fin 0, Fin 0, Fin 0]],
                 [[Fin 0, Fin 0, Fin 0]], [[Fin 0, Fin 0, Fin 0]]],
         transit_pixels = [[Fin 0, Fin 0, Fin 0]],
         transit_pixels_err = [[Fin 0, Fin 0, Fin 0]], rng = 0\<rparr>"
  by (simp add: zeros2_def eval_nat_numeral)

lemma ex_build_model:
  "build_model ex_E 0 ex_tpf ex_lc None (Some ex_tm) None False True = Inr ex_st"
  unfolding build_model_def Let_def ex_build_X ex_shapes ex_pixels option.case ex_init
  by (simp add: ebind_def ex_step_A ex_step_B[unfolded One_nat_def] ex_step_C set_pixel_def
       ex_fA_def ex_fB_def ex_st_def)

lemma ex_build_model4:
  "build_model ex_E 0 ex_tpf ex_lc None None (Some ex_mask) False True = Inr ex_st4"
  unfolding build_model_def Let_def ex_build_X4 ex_shapes ex_pixels option.case ex_init
  by (simp add: ebind_def ex_step4_A ex_step4_B[unfolded One_nat_def] ex_step_C set_pixel_def
       ex_fA_def ex_st4_def)

lemma ex_shape: "(0::nat) < shape1 (flux ex_tpf)" "(1::nat) < shape2 (flux ex_tpf)"
  "(2::nat) < shape2 (flux ex_tpf)"
  by (simp_all add: shape1_def shape2_def ex_tpf_def)

lemma ex_finite_B: "list_ex isfinite (series (flux ex_tpf) 0 1)"
  unfolding ex_series by (simp add: ex_fB_def)

theorem nonfinite_pixel_never_contaminant_witness:
  "build_model ex_E 0 ex_tpf ex_lc None (Some ex_tm) None False True = Inr ex_st \<and>
   (2::nat) < shape2 (flux ex_tpf) \<and>
   list_all (\<lambda>frame. \<not> isfinite (frame ! 0 ! 2)) (flux ex_tpf) \<and>
   transit_pixels ex_st ! 0 ! 2 = Fin 0 \<and> transit_pixels_err ex_st ! 0 ! 2 = Fin 0 \<and>
   significance (fp ex_E) (transit_pixels ex_st) (transit_pixels_err ex_st) ! 0 ! 2 = NaN \<and>
   \<not> contaminant_aper (fp ex_E) (transit_pixels ex_st) (transit_pixels_err ex_st) ! 0 ! 2"
proof -
  have nf: "list_all (\<lambda>frame. \<not> isfinite (frame ! 0 ! 2)) (flux ex_tpf)"
    by (simp add: ex_tpf_def)
  then have h: "\<forall>t < length (flux ex_tpf). \<not> isfinite (flux ex_tpf ! t ! 0 ! 2)"
    by (simp add: list_all_length)
  from nonfinite_pixel_never_contaminant [OF ex_build_model ex_shape(1) ex_shape(3) h]
    ex_build_model ex_shape(3) nf
  show ?thesis by blast
qed

theorem template_last_column_depth_last_weight_witness:
  "build_model ex_E 0 ex_tpf ex_lc None (Some ex_tm) None False True = Inr ex_st \<and>
   (1::nat) < shape2 (flux ex_tpf) \<and> list_ex isfinite (series (flux ex_tpf) 0 1) \<and>
   transit_pixels ex_st ! 0 ! 1 = Fin 20 \<and> transit_pixels_err ex_st ! 0 ! 1 = Fin 2 \<and>
   (\<exists>SA A S w Sw xs g0 g1 mu.
           build_X ex_E ex_tpf (lc_flux ex_lc) (Some ex_tm) False None True 2 = Inr SA \<and>
           regressors ex_E ex_tpf False None True 2 = Inr A \<and>
           (\<forall>t < length (time ex_tpf).
              SA ! t = map (fl_mul (fp ex_E) (lc_flux ex_lc ! t)) (A ! t) @ [Fin 1, ex_tm ! t]) \<and>
           fit_weights ex_E SA
             (case None of None \<Rightarrow> replicate (length (time ex_tpf)) True | Some m \<Rightarrow> m)
             (series (flux ex_tpf) 0 1) (series (flux_err ex_tpf) 0 1) = Inr (S, w) \<and>
           linalg_inv ex_E S = Inr Sw \<and>
           w \<noteq> [] \<and> transit_pixels ex_st ! 0 ! 1 = last w \<and>
           draw_last ex_E 50 w Sw g0 = Inr (xs, g1) \<and> length xs = 50 \<and>
           (\<forall>k < 50. \<exists>gk gk' s. multivariate_normal ex_E gk w Sw = (s, gk') \<and> s \<noteq> [] \<and>
                        xs ! k = last s) \<and>
           mu = fl_div (fp ex_E) (np_sum (fp ex_E) xs) (Fin 50) \<and>
           transit_pixels_err ex_st ! 0 ! 1 =
             fl_sqrt (fp ex_E)
               (fl_div (fp ex_E)
                  (np_sum (fp ex_E)
                     (map (\<lambda>x. fl_mul (fp ex_E) (fl_sub (fp ex_E) x mu) (fl_sub (fp ex_E) x mu)) xs))
                  (Fin 50)))"
proof (intro conjI)
  show "build_model ex_E 0 ex_tpf ex_lc None (Some ex_tm) None False True = Inr ex_st"
    by (rule ex_build_model)
  show "(1::nat) < shape2 (flux ex_tpf)" by (rule ex_shape(2))
  show "list_ex isfinite (series (flux ex_tpf) 0 1)" by (rule ex_finite_B)
  show "transit_pixels ex_st ! 0 ! 1 = Fin 20" by (simp add: ex_st_def)
  show "transit_pixels_err ex_st ! 0 ! 1 = Fin 2" by (simp add: ex_st_def)
  show "\<exists>SA A S w Sw xs g0 g1 mu.
           build_X ex_E ex_tpf (lc_flux ex_lc) (Some ex_tm) False None True 2 = Inr SA \<and>
           regressors ex_E ex_tpf False None True 2 = Inr A \<and>
           (\<forall>t < length (time ex_tpf).
              SA ! t = map (fl_mul (fp ex_E) (lc_flux ex_lc ! t)) (A ! t) @ [Fin 1, ex_tm ! t]) \<and>
           fit_weights ex_E SA
             (case None of None \<Rightarrow> replicate (length (time ex_tpf)) True | Some m \<Rightarrow> m)
             (series (flux ex_tpf) 0 1) (series (flux_err ex_tpf) 0 1) = Inr (S, w) \<and>
           linalg_inv ex_E S = Inr Sw \<and>
           w \<noteq> [] \<and> transit_pixels ex_st ! 0 ! 1 = last w \<and>
           draw_last ex_E 50 w Sw g0 = Inr (xs, g1) \<and> length xs = 50 \<and>
           (\<forall>k < 50. \<exists>gk gk' s. multivariate_normal ex_E gk w Sw = (s, gk') \<and> s \<noteq> [] \<and>
                        xs ! k = last s) \<and>
           mu = fl_div (fp ex_E) (np_sum (fp ex_E) xs) (Fin 50) \<and>
           transit_pixels_err ex_st ! 0 ! 1 =
             fl_sqrt (fp ex_E)
               (fl_div (fp ex_E)
                  (np_sum (fp ex_E)
                     (map (\<lambda>x. fl_mul (fp ex_E) (fl_sub (fp ex_E) x mu) (fl_sub (fp ex_E) x mu)) xs))
                  (Fin 50))"
    by (rule template_last_column_depth_last_weight
          [OF ex_build_model ex_shape(1) ex_shape(2) ex_finite_B])
qed

text \<open>
  The fit of pixel B without the third cadence, at which its flux dips to 30: the model is
  50 at every cadence, the third included.
\<close>

theorem fit_on_masked_model_on_all_cadences_witness:
  "build_model ex_E 0 ex_tpf ex_lc None None (Some ex_mask) False True = Inr ex_st4 \<and>
   (1::nat) < shape2 (flux ex_tpf) \<and> list_ex isfinite ex_fB \<and>
   \<not> ex_mask ! 2 \<and> ex_fB ! 2 = Fin 30 \<and> model ex_st4 ! 2 ! 0 ! 1 = Fin 50 \<and>
   (\<exists>SA w. build_X ex_E ex_tpf (lc_flux ex_lc) None False None True 2 = Inr SA \<and>
           length (model ex_st4) = length (flux ex_tpf) \<and>
           length (flux ex_tpf) = length (time ex_tpf) \<and>
           linalg_solve ex_E
             (information_matrix (fp ex_E) (ncols SA) (select ex_mask SA) (select ex_mask ex_fe))
             (projection (fp ex_E) (ncols SA) (select ex_mask SA)
                (select ex_mask
                   (map2 (\<lambda>x e. fl_div (fp ex_E) x (fl_pow (fp ex_E) e 2)) ex_fB ex_fe)))
             = Inr w \<and>
           (\<forall>t < length (time ex_tpf).
              model ex_st4 ! t ! 0 ! 1 =
                foldl (fl_add (fp ex_E)) (Fin 0)
                  (map (\<lambda>(a, x). fl_mul (fp ex_E) a x)
                     (filter (\<lambda>(a, x). a \<noteq> Fin 0) (zip (SA ! t) w)))))"
proof -
  have cm: "ex_mask = (case Some ex_mask of None \<Rightarrow> replicate (length (time ex_tpf)) True
                       | Some m \<Rightarrow> m)"
    by simp
  have fin: "list_ex isfinite ex_fB" by (simp add: ex_fB_def)
  from fit_on_masked_model_on_all_cadences
         [OF ex_build_model4 ex_shape(1) ex_shape(2) cm
             ex_series(2)[symmetric] ex_series(5)[symmetric]]
  obtain SA where
    SA: "build_X ex_E ex_tpf (lc_flux ex_lc) None False None True 2 = Inr SA" and
    len: "length (model ex_st4) = length (flux ex_tpf)" and
    mid: "if list_ex isfinite ex_fB
          then length (flux ex_tpf) = length (time ex_tpf) \<and>
               (Some ex_mask = None \<longrightarrow> select ex_mask SA = SA \<and> select ex_mask ex_fe = ex_fe) \<and>
               (\<exists>w. linalg_solve ex_E
                      (information_matrix (fp ex_E) (ncols SA) (select ex_mask SA)
                         (select ex_mask ex_fe))
                      (projection (fp ex_E) (ncols SA) (select ex_mask SA)
                         (select ex_mask
                            (map2 (\<lambda>x e. fl_div (fp ex_E) x (fl_pow (fp ex_E) e 2)) ex_fB ex_fe)))
                      = Inr w \<and>
                    (\<forall>t < length (time ex_tpf).
                       model ex_st4 ! t ! 0 ! 1 =
                foldl (fl_add (fp ex_E)) (Fin 0)
                  (map (\<lambda>(a, x). fl_mul (fp ex_E) a x)
                     (filter (\<lambda>(a, x). a \<noteq> Fin 0) (zip (SA ! t) w)))))
          else \<forall>t < length (flux ex_tpf). model ex_st4 ! t ! 0 ! 1 = Fin 0"
    by blast
  from mid fin obtain w where
    l2: "length (flux ex_tpf) = length (time ex_tpf)" and
    w: "linalg_solve ex_E
          (information_matrix (fp ex_E) (ncols SA) (select ex_mask SA) (select ex_mask ex_fe))
          (projection (fp ex_E) (ncols SA) (select ex_mask SA)
             (select ex_mask
                (map2 (\<lambda>x e. fl_div (fp ex_E) x (fl_pow (fp ex_E) e 2)) ex_fB ex_fe)))
          = Inr w" and
    mo: "\<forall>t < length (time ex_tpf).
           model ex_st4 ! t ! 0 ! 1 =
                foldl (fl_add (fp ex_E)) (Fin 0)
                  (map (\<lambda>(a, x). fl_mul (fp ex_E) a x)
                     (filter (\<lambda>(a, x). a \<noteq> Fin 0) (zip (SA ! t) w)))"
    by auto
  show ?thesis
  proof (intro conjI exI)
    show "build_model ex_E 0 ex_tpf ex_lc None None (Some ex_mask) False True = Inr ex_st4"
      by (rule ex_build_model4)
    show "(1::nat) < shape2 (flux ex_tpf)" by (rule ex_shape(2))
    show "list_ex isfinite ex_fB" by (rule fin)
    show "\<not> ex_mask ! 2" by (simp add: ex_mask_def)
    show "ex_fB ! 2 = Fin 30" by (simp add: ex_fB_def)
    show "model ex_st4 ! 2 ! 0 ! 1 = Fin 50" by (simp add: ex_st4_def)
    show "build_X ex_E ex_tpf (lc_flux ex_lc) None False None True 2 = Inr SA" by (rule SA)
    show "length (model ex_st4) = length (flux ex_tpf)" by (rule len)
    show "length (flux ex_tpf) = length (time ex_tpf)" by (rule l2)
    show "linalg_solve ex_E
          (information_matrix (fp ex_E) (ncols SA) (select ex_mask SA) (select ex_mask ex_fe))
          (projection (fp ex_E) (ncols SA) (select ex_mask SA)
             (select ex_mask
                (map2 (\<lambda>x e. fl_div (fp ex_E) x (fl_pow (fp ex_E) e 2)) ex_fB ex_fe)))
          = Inr w" by (rule w)
    show "\<forall>t < length (time ex_tpf).
           model ex_st4 ! t ! 0 ! 1 =
                foldl (fl_add (fp ex_E)) (Fin 0)
                  (map (\<lambda>(a, x). fl_mul (fp ex_E) a x)
                     (filter (\<lambda>(a, x). a \<noteq> Fin 0) (zip (SA ! t) w)))" by (rule mo)
  qed
qed

subsection \<open>get_centroid_plot on the example observation\<close>

lemma ex_E_fields:
  "to_lightcurve ex_E = aperture_photometry"
  "bls_transit_model ex_E lc = [Fin 1, Fin 1, Fin (1/2), Fin 1, Fin 1]"
  "bls_depth ex_E lc = Fin (1/2)"
  "bls_transit_mask ex_E lc = ex_mask"
  "np_nanmedian ex_E = finite_median"
  "create_threshold_mask ex_E tpf = map (map (\<lambda>b. True)) (pipeline_mask tpf)"
  "linalg_solve ex_E = check_solve ex_ws"
  by (simp_all add: ex_E_def demo_ext_def)

lemma ex_drop: "drop_zero_frames exact ex_tpf = ex_tpf"
  by (simp add: drop_zero_frames_def tpf_index_def ex_tpf_def frame_kept_def nansum_def np_sum_exact
       select_def t5_def)

lemma ex_aperture: "baseline_aperture ex_E ex_tpf = ex_aper"
  by (simp add: baseline_aperture_def mask_any_def ex_tpf_def ex_aper_def)

lemma ex_raw_A: "to_lightcurve ex_E ex_tpf ex_aper = ex_lc"
  by (simp add: ex_E_fields aperture_photometry_def ex_tpf_def ex_aper_def ex_lc_def select_pixels_def
       select_def seq_sum_def t5_def)

lemma ex_raw_B: "to_lightcurve ex_E ex_tpf ex_cont =
    \<lparr>lc_time = t5, lc_flux = ex_fB, lc_flux_err = ex_fe\<rparr>"
  by (simp add: ex_E_fields aperture_photometry_def ex_tpf_def ex_cont_def select_pixels_def
       select_def seq_sum_def t5_def ex_fB_def ex_fe_def)

lemma ex_template: "normalise_template ex_E ex_lc [Fin 1, Fin 1, Fin (1/2), Fin 1, Fin 1] = ex_tm"
  by (simp add: normalise_template_def ex_E_fields finite_median_def fl_sub_def ex_tm_def)

lemma ex_design: "p \<noteq> 0 \<Longrightarrow> build_lc_design ex_E ex_tpf None False True p = Inr ex_D"
proof -
  assume p: "p \<noteq> 0"
  have "build_X ex_E ex_tpf (replicate (length (time ex_tpf)) (Fin 1)) None False None True p
     = Inr (map (\<lambda>row. row @ [Fin 1]) ex_D)"
    unfolding build_X_def ex_regressors[OF p]
    by (simp add: ebind_def weight_rows_def hstack_def column_def ex_tpf_def t5_def ex_D_def)
  then show ?thesis
    unfolding build_lc_design_def by (simp add: ebind_def o_def)
qed

lemma ex_selectD:
  "select ex_mask ex_D = [[Fin 1, Fin (- (1/2)), Fin (1/4)], [Fin 1, Fin (- (1/4)), Fin (1/16)],
        [Fin 1, Fin (1/4), Fin (1/16)], [Fin 1, Fin (1/2), Fin (1/4)]]"
  "select ex_mask ex_fe = [Fin 1, Fin 1, Fin 1, Fin 1]"
  "select ex_mask (map2 (\<lambda>x e. fl_div exact x (fl_pow exact e 2)) ex_fA ex_fe)
     = [Fin 2, Fin 3, Fin 5, Fin 6]"
  "select ex_mask (map2 (\<lambda>x e. fl_div exact x (fl_pow exact e 2)) ex_fB ex_fe)
     = [Fin 50, Fin 50, Fin 50, Fin 50]"
  by (simp_all add: select_def ex_mask_def ex_D_def ex_fe_def ex_fA_def ex_fB_def)

lemma ex_ncolsD: "ncols ex_D = 3" "length ex_D = 5"
  by (simp_all add: ncols_def ex_D_def)

lemma ex_lc_model_A: "build_lc_model ex_E ex_D ex_mask ex_lc = Inr ex_fA"
proof -
  have ne: "normal_equations exact ex_D ex_mask ex_fA ex_fe =
      Inr ([[Fin 4, Fin 0, Fin (5/8)], [Fin 0, Fin (5/8), Fin 0], [Fin (5/8), Fin 0, Fin (17/128)]],
           [Fin 16, Fin (5/2), Fin (5/2)])"
    unfolding normal_equations_def ex_selectD ex_ncolsD
    by (simp add: ex_mask_def ex_fe_def ex_fA_def information_matrix_def projection_def
         sp_row_dot_def seq_sum_def upt_rec)
  have so: "linalg_solve ex_E
              [[Fin 4, Fin 0, Fin (5/8)], [Fin 0, Fin (5/8), Fin 0], [Fin (5/8), Fin 0, Fin (17/128)]]
              [Fin 16, Fin (5/2), Fin (5/2)] = Inr [Fin 4, Fin 4, Fin 0]"
    by (simp add: ex_E_fields check_solve_def ex_ws_def mat_vec_def seq_sum_def)
  have dot: "sp_dot exact ex_D [Fin 4, Fin 4, Fin 0] = Inr ex_fA"
    by (simp add: sp_dot_def sp_row_dot_def ncols_def ex_D_def seq_sum_def ex_fA_def)
  show ?thesis
    unfolding build_lc_model_def fit_weights_def fp_ex_E
    by (simp add: ex_lc_def ex_fA_def[symmetric] ex_fe_def[symmetric] ne so dot ebind_def)
qed

lemma ex_lc_model_B:
  "build_lc_model ex_E ex_D ex_mask \<lparr>lc_time = t5, lc_flux = ex_fB, lc_flux_err = ex_fe\<rparr>
     = Inr [Fin 50, Fin 50, Fin 50, Fin 50, Fin 50]"
proof -
  have ne: "normal_equations exact ex_D ex_mask ex_fB ex_fe =
      Inr ([[Fin 4, Fin 0, Fin (5/8)], [Fin 0, Fin (5/8), Fin 0], [Fin (5/8), Fin 0, Fin (17/128)]],
           [Fin 200, Fin 0, Fin (125/4)])"
    unfolding normal_equations_def ex_selectD ex_ncolsD
    by (simp add: ex_mask_def ex_fe_def ex_fB_def information_matrix_def projection_def
         sp_row_dot_def seq_sum_def upt_rec)
  have so: "linalg_solve ex_E
              [[Fin 4, Fin 0, Fin (5/8)], [Fin 0, Fin (5/8), Fin 0], [Fin (5/8), Fin 0, Fin (17/128)]]
              [Fin 200, Fin 0, Fin (125/4)] = Inr [Fin 50, Fin 0, Fin 0]"
    by (simp add: ex_E_fields check_solve_def ex_ws_def mat_vec_def seq_sum_def)
  have dot: "sp_dot exact ex_D [Fin 50, Fin 0, Fin 0] = Inr [Fin 50, Fin 50, Fin 50, Fin 50, Fin 50]"
    by (simp add: sp_dot_def sp_row_dot_def ncols_def ex_D_def seq_sum_def)
  show ?thesis
    unfolding build_lc_model_def fit_weights_def fp_ex_E
    by (simp add: ne so dot ebind_def)
qed

lemma ex_build_lc_A:
  "p \<noteq> 0 \<Longrightarrow> build_lc ex_E ex_tpf ex_aper None (Some ex_mask) False True p = Inr ex_target"
  unfolding build_lc_def Let_def option.case
  by (simp add: ex_design ebind_def ex_raw_A ex_lc_model_A)
     (simp add: lc_truediv_def ex_lc_def ex_fA_def ex_target_def)

lemma ex_build_lc_B:
  "p \<noteq> 0 \<Longrightarrow> build_lc ex_E ex_tpf ex_cont None (Some ex_mask) False True p = Inr ex_contaminator"
  unfolding build_lc_def Let_def option.case
  by (simp add: ex_design ebind_def ex_raw_B ex_lc_model_B)
     (simp add: lc_truediv_def ex_fB_def ex_fe_def ex_contaminator_def)

lemma ex_cont_aper:
  "contaminant_aper exact (transit_pixels ex_st) (transit_pixels_err ex_st) = ex_cont"
  "significance exact (transit_pixels ex_st) (transit_pixels_err ex_st) = [[Fin 0, Fin 10, NaN]]"
  by (simp_all add: contaminant_aper_def significance_def ex_st_def ex_cont_def)

lemma ex_cadence_mean:
  "cadence_mean exact ex_cont (coord_ra ex_tpf) = [Fin 11]"
  "cadence_mean exact ex_cont (coord_dec ex_tpf) = [Fin 21]"
  "cadence_mean exact ex_aper (coord_ra ex_tpf) = [Fin 10]"
  "cadence_mean exact ex_aper (coord_dec ex_tpf) = [Fin 20]"
  by (simp_all add: cadence_mean_def count_true_def ex_cont_def ex_aper_def ex_tpf_def t5_def
        select_pixels_def select_def fl_mean_def np_sum_exact)

lemma ex_target_position:
  "target_position ex_E ex_tpf ex_aper (coord_ra ex_tpf) = Inr (Fin 10)"
  "target_position ex_E ex_tpf ex_aper (coord_dec ex_tpf) = Inr (Fin 20)"
proof -
  have sh: "shape1 (flux ex_tpf) = 1" "shape2 (flux ex_tpf) = 3"
    by (simp_all add: shape1_def shape2_def ex_tpf_def)
  have med: "finite_median ex_fA = Fin 4"
    by (simp add: finite_median_def ex_fA_def)
  have w: "map (fl_sqrt exact) (select_pixels ex_aper
             (map (\<lambda>idx. map (\<lambda>jdx. np_nanmedian ex_E (series (flux ex_tpf) idx jdx))
                     [0..<shape2 (flux ex_tpf)]) [0..<shape1 (flux ex_tpf)])) = [Fin 2]"
    unfolding sh ex_E_fields
    by (simp add: upt_rec select_pixels_def select_def ex_aper_def ex_series[unfolded One_nat_def]
          ex_series med)
  show "target_position ex_E ex_tpf ex_aper (coord_ra ex_tpf) = Inr (Fin 10)"
    "target_position ex_E ex_tpf ex_aper (coord_dec ex_tpf) = Inr (Fin 20)"
    unfolding target_position_def fp_ex_E w ex_cadence_mean
    by (simp_all add: np_average_def np_sum_exact)
qed

lemma ex_segment_step:
  "p \<noteq> 0 \<Longrightarrow> segment_step ex_E False p ex_tpf gcp_init =
     Inr \<lparr>contaminator = Some ex_contaminator, target = Some ex_target,
          coords_weights = [[Fin 10]], coords_ra = [[Fin 11]], coords_dec = [[Fin 21]],
          ra_target = [Fin 10], dec_target = [Fin 20], gen = 100\<rparr>"
proof -
  assume p: "p \<noteq> 0"
  have ns: "\<not> fl_eq (np_sum exact [Fin 1, Fin 1, Fin (1/2), Fin 1, Fin 1]) (Fin 0)"
    by (simp add: np_sum_exact)
  have g: "gen gcp_init = 0" by (simp add: gcp_init_def)
  have any: "mask_any ex_cont" by (simp add: mask_any_def ex_cont_def)
  have w: "select_pixels ex_cont [[Fin 0, Fin 10, NaN]] = [Fin 10]"
    by (simp add: select_pixels_def select_def ex_cont_def)
  from p have p4: "p * 4 \<noteq> 0" by simp
  show ?thesis
    unfolding segment_step_def Let_def fp_ex_E ex_drop ex_aperture ex_raw_A ex_E_fields(2-4)
      ex_template g
    by (simp add: ns ebind_def ex_build_lc_A[OF p4] ex_build_lc_B[OF p4] ex_build_model
          ex_cont_aper any ex_cadence_mean w ex_target_position)
       (simp add: gcp_init_def append_opt_def ex_st_def)
qed

lemma ex_get_centroid_plot:
  "get_centroid_plot ex_E 0 False [ex_tpf] [] 1 = Inr ex_result"
  unfolding get_centroid_plot_def
  by (simp add: ebind_def gcp_init_def[symmetric] ex_segment_step finalise_def fl_mean_def
        np_sum_exact np_average_def ex_result_def)

lemma segment_step_skip:
  "template_degenerate E tpf0 \<Longrightarrow> segment_step E bg period tpf0 st = Inr st"
  by (simp add: segment_step_def template_degenerate_def segment_lc_def Let_def)

lemma segment_loop_skip:
  "\<forall>tpf \<in> set tpfs. template_degenerate E tpf \<Longrightarrow> segment_loop E bg period tpfs st = Inr st"
  by (induction tpfs) (simp_all add: segment_step_skip ebind_def)

text \<open>
  C9, where the code departs from it.  When every stamp is skipped no contaminant pixel is
  found, and \<^verbatim>\<open>get_centroid_plot\<close> does not return: the lists of coordinates are empty
  and \<^verbatim>\<open>np.hstack\<close> of line 219 raises ValueError.
\<close>

theorem all_segments_skipped_raises:
  assumes "sr \<noteq> []" "\<forall>tpf \<in> set sr. template_degenerate E tpf"
  shows "get_centroid_plot E g tess sr tesscut period = Inl ValueError"
  using assms
  by (simp add: get_centroid_plot_def segment_loop_skip ebind_def finalise_def)

text \<open>
  When a stamp was processed and no pixel is in any contaminant aperture, the lists hold
  empty arrays: the final position is NaN and no contaminant light curve has been built.
\<close>

lemma finalise_no_contaminant:
  assumes "coords_ra st \<noteq> []" "concat (coords_ra st) = []"
  shows "finalise F st =
           Inr \<lparr>res_ra_target = fl_mean F (ra_target st), res_dec_target = fl_mean F (dec_target st),
                res_ra = NaN, res_dec = NaN, res_target = target st,
                res_contaminator = contaminator st\<rparr>"
  using assms by (simp add: finalise_def ebind_def)

lemma segment_step_unfold:
  "segment_step E bg period tpf0 st =
     (let tpf = drop_zero_frames (fp E) tpf0; lc = segment_lc E tpf0;
          aper = baseline_aperture E tpf
      in if template_degenerate E tpf0 then Inr st
         else
           ebind (build_lc E tpf aper None (Some (bls_transit_mask E lc)) bg True (period * 4)) (\<lambda>tlc.
           ebind (build_model E (gen st) tpf lc None (Some (segment_template E tpf0)) None bg True) (\<lambda>bm.
             let cont = contaminant_aper (fp E) (transit_pixels bm) (transit_pixels_err bm);
                 st1 = st\<lparr>target := append_opt (target st) tlc,
                          coords_ra := coords_ra st @ [cadence_mean (fp E) cont (coord_ra tpf)],
                          coords_dec := coords_dec st @ [cadence_mean (fp E) cont (coord_dec tpf)],
                          coords_weights := coords_weights st @
                            [select_pixels cont
                               (significance (fp E) (transit_pixels bm) (transit_pixels_err bm))],
                          gen := rng bm\<rparr>
             in ebind (if mask_any cont
                       then ebind (build_lc E tpf cont None (Some (bls_transit_mask E lc)) bg True
                                     (period * 4))
                              (\<lambda>clc. Inr (st1\<lparr>contaminator := append_opt (contaminator st1) clc\<rparr>))
                       else Inr st1) (\<lambda>st2.
                ebind (target_position E tpf aper (coord_ra tpf)) (\<lambda>ra.
                ebind (target_position E tpf aper (coord_dec tpf)) (\<lambda>dec.
                  Inr (st2\<lparr>ra_target := ra_target st2 @ [ra],
                           dec_target := dec_target st2 @ [dec]\<rparr>)))))))"
  by (simp add: segment_step_def Let_def segment_lc_def template_degenerate_def segment_template_def)

text \<open>
  C7.  For a stamp that is not skipped, the contaminant aperture of \<^verbatim>\<open>get_centroid_plot\<close>
  is true at a pixel exactly when the quotient of its depth and its depth error, as
  \<^verbatim>\<open>build_model\<close> returns them, is above 5; and it is this one mask that selects the
  coordinates and the weights appended to the accumulators, that decides whether a contaminant
  light curve is built, and that is the aperture of that light curve: nothing assigns to the
  mask after line 200.
\<close>

theorem segment_mask_is_significance_above_5:
  assumes "segment_step E bg period tpf0 st = Inr st'" "\<not> template_degenerate E tpf0"
    and "tpf = drop_zero_frames (fp E) tpf0"
  shows "\<exists>bm mask.
           build_model E (gen st) tpf (segment_lc E tpf0) None (Some (segment_template E tpf0))
             None bg True = Inr bm \<and>
           mask = contaminant_aper (fp E) (transit_pixels bm) (transit_pixels_err bm) \<and>
           (\<forall>i < shape1 (flux tpf). \<forall>j < shape2 (flux tpf).
              mask ! i ! j \<longleftrightarrow>
                fl_gt (fl_div (fp E) (transit_pixels bm ! i ! j) (transit_pixels_err bm ! i ! j))
                  (Fin 5)) \<and>
           coords_ra st' = coords_ra st @ [cadence_mean (fp E) mask (coord_ra tpf)] \<and>
           coords_dec st' = coords_dec st @ [cadence_mean (fp E) mask (coord_dec tpf)] \<and>
           coords_weights st' = coords_weights st @
             [select_pixels mask (significance (fp E) (transit_pixels bm) (transit_pixels_err bm))] \<and>
           (if mask_any mask
            then \<exists>clc. build_lc E tpf mask None (Some (bls_transit_mask E (segment_lc E tpf0))) bg True
                          (period * 4) = Inr clc \<and>
                       contaminator st' = append_opt (contaminator st) clc
            else contaminator st' = contaminator st)"
proof -
  let ?lc = "segment_lc E tpf0"
  let ?tmask = "bls_transit_mask E ?lc"
  from assms(1)[unfolded segment_step_unfold Let_def assms(3)[symmetric] if_not_P[OF assms(2)]]
  show ?thesis
  proof (elim ebind_InrE, goal_cases)
    case (1 tlc bm st2 ra dec)
    let ?mask = "contaminant_aper (fp E) (transit_pixels bm) (transit_pixels_err bm)"
    note bm = 1(2)
    from 1(6) have st': "st' = st2\<lparr>ra_target := ra_target st2 @ [ra], dec_target := dec_target st2 @ [dec]\<rparr>"
      by simp
    note st2 = 1(3)
    from build_model_Inr[OF bm] obtain SA st0 where
      sh0: "state_shape (length (flux tpf)) (shape1 (flux tpf)) (shape2 (flux tpf)) st0" and
      loop: "pixel_loop E tpf SA
             (case None of None \<Rightarrow> replicate (length (time tpf)) True | Some m \<Rightarrow> m)
             (Some (segment_template E tpf0) \<noteq> None)
             (pixels (shape1 (flux tpf)) (shape2 (flux tpf))) st0 = Inr bm"
      by blast
    from pixel_loop_shape[OF loop sh0]
    have sh: "shaped (shape1 (flux tpf)) (shape2 (flux tpf)) (transit_pixels bm)"
             "shaped (shape1 (flux tpf)) (shape2 (flux tpf)) (transit_pixels_err bm)"
      by (simp_all add: state_shape_def)
    have a: "\<forall>i < shape1 (flux tpf). \<forall>j < shape2 (flux tpf).
              ?mask ! i ! j \<longleftrightarrow>
                fl_gt (fl_div (fp E) (transit_pixels bm ! i ! j) (transit_pixels_err bm ! i ! j))
                  (Fin 5)"
      using contaminant_aper_nth[OF sh] by blast
    have b: "coords_ra st' = coords_ra st @ [cadence_mean (fp E) ?mask (coord_ra tpf)] \<and>
           coords_dec st' = coords_dec st @ [cadence_mean (fp E) ?mask (coord_dec tpf)] \<and>
           coords_weights st' = coords_weights st @
             [select_pixels ?mask (significance (fp E) (transit_pixels bm) (transit_pixels_err bm))]"
      using st2 st' by (cases "mask_any ?mask") (auto simp: ebind_Inr)
    have c: "if mask_any ?mask
            then \<exists>clc. build_lc E tpf ?mask None (Some ?tmask) bg True (period * 4) = Inr clc \<and>
                       contaminator st' = append_opt (contaminator st) clc
            else contaminator st' = contaminator st"
      using st2 st' by (cases "mask_any ?mask") (auto simp: ebind_Inr)
    show ?case
      by (intro exI[of _ bm] exI[of _ ?mask] conjI refl) (fact bm a b[THEN conjunct1]
        b[THEN conjunct2, THEN conjunct1] b[THEN conjunct2, THEN conjunct2] c)+
  qed
qed

lemma ex_not_degenerate: "\<not> template_degenerate ex_E ex_tpf"
  by (simp add: template_degenerate_def ex_E_fields np_sum_exact)

lemma ex_degenerate: "template_degenerate ex_E0 ex_tpf"
  by (simp add: template_degenerate_def ex_E0_def demo_ext_def np_sum_exact)

lemma ex_segment_lc: "segment_lc ex_E ex_tpf = ex_lc"
  by (simp add: segment_lc_def ex_drop ex_aperture ex_raw_A)

lemma ex_segment_template: "segment_template ex_E ex_tpf = ex_tm"
  by (simp add: segment_template_def ex_segment_lc ex_E_fields ex_template)

theorem segment_mask_is_significance_above_5_witness:
  "segment_step ex_E False 1 ex_tpf gcp_init = Inr ex_gcp \<and>
   \<not> template_degenerate ex_E ex_tpf \<and>
   (\<exists>bm mask.
           build_model ex_E (gen gcp_init) ex_tpf (segment_lc ex_E ex_tpf) None
             (Some (segment_template ex_E ex_tpf)) None False True = Inr bm \<and>
           mask = contaminant_aper (fp ex_E) (transit_pixels bm) (transit_pixels_err bm) \<and>
           (\<forall>i < shape1 (flux ex_tpf). \<forall>j < shape2 (flux ex_tpf).
              mask ! i ! j \<longleftrightarrow>
                fl_gt (fl_div (fp ex_E) (transit_pixels bm ! i ! j) (transit_pixels_err bm ! i ! j))
                  (Fin 5)) \<and>
           coords_ra ex_gcp = coords_ra gcp_init @ [cadence_mean (fp ex_E) mask (coord_ra ex_tpf)] \<and>
           coords_dec ex_gcp = coords_dec gcp_init @ [cadence_mean (fp ex_E) mask (coord_dec ex_tpf)] \<and>
           coords_weights ex_gcp = coords_weights gcp_init @
             [select_pixels mask
                (significance (fp ex_E) (transit_pixels bm) (transit_pixels_err bm))] \<and>
           (if mask_any mask
            then \<exists>clc. build_lc ex_E ex_tpf mask None
                          (Some (bls_transit_mask ex_E (segment_lc ex_E ex_tpf))) False True
                          (1 * 4) = Inr clc \<and>
                       contaminator ex_gcp = append_opt (contaminator gcp_init) clc
            else contaminator ex_gcp = contaminator gcp_init))"
proof (intro conjI)
  have step: "segment_step ex_E False 1 ex_tpf gcp_init = Inr ex_gcp"
    unfolding ex_gcp_def by (rule ex_segment_step) simp
  have dr: "ex_tpf = drop_zero_frames (fp ex_E) ex_tpf"
    by (simp add: ex_drop)
  show "segment_step ex_E False 1 ex_tpf gcp_init = Inr ex_gcp" by (rule step)
  show "\<not> template_degenerate ex_E ex_tpf" by (rule ex_not_degenerate)
  show "\<exists>bm mask.
           build_model ex_E (gen gcp_init) ex_tpf (segment_lc ex_E ex_tpf) None
             (Some (segment_template ex_E ex_tpf)) None False True = Inr bm \<and>
           mask = contaminant_aper (fp ex_E) (transit_pixels bm) (transit_pixels_err bm) \<and>
           (\<forall>i < shape1 (flux ex_tpf). \<forall>j < shape2 (flux ex_tpf).
              mask ! i ! j \<longleftrightarrow>
                fl_gt (fl_div (fp ex_E) (transit_pixels bm ! i ! j) (transit_pixels_err bm ! i ! j))
                  (Fin 5)) \<and>
           coords_ra ex_gcp = coords_ra gcp_init @ [cadence_mean (fp ex_E) mask (coord_ra ex_tpf)] \<and>
           coords_dec ex_gcp = coords_dec gcp_init @ [cadence_mean (fp ex_E) mask (coord_dec ex_tpf)] \<and>
           coords_weights ex_gcp = coords_weights gcp_init @
             [select_pixels mask
                (significance (fp ex_E) (transit_pixels bm) (transit_pixels_err bm))] \<and>
           (if mask_any mask
            then \<exists>clc. build_lc ex_E ex_tpf mask None
                          (Some (bls_transit_mask ex_E (segment_lc ex_E ex_tpf))) False True
                          (1 * 4) = Inr clc \<and>
                       contaminator ex_gcp = append_opt (contaminator gcp_init) clc
            else contaminator ex_gcp = contaminator gcp_init)"
    by (rule segment_mask_is_significance_above_5 [OF step ex_not_degenerate dr])
qed

theorem all_segments_skipped_raises_witness:
  "[ex_tpf] \<noteq> [] \<and> template_degenerate ex_E0 ex_tpf \<and>
   get_centroid_plot ex_E0 0 True [ex_tpf] [] 1 = Inl ValueError"
proof -
  have "\<forall>tpf \<in> set [ex_tpf]. template_degenerate ex_E0 tpf"
    by (simp add: ex_degenerate)
  from all_segments_skipped_raises [OF _ this, of 0 True "[]" 1] ex_degenerate
  show ?thesis by simp
qed

text \<open>
  C8, evaluated where the code departs from it: one stamp whose transit model sums to zero.
  The stamp is skipped without an error, as claimed, but then nothing has been accumulated and
  \<^verbatim>\<open>np.hstack\<close> of line 219 raises ValueError: the whole computation is aborted.
\<close>

theorem degenerate_template_aborts:
  "segment_step ex_E0 False 1 ex_tpf gcp_init = Inr gcp_init \<and>
   segment_loop ex_E0 False 1 [ex_tpf] gcp_init = Inr gcp_init \<and>
   finalise (fp ex_E0) gcp_init = Inl ValueError \<and>
   get_centroid_plot ex_E0 0 False [ex_tpf] [] 1 = Inl ValueError"
  by (simp add: segment_step_skip[OF ex_degenerate] get_centroid_plot_def ebind_def
       gcp_init_def[symmetric]) (simp add: finalise_def gcp_init_def)

end
